theory Spec2Isabelle
  imports
    Complex_Main
    "HOL-Library.Sublist"
    "HOL-Library.Char_ord"
    "HOL-Library.List_Lexorder"
    "HOL-Library.Product_Lexorder"
begin

section \<open>JavaScript values\<close>

text \<open>
  The data access layer and the API routes of the site are TypeScript. Their values are
  modelled by one datatype: the request bodies that \<^verbatim>\<open>request.json()\<close> yields, the
  positional parameters handed to the database driver, the rows it returns and the
  bodies given to \<^verbatim>\<open>JSON.stringify\<close>.

  A string is a list of 8-bit characters holding the UTF-8 encoding of the text, so that
  ASCII text is written as it is in the source. A number is the rational value of an
  IEEE double; where the code computes a number (\<^verbatim>\<open>parseInt\<close>, the offset of a
  page) the result is rounded to the nearest double by \<open>round_double\<close> below, and an
  integer of magnitude \<open>2 ^ 1024\<close> stands for \<^verbatim>\<open>Infinity\<close>. \<^verbatim>\<open>NaN\<close> arises only
  from \<^verbatim>\<open>parseInt\<close> and is the value \<open>None\<close> of \<open>parseInt10\<close>; \<^verbatim>\<open>-0\<close> is \<open>0\<close>.
  A \<^verbatim>\<open>Date\<close> is its instant.
\<close>

datatype jsval =
    JUndefined
  | JNull
  | JBool bool
  | JNum rat
  | JStr string
  | JDate nat
  | JArr "jsval list"
  | JObj "(string \<times> jsval) list"

type_synonym jsobj = "(string \<times> jsval) list"

text \<open>\<^verbatim>\<open>obj.k\<close> on an object: the value of the property, \<^verbatim>\<open>undefined\<close> when absent.\<close>

definition field :: "jsobj \<Rightarrow> string \<Rightarrow> jsval" where
  "field obj k = (case map_of obj k of None \<Rightarrow> JUndefined | Some v \<Rightarrow> v)"

text \<open>
  \<^verbatim>\<open>body.k\<close> on a parsed request body that is neither \<^verbatim>\<open>null\<close> nor
  \<^verbatim>\<open>undefined\<close>. The routes read only the field names of the entities, none of which
  is a built-in property of a string, number, boolean or array, so on those the read
  yields \<^verbatim>\<open>undefined\<close>.
\<close>

fun property :: "jsval \<Rightarrow> string \<Rightarrow> jsval" where
  "property (JObj kvs) k = field kvs k"
| "property _ k = JUndefined"

text \<open>Truthiness, as \<^verbatim>\<open>!v\<close>, \<^verbatim>\<open>v || d\<close> and \<^verbatim>\<open>if (v)\<close> use it.\<close>

fun truthy :: "jsval \<Rightarrow> bool" where
  "truthy JUndefined = False"
| "truthy JNull = False"
| "truthy (JBool b) = b"
| "truthy (JNum q) = (q \<noteq> 0)"
| "truthy (JStr s) = (s \<noteq> [])"
| "truthy (JDate t) = True"
| "truthy (JArr vs) = True"
| "truthy (JObj kvs) = True"

fun typeof :: "jsval \<Rightarrow> string" where
  "typeof JUndefined = ''undefined''"
| "typeof JNull = ''object''"
| "typeof (JBool b) = ''boolean''"
| "typeof (JNum q) = ''number''"
| "typeof (JStr s) = ''string''"
| "typeof (JDate t) = ''object''"
| "typeof (JArr vs) = ''object''"
| "typeof (JObj kvs) = ''object''"

text \<open>\<^verbatim>\<open>s.includes(sub)\<close>: \<open>sub\<close> occurs in \<open>s\<close> as a contiguous run.\<close>

definition str_includes :: "string \<Rightarrow> string \<Rightarrow> bool" where
  "str_includes s sub = sublist sub s"

section \<open>Thrown values\<close>

text \<open>
  What the database driver may throw: an \<^verbatim>\<open>Error\<close> instance with its message, or any
  other value. Everything the library and the routes throw themselves is an
  \<^verbatim>\<open>Error\<close> instance, represented by its message.
\<close>

datatype thrown = ErrorInstance string | OtherValue

datatype error = Error (message: string)

section \<open>The query executor (db.ts)\<close>

text \<open>
  \<^verbatim>\<open>sql = neon(DATABASE_URL)\<close> is the external driver: it takes the statement text and
  the positional parameters and resolves to the rows, or throws. It is a parameter of
  every function of the library, over a state \<open>'s\<close> of the store that it may change.
  A row is an object. An absent \<^verbatim>\<open>params\<close> is the empty list. \<^verbatim>\<open>console.error\<close> is
  not modelled.
\<close>

type_synonym ('q, 's) driver = "'q \<Rightarrow> jsval list \<Rightarrow> 's \<Rightarrow> (thrown + jsobj list) \<times> 's"

definition query :: "('q, 's) driver \<Rightarrow> 'q \<Rightarrow> jsval list \<Rightarrow> 's \<Rightarrow> (error + jsobj list) \<times> 's" where
  "query sql queryText params s =
     (case sql queryText params s of
        (Inr result, s') \<Rightarrow> (Inr result, s')
      | (Inl e, s') \<Rightarrow>
          (Inl (Error (''Database operation failed: '' @
                  (case e of ErrorInstance m \<Rightarrow> m | OtherValue \<Rightarrow> ''Unknown error''))), s'))"

text \<open>
  \<^verbatim>\<open>results[0] || null\<close>: a row is an object and so truthy; on the empty array
  \<^verbatim>\<open>results[0]\<close> is \<^verbatim>\<open>undefined\<close> and the value is \<^verbatim>\<open>null\<close>, here \<open>None\<close>.
  The \<^verbatim>\<open>catch\<close> rethrows what it caught.
\<close>

definition queryOne :: "('q, 's) driver \<Rightarrow> 'q \<Rightarrow> jsval list \<Rightarrow> 's \<Rightarrow> (error + jsobj option) \<times> 's" where
  "queryOne sql queryText params s =
     (case query sql queryText params s of
        (Inr results, s') \<Rightarrow> (Inr (case results of [] \<Rightarrow> None | r # _ \<Rightarrow> Some r), s')
      | (Inl e, s') \<Rightarrow> (Inl e, s'))"

section \<open>Numbers\<close>

text \<open>
  The integers that the code computes are IEEE doubles. \<open>round_double n\<close> is the double
  nearest to the integer \<open>n\<close>, ties to the even significand: \<open>n\<close> itself up to
  \<open>2 ^ 53\<close> in magnitude, a multiple of a power of two with 53 significant bits beyond
  that, and \<^verbatim>\<open>Infinity\<close>, written \<open>2 ^ 1024\<close>, from \<open>2 ^ 1024 - 2 ^ 970\<close> on.
\<close>

function bit_length :: "int \<Rightarrow> nat" where
  "bit_length n = (if n \<le> 0 then 0 else Suc (bit_length (n div 2)))"
  by pat_completeness auto
termination by (relation "measure nat") auto

declare bit_length.simps [simp del]

definition nearest_double :: "int \<Rightarrow> int" where
  "nearest_double m =
     (let e = bit_length m - 53;
          q = m div 2 ^ e;
          r = m mod 2 ^ e;
          half = 2 ^ (e - 1)
      in (if half < r \<or> (r = half \<and> odd q) then q + 1 else q) * 2 ^ e)"

definition round_double :: "int \<Rightarrow> int" where
  "round_double n =
     (if \<bar>n\<bar> \<le> 2 ^ 53 then n
      else if 2 ^ 1024 - 2 ^ 970 \<le> \<bar>n\<bar> then sgn n * 2 ^ 1024
      else sgn n * nearest_double \<bar>n\<bar>)"

section \<open>Strings: white space, trim, parseInt\<close>

text \<open>
  The white space of ECMAScript (\<^verbatim>\<open>WhiteSpace\<close> and \<^verbatim>\<open>LineTerminator\<close>), each
  character as its UTF-8 encoding: TAB, LF, VT, FF, CR, SP, U+00A0, U+1680,
  U+2000 to U+200A, U+2028, U+2029, U+202F, U+205F, U+3000 and U+FEFF.
  \<^verbatim>\<open>trim\<close> and \<^verbatim>\<open>parseInt\<close> skip exactly these.
\<close>

definition white_space :: "string list" where
  "white_space =
     [[CHR 0x09], [CHR 0x0A], [CHR 0x0B], [CHR 0x0C], [CHR 0x0D], [CHR 0x20],
      [CHR 0xC2, CHR 0xA0],
      [CHR 0xE1, CHR 0x9A, CHR 0x80],
      [CHR 0xE2, CHR 0x80, CHR 0x80], [CHR 0xE2, CHR 0x80, CHR 0x81],
      [CHR 0xE2, CHR 0x80, CHR 0x82], [CHR 0xE2, CHR 0x80, CHR 0x83],
      [CHR 0xE2, CHR 0x80, CHR 0x84], [CHR 0xE2, CHR 0x80, CHR 0x85],
      [CHR 0xE2, CHR 0x80, CHR 0x86], [CHR 0xE2, CHR 0x80, CHR 0x87],
      [CHR 0xE2, CHR 0x80, CHR 0x88], [CHR 0xE2, CHR 0x80, CHR 0x89],
      [CHR 0xE2, CHR 0x80, CHR 0x8A],
      [CHR 0xE2, CHR 0x80, CHR 0xA8], [CHR 0xE2, CHR 0x80, CHR 0xA9],
      [CHR 0xE2, CHR 0x80, CHR 0xAF],
      [CHR 0xE2, CHR 0x81, CHR 0x9F],
      [CHR 0xE3, CHR 0x80, CHR 0x80],
      [CHR 0xEF, CHR 0xBB, CHR 0xBF]]"

text \<open>Remove, from the front of \<open>s\<close>, every leading occurrence of one of the tokens \<open>ws\<close>.\<close>

function strip :: "string list \<Rightarrow> string \<Rightarrow> string" where
  "strip ws s =
     (case find (\<lambda>w. w \<noteq> [] \<and> prefix w s) ws of
        None \<Rightarrow> s
      | Some w \<Rightarrow> strip ws (drop (length w) s))"
  by pat_completeness auto
termination
proof (relation "measure (\<lambda>(ws, s). length s)")
  show "wf (measure (\<lambda>(ws, s). length s))" by simp
next
  fix ws :: "string list" and s w :: string
  assume "find (\<lambda>w. w \<noteq> [] \<and> prefix w s) ws = Some w"
  then have "w \<noteq> []" and "prefix w s"
    by (auto simp: find_Some_iff)
  then have "s \<noteq> []" by auto
  with \<open>w \<noteq> []\<close> show "((ws, drop (length w) s), (ws, s)) \<in> measure (\<lambda>(ws, s). length s)"
    by simp
qed

declare strip.simps [simp del]

definition trimStart :: "string \<Rightarrow> string" where
  "trimStart s = strip white_space s"

definition trimEnd :: "string \<Rightarrow> string" where
  "trimEnd s = rev (strip (map rev white_space) (rev s))"

definition trim :: "string \<Rightarrow> string" where
  "trim s = trimEnd (trimStart s)"

definition is_digit :: "char \<Rightarrow> bool" where
  "is_digit c = (CHR ''0'' \<le> c \<and> c \<le> CHR ''9'')"

definition digit_value :: "char \<Rightarrow> int" where
  "digit_value c = of_char c - of_char CHR ''0''"

definition digits_value :: "string \<Rightarrow> int" where
  "digits_value ds = foldl (\<lambda>acc c. 10 * acc + digit_value c) 0 ds"

text \<open>
  \<^verbatim>\<open>parseInt(s, 10)\<close>: skip leading white space, read an optional sign, then the longest
  run of decimal digits; what follows the digits is ignored. \<open>None\<close> is \<^verbatim>\<open>NaN\<close>, the
  result when there is no digit. The result is the double nearest to the integer that
  the digits denote.
\<close>

definition parseInt10 :: "string \<Rightarrow> int option" where
  "parseInt10 s =
     (let t = trimStart s;
          neg = (t \<noteq> [] \<and> hd t = CHR ''-'');
          u = (if t \<noteq> [] \<and> (hd t = CHR ''-'' \<or> hd t = CHR ''+'') then tl t else t);
          ds = takeWhile is_digit u
      in if ds = [] then None
         else Some (round_double ((if neg then - 1 else 1) * digits_value ds)))"

text \<open>The decimal numeral of an integer that is not negative.\<close>

function decimal :: "int \<Rightarrow> string" where
  "decimal n =
     (if n < 10 then [char_of (of_char CHR ''0'' + n)]
      else decimal (n div 10) @ [char_of (of_char CHR ''0'' + n mod 10)])"
  by pat_completeness auto
termination by (relation "measure nat") auto

declare decimal.simps [simp del]

text \<open>
  \<^verbatim>\<open>String(x)\<close> of a number (\<^verbatim>\<open>Number::toString\<close>), which is also the text in which
  the driver sends a number to the store. The digits are those of the shortest decimal
  that rounds to the double, the nearest to it among the shortest. \<open>shortest q\<close> is that
  decimal, for a positive double \<open>q\<close>: the first decimal of \<open>k\<close> significant digits,
  \<open>k\<close> from 1 to 17, that lies in the rounding interval of \<open>q\<close> (the boundaries
  belong to it when the significand is even). \<open>scale b k\<close> is the power \<open>b\<close> to an
  integer \<open>k\<close>; \<open>floor_log2\<close> and \<open>floor_log10\<close> are the exponents of the greatest
  power of 2 and of 10 that is at most \<open>q\<close>.
\<close>

definition scale :: "rat \<Rightarrow> int \<Rightarrow> rat" where
  "scale b k = (if 0 \<le> k then b ^ nat k else 1 / b ^ nat (- k))"

definition floor_log2 :: "rat \<Rightarrow> int" where
  "floor_log2 q =
     (let k = int (bit_length (fst (quotient_of q))) - int (bit_length (snd (quotient_of q)))
      in if scale 2 k \<le> q then k else k - 1)"

definition floor_log10 :: "rat \<Rightarrow> int" where
  "floor_log10 q =
     (let k = int (length (decimal (fst (quotient_of q)))) -
              int (length (decimal (snd (quotient_of q))))
      in if scale 10 k \<le> q then k else k - 1)"

definition shortest :: "rat \<Rightarrow> rat" where
  "shortest q =
     (let e = floor_log2 q;
          ulp = scale 2 (max (e - 52) (- 1074));
          closed = even \<lfloor>q / ulp\<rfloor>;
          lo = q - (if q = scale 2 e \<and> - 1022 < e then ulp / 4 else ulp / 2);
          hi = q + ulp / 2;
          inside = (\<lambda>c. (lo < c \<and> c < hi) \<or> (closed \<and> (c = lo \<or> c = hi)));
          m = floor_log10 q;
          candidates = (\<lambda>k. let s = scale 10 (m + 1 - int k);
                                 f = \<lfloor>q / s\<rfloor>;
                                 a = of_int f * s;
                                 b = of_int (f + 1) * s
                             in filter inside
                                  (if q - a < b - q \<or> (q - a = b - q \<and> even f) then [a, b] else [b, a]))
      in case concat (map candidates [1..<18]) of [] \<Rightarrow> q | v # _ \<Rightarrow> v)"

function strip_zeros :: "int \<Rightarrow> int" where
  "strip_zeros n = (if n \<le> 0 \<or> n mod 10 \<noteq> 0 then n else strip_zeros (n div 10))"
  by pat_completeness auto
termination by (relation "measure nat") auto

declare strip_zeros.simps [simp del]

text \<open>
  The text of a positive double from its digits and the position \<open>n\<close> of the decimal
  point: plain digits up to \<open>10 ^ 21\<close>, a decimal fraction down to \<open>10 ^ -6\<close>, and the
  exponent notation beyond.
\<close>

definition positive_text :: "rat \<Rightarrow> string" where
  "positive_text q =
     (let v = shortest q;
          n = floor_log10 v + 1;
          digits = decimal (strip_zeros \<lfloor>v * scale 10 (17 - n)\<rfloor>);
          k = int (length digits)
      in if k \<le> n \<and> n \<le> 21 then digits @ replicate (nat (n - k)) CHR ''0''
         else if 0 < n \<and> n \<le> 21 then take (nat n) digits @ ''.'' @ drop (nat n) digits
         else if - 6 < n \<and> n \<le> 0 then ''0.'' @ replicate (nat (- n)) CHR ''0'' @ digits
         else (if k = 1 then digits else take 1 digits @ ''.'' @ drop 1 digits) @ ''e'' @
              (if n - 1 < 0 then ''-'' else ''+'') @ decimal \<bar>n - 1\<bar>)"

text \<open>
  An integer up to \<open>2 ^ 53\<close> in magnitude is its decimal numeral (the shortest decimal
  of such a number is the number itself).
\<close>

definition number_text :: "rat \<Rightarrow> string" where
  "number_text q =
     (let a = \<bar>q\<bar>
      in (if q < 0 then ''-'' else []) @
         (if 2 ^ 1024 \<le> a then ''Infinity''
          else if of_int \<lfloor>a\<rfloor> = a \<and> a \<le> 2 ^ 53 then decimal \<lfloor>a\<rfloor>
          else positive_text a))"

text \<open>
  \<^verbatim>\<open>parseInt(v, 10)\<close> of any value: \<^verbatim>\<open>parseInt\<close> converts its argument to a string
  first. The text of a boolean, of \<^verbatim>\<open>null\<close>, of \<^verbatim>\<open>undefined\<close>, of an object
  (\<^verbatim>\<open>[object Object]\<close>) and of a date (which begins with the name of a day, or is
  \<^verbatim>\<open>Invalid Date\<close>) has no leading digit. The text of an array joins the texts of its
  elements with commas, \<^verbatim>\<open>null\<close> and \<^verbatim>\<open>undefined\<close> as the empty text; a comma is
  neither white space nor a sign nor a digit, so \<^verbatim>\<open>parseInt\<close> reads the text of the
  first element only.
\<close>

fun parseInt :: "jsval \<Rightarrow> int option" where
  "parseInt (JStr s) = parseInt10 s"
| "parseInt (JNum q) = parseInt10 (number_text q)"
| "parseInt (JArr (v # vs)) = parseInt v"
| "parseInt (JArr []) = None"
| "parseInt JUndefined = None"
| "parseInt JNull = None"
| "parseInt (JBool b) = None"
| "parseInt (JDate t) = None"
| "parseInt (JObj kvs) = None"

section \<open>The statements the repositories issue\<close>

text \<open>
  The statement texts of \<^verbatim>\<open>news.ts\<close>, \<^verbatim>\<open>faculty.ts\<close> and the navigation module, one
  constructor for each text. Where the source assembles the text from parts, the
  constructor carries which parts are present; the placeholders \<^verbatim>\<open>$1, $2, ...\<close> number
  the parameters in the order of the parameter list.

  \<^item> \<open>NewsSelectList c\<close>: \<^verbatim>\<open>SELECT ... FROM news WHERE is_published = true\<close>, then
    \<^verbatim>\<open>AND category = $1\<close> when \<open>c\<close>, then
    \<^verbatim>\<open>ORDER BY published_at DESC LIMIT $n OFFSET $n+1\<close>.
  \<^item> \<open>NewsCount c\<close>: \<^verbatim>\<open>SELECT COUNT(*) as count FROM news WHERE is_published = true\<close>,
    then \<^verbatim>\<open>AND category = $1\<close> when \<open>c\<close>.
  \<^item> \<open>NewsSelectById\<close>: \<^verbatim>\<open>SELECT ... FROM news WHERE id = $1\<close>.
  \<^item> \<open>NewsInsert\<close>: \<^verbatim>\<open>INSERT INTO news (title, slug, summary, content, thumbnail_url,
    author, category, is_published, tags) VALUES ($1, ..., $9) RETURNING ...\<close>.
  \<^item> \<open>NewsUpdate cols\<close>: \<^verbatim>\<open>UPDATE news SET c1 = $1, ..., ck = $k,
    updated_at = CURRENT_TIMESTAMP WHERE id = $k+1 RETURNING ...\<close> for the columns \<open>cols\<close>.
  \<^item> \<open>NewsDelete\<close>: \<^verbatim>\<open>DELETE FROM news WHERE id = $1 RETURNING id\<close>.
  \<^item> \<open>FacultySelectList c q\<close>: \<^verbatim>\<open>SELECT ... FROM faculty WHERE is_visible = true\<close>, then
    \<^verbatim>\<open>AND category = $i\<close> when \<open>c\<close>, then \<^verbatim>\<open>AND (name ILIKE $j OR name_en ILIKE $j OR
    title ILIKE $j OR $j = ANY(research_interests))\<close> when \<open>q\<close>, then
    \<^verbatim>\<open>ORDER BY sort_order ASC, name ASC\<close>.
  \<^item> \<open>FacultySelectById\<close>, \<open>FacultyInsert\<close> (sixteen values), \<open>FacultyUpdate cols\<close>,
    \<open>FacultyDelete\<close>: as for news, on the table \<^verbatim>\<open>faculty\<close>.
  \<^item> \<open>NavigationSelect\<close>: \<^verbatim>\<open>SELECT id, label, url, parent_id as "parentId", ...
    FROM navigation WHERE is_visible = true ORDER BY sort_order ASC\<close>.

  Every \<^verbatim>\<open>SELECT\<close> and \<^verbatim>\<open>RETURNING\<close> list names the columns by the camel-case field
  names of the entity (\<^verbatim>\<open>thumbnail_url as "thumbnailUrl"\<close> and so on).
\<close>

datatype stmt =
    NewsSelectList bool
  | NewsCount bool
  | NewsSelectById
  | NewsInsert
  | NewsUpdate "string list"
  | NewsDelete
  | FacultySelectList bool bool
  | FacultySelectById
  | FacultyInsert
  | FacultyUpdate "string list"
  | FacultyDelete
  | NavigationSelect

text \<open>A JavaScript number that holds an integer.\<close>

definition num :: "int \<Rightarrow> jsval" where
  "num i = JNum (of_int i)"

text \<open>\<^verbatim>\<open>x || null\<close> on an optional string and on an optional array of strings.\<close>

definition or_null :: "string option \<Rightarrow> jsval" where
  "or_null x = (case x of None \<Rightarrow> JNull | Some v \<Rightarrow> if truthy (JStr v) then JStr v else JNull)"

definition strings :: "string list \<Rightarrow> jsval" where
  "strings xs = JArr (map JStr xs)"

definition list_or_null :: "string list option \<Rightarrow> jsval" where
  "list_or_null x =
     (case x of None \<Rightarrow> JNull | Some vs \<Rightarrow> if truthy (strings vs) then strings vs else JNull)"

text \<open>\<^verbatim>\<open>if (category)\<close> on an optional string: present and not empty.\<close>

definition given :: "string option \<Rightarrow> bool" where
  "given x = (case x of None \<Rightarrow> False | Some v \<Rightarrow> truthy (JStr v))"

section \<open>The news repository (news.ts)\<close>

text \<open>
  \<^verbatim>\<open>Omit<NewsItem, 'id' | 'viewCount' | 'publishedAt' | 'updatedAt'>\<close>: an optional
  field is \<open>None\<close> when absent (\<^verbatim>\<open>undefined\<close>).
\<close>

record news_data =
  n_title :: string
  n_slug :: string
  n_summary :: "string option"
  n_content :: string
  n_thumbnailUrl :: "string option"
  n_author :: "string option"
  n_category :: "string option"
  n_isPublished :: bool
  n_tags :: "string list option"

text \<open>
  The \<^verbatim>\<open>Partial\<close> of it that \<^verbatim>\<open>updateNews\<close> receives. The update route passes
  \<^verbatim>\<open>body.tags\<close> on as it is, which may be \<^verbatim>\<open>null\<close>: \<open>Some None\<close>.
\<close>

record news_patch =
  nu_title :: "string option"
  nu_slug :: "string option"
  nu_summary :: "string option"
  nu_content :: "string option"
  nu_thumbnailUrl :: "string option"
  nu_author :: "string option"
  nu_category :: "string option"
  nu_isPublished :: "bool option"
  nu_tags :: "string list option option"

text \<open>
  \<^verbatim>\<open>getNewsList(page, pageSize, category)\<close>; the defaults \<open>page = 1\<close> and
  \<open>pageSize = 10\<close> are the caller's to apply. \<open>page\<close> and \<open>pageSize\<close> are finite
  doubles that hold integers (the function is not modelled on fractions, \<^verbatim>\<open>NaN\<close>
  and \<^verbatim>\<open>Infinity\<close>); the difference and the product of the offset are rounded as
  doubles are. The row of the
  count is typed \<^verbatim>\<open>{ count: string }\<close>; \<open>total\<close> is \<^verbatim>\<open>parseInt\<close> of the value of
  that field (\<open>None\<close> is \<^verbatim>\<open>NaN\<close>), and 0 when there is no row.
\<close>

definition getNewsList ::
  "(stmt, 's) driver \<Rightarrow> int \<Rightarrow> int \<Rightarrow> string option \<Rightarrow> 's \<Rightarrow> (error + jsobj list \<times> int option) \<times> 's" where
  "getNewsList sql page pageSize category s =
     (let offset = round_double (round_double (page - 1) * pageSize);
          params = (if given category then [JStr (the category)] else []) @
                   [num pageSize, num offset];
          countParams = (if given category then [JStr (the category)] else [])
      in case query sql (NewsSelectList (given category)) params s of
           (Inl e, s1) \<Rightarrow> (Inl e, s1)
         | (Inr items, s1) \<Rightarrow>
             (case queryOne sql (NewsCount (given category)) countParams s1 of
                (Inl e, s2) \<Rightarrow> (Inl e, s2)
              | (Inr countResult, s2) \<Rightarrow>
                  (Inr (items,
                        case countResult of
                          None \<Rightarrow> Some 0
                        | Some r \<Rightarrow> parseInt (field r ''count'')),
                   s2)))"

definition getNewsById :: "(stmt, 's) driver \<Rightarrow> int \<Rightarrow> 's \<Rightarrow> (error + jsobj option) \<times> 's" where
  "getNewsById sql ident s = queryOne sql NewsSelectById [num ident] s"

definition createNews_params :: "news_data \<Rightarrow> jsval list" where
  "createNews_params news =
     [JStr (n_title news),
      JStr (n_slug news),
      or_null (n_summary news),
      JStr (n_content news),
      or_null (n_thumbnailUrl news),
      or_null (n_author news),
      or_null (n_category news),
      JBool (n_isPublished news),
      list_or_null (n_tags news)]"

definition createNews :: "(stmt, 's) driver \<Rightarrow> news_data \<Rightarrow> 's \<Rightarrow> (error + jsobj) \<times> 's" where
  "createNews sql news s =
     (case queryOne sql NewsInsert (createNews_params news) s of
        (Inl e, s') \<Rightarrow> (Inl e, s')
      | (Inr None, s') \<Rightarrow> (Inl (Error ''Failed to create news article''), s')
      | (Inr (Some result), s') \<Rightarrow> (Inr result, s'))"

text \<open>
  \<^verbatim>\<open>fields\<close> and \<^verbatim>\<open>params\<close> of \<^verbatim>\<open>updateNews\<close>, built together: one column and one
  value for each field that is not \<^verbatim>\<open>undefined\<close>, in the order of the source.
\<close>

definition assign :: "string \<Rightarrow> ('a \<Rightarrow> jsval) \<Rightarrow> 'a option \<Rightarrow> (string \<times> jsval) list" where
  "assign column js x = (case x of None \<Rightarrow> [] | Some v \<Rightarrow> [(column, js v)])"

definition updateNews_fields :: "news_patch \<Rightarrow> (string \<times> jsval) list" where
  "updateNews_fields news =
     assign ''title'' JStr (nu_title news) @
     assign ''slug'' JStr (nu_slug news) @
     assign ''summary'' JStr (nu_summary news) @
     assign ''content'' JStr (nu_content news) @
     assign ''thumbnail_url'' JStr (nu_thumbnailUrl news) @
     assign ''author'' JStr (nu_author news) @
     assign ''category'' JStr (nu_category news) @
     assign ''is_published'' JBool (nu_isPublished news) @
     assign ''tags'' (\<lambda>t. case t of None \<Rightarrow> JNull | Some vs \<Rightarrow> strings vs) (nu_tags news)"

definition updateNews :: "(stmt, 's) driver \<Rightarrow> int \<Rightarrow> news_patch \<Rightarrow> 's \<Rightarrow> (error + jsobj option) \<times> 's" where
  "updateNews sql ident news s =
     (let fields = updateNews_fields news
      in if length fields = 0 then getNewsById sql ident s
         else queryOne sql (NewsUpdate (map fst fields)) (map snd fields @ [num ident]) s)"

definition deleteNews :: "(stmt, 's) driver \<Rightarrow> int \<Rightarrow> 's \<Rightarrow> (error + bool) \<times> 's" where
  "deleteNews sql ident s =
     (case queryOne sql NewsDelete [num ident] s of
        (Inl e, s') \<Rightarrow> (Inl e, s')
      | (Inr result, s') \<Rightarrow> (Inr (result \<noteq> None), s'))"

section \<open>The faculty repository (faculty.ts)\<close>

text \<open>\<^verbatim>\<open>Omit<FacultyMember, 'id' | 'createdAt' | 'updatedAt'>\<close> and its \<^verbatim>\<open>Partial\<close>.\<close>

record faculty_data =
  f_name :: string
  f_nameEn :: "string option"
  f_title :: string
  f_category :: string
  f_photoUrl :: "string option"
  f_email :: "string option"
  f_phone :: "string option"
  f_office :: "string option"
  f_researchInterests :: "string list option"
  f_education :: "string option"
  f_biography :: "string option"
  f_publications :: "string option"
  f_projects :: "string option"
  f_awards :: "string option"
  f_sortOrder :: int
  f_isVisible :: bool

record faculty_patch =
  fu_name :: "string option"
  fu_nameEn :: "string option"
  fu_title :: "string option"
  fu_category :: "string option"
  fu_photoUrl :: "string option"
  fu_email :: "string option"
  fu_phone :: "string option"
  fu_office :: "string option"
  fu_researchInterests :: "string list option option"
  fu_education :: "string option"
  fu_biography :: "string option"
  fu_publications :: "string option"
  fu_projects :: "string option"
  fu_awards :: "string option"
  fu_sortOrder :: "int option"
  fu_isVisible :: "bool option"

definition getFacultyList ::
  "(stmt, 's) driver \<Rightarrow> string option \<Rightarrow> string option \<Rightarrow> 's \<Rightarrow> (error + jsobj list) \<times> 's" where
  "getFacultyList sql category searchQuery s =
     (let params = (if given category then [JStr (the category)] else []) @
                   (if given searchQuery then [JStr (''%'' @ the searchQuery @ ''%'')] else [])
      in query sql (FacultySelectList (given category) (given searchQuery)) params s)"

definition getFacultyById :: "(stmt, 's) driver \<Rightarrow> int \<Rightarrow> 's \<Rightarrow> (error + jsobj option) \<times> 's" where
  "getFacultyById sql ident s = queryOne sql FacultySelectById [num ident] s"

definition searchFaculty :: "(stmt, 's) driver \<Rightarrow> string \<Rightarrow> 's \<Rightarrow> (error + jsobj list) \<times> 's" where
  "searchFaculty sql searchQuery s = getFacultyList sql None (Some searchQuery) s"

definition createFaculty_params :: "faculty_data \<Rightarrow> jsval list" where
  "createFaculty_params faculty =
     [JStr (f_name faculty),
      or_null (f_nameEn faculty),
      JStr (f_title faculty),
      JStr (f_category faculty),
      or_null (f_photoUrl faculty),
      or_null (f_email faculty),
      or_null (f_phone faculty),
      or_null (f_office faculty),
      list_or_null (f_researchInterests faculty),
      or_null (f_education faculty),
      or_null (f_biography faculty),
      or_null (f_publications faculty),
      or_null (f_projects faculty),
      or_null (f_awards faculty),
      num (f_sortOrder faculty),
      JBool (f_isVisible faculty)]"

definition createFaculty :: "(stmt, 's) driver \<Rightarrow> faculty_data \<Rightarrow> 's \<Rightarrow> (error + jsobj) \<times> 's" where
  "createFaculty sql faculty s =
     (case queryOne sql FacultyInsert (createFaculty_params faculty) s of
        (Inl e, s') \<Rightarrow> (Inl e, s')
      | (Inr None, s') \<Rightarrow> (Inl (Error ''Failed to create faculty member''), s')
      | (Inr (Some result), s') \<Rightarrow> (Inr result, s'))"

definition updateFaculty_fields :: "faculty_patch \<Rightarrow> (string \<times> jsval) list" where
  "updateFaculty_fields faculty =
     assign ''name'' JStr (fu_name faculty) @
     assign ''name_en'' JStr (fu_nameEn faculty) @
     assign ''title'' JStr (fu_title faculty) @
     assign ''category'' JStr (fu_category faculty) @
     assign ''photo_url'' JStr (fu_photoUrl faculty) @
     assign ''email'' JStr (fu_email faculty) @
     assign ''phone'' JStr (fu_phone faculty) @
     assign ''office'' JStr (fu_office faculty) @
     assign ''research_interests''
       (\<lambda>t. case t of None \<Rightarrow> JNull | Some vs \<Rightarrow> strings vs) (fu_researchInterests faculty) @
     assign ''education'' JStr (fu_education faculty) @
     assign ''biography'' JStr (fu_biography faculty) @
     assign ''publications'' JStr (fu_publications faculty) @
     assign ''projects'' JStr (fu_projects faculty) @
     assign ''awards'' JStr (fu_awards faculty) @
     assign ''sort_order'' num (fu_sortOrder faculty) @
     assign ''is_visible'' JBool (fu_isVisible faculty)"

definition updateFaculty ::
  "(stmt, 's) driver \<Rightarrow> int \<Rightarrow> faculty_patch \<Rightarrow> 's \<Rightarrow> (error + jsobj option) \<times> 's" where
  "updateFaculty sql ident faculty s =
     (let fields = updateFaculty_fields faculty
      in if length fields = 0 then getFacultyById sql ident s
         else queryOne sql (FacultyUpdate (map fst fields)) (map snd fields @ [num ident]) s)"

definition deleteFaculty :: "(stmt, 's) driver \<Rightarrow> int \<Rightarrow> 's \<Rightarrow> (error + bool) \<times> 's" where
  "deleteFaculty sql ident s =
     (case queryOne sql FacultyDelete [num ident] s of
        (Inl e, s') \<Rightarrow> (Inl e, s')
      | (Inr result, s') \<Rightarrow> (Inr (result \<noteq> None), s'))"

section \<open>Responses and request validation\<close>

text \<open>
  A response is its status and the value given to \<^verbatim>\<open>JSON.stringify\<close>; every response
  of the routes carries the header \<^verbatim>\<open>Content-Type: application/json\<close>.
\<close>

record response =
  status :: nat
  body :: jsval

definition json_error :: "nat \<Rightarrow> string \<Rightarrow> response" where
  "json_error st msg = \<lparr>status = st, body = JObj [(''error'', JStr msg)]\<rparr>"

text \<open>
  The routes validate by a chain of \<^verbatim>\<open>if (...) return new Response(...)\<close>: the first
  condition that holds decides the message.
\<close>

fun first_failure :: "(bool \<times> string) list \<Rightarrow> string option" where
  "first_failure [] = None"
| "first_failure ((failed, msg) # rest) = (if failed then Some msg else first_failure rest)"

text \<open>\<^verbatim>\<open>!v || typeof v !== 'string' || v.trim() === ''\<close>\<close>

definition required_missing :: "jsval \<Rightarrow> bool" where
  "required_missing v =
     (\<not> truthy v \<or> typeof v \<noteq> ''string'' \<or> (case v of JStr t \<Rightarrow> trim t = [] | _ \<Rightarrow> False))"

text \<open>\<^verbatim>\<open>v !== undefined\<close> and \<^verbatim>\<open>(typeof v !== 'string' || v.trim() === '')\<close>\<close>

definition present_not_text :: "jsval \<Rightarrow> bool" where
  "present_not_text v =
     (v \<noteq> JUndefined \<and>
      (typeof v \<noteq> ''string'' \<or> (case v of JStr t \<Rightarrow> trim t = [] | _ \<Rightarrow> False)))"

text \<open>\<^verbatim>\<open>v !== undefined && typeof v !== ty\<close>\<close>

definition present_not :: "string \<Rightarrow> jsval \<Rightarrow> bool" where
  "present_not ty v = (v \<noteq> JUndefined \<and> typeof v \<noteq> ty)"

text \<open>\<^verbatim>\<open>v !== undefined && v !== null && typeof v !== 'string'\<close>\<close>

definition nonnull_not_string :: "jsval \<Rightarrow> bool" where
  "nonnull_not_string v = (v \<noteq> JUndefined \<and> v \<noteq> JNull \<and> typeof v \<noteq> ''string'')"

text \<open>\<^verbatim>\<open>!Array.isArray(v) || !v.every((t) => typeof t === 'string')\<close>\<close>

definition not_string_array :: "jsval \<Rightarrow> bool" where
  "not_string_array v =
     (case v of JArr ts \<Rightarrow> \<not> list_all (\<lambda>t. typeof t = ''string'') ts | _ \<Rightarrow> True)"

text \<open>\<^verbatim>\<open>Number.isInteger(v)\<close>\<close>

definition isInteger :: "jsval \<Rightarrow> bool" where
  "isInteger v = (case v of JNum q \<Rightarrow> of_int \<lfloor>q\<rfloor> = q | _ \<Rightarrow> False)"

text \<open>
  The slug format \<^verbatim>\<open>/^[a-z0-9-_]+$/\<close>: one or more characters, each a lower-case
  letter, a digit, a hyphen or an underscore, from the start of the string to its end.
\<close>

definition slug_char :: "char \<Rightarrow> bool" where
  "slug_char c =
     ((CHR ''a'' \<le> c \<and> c \<le> CHR ''z'') \<or> (CHR ''0'' \<le> c \<and> c \<le> CHR ''9'') \<or>
      c = CHR ''-'' \<or> c = CHR ''_'')"

definition slug_format :: "string \<Rightarrow> bool" where
  "slug_format t = (t \<noteq> [] \<and> list_all slug_char t)"

text \<open>\<^verbatim>\<open>!/^[a-z0-9-_]+$/.test(v)\<close>, evaluated by the routes once \<open>v\<close> is known to be a string.\<close>

definition bad_slug_format :: "jsval \<Rightarrow> bool" where
  "bad_slug_format v = (case v of JStr t \<Rightarrow> \<not> slug_format t | _ \<Rightarrow> True)"

text \<open>
  Reading validated fields: \<^verbatim>\<open>v.trim()\<close> of a value checked to be a string,
  \<^verbatim>\<open>v?.trim()\<close> of a value checked to be a string or absent (or \<^verbatim>\<open>null\<close>), an array
  checked to hold strings.
\<close>

definition the_string :: "jsval \<Rightarrow> string" where
  "the_string v = (case v of JStr t \<Rightarrow> t | _ \<Rightarrow> [])"

definition trimmed :: "jsval \<Rightarrow> string" where
  "trimmed v = trim (the_string v)"

definition opt_trimmed :: "jsval \<Rightarrow> string option" where
  "opt_trimmed v = (case v of JStr t \<Rightarrow> Some (trim t) | _ \<Rightarrow> None)"

definition the_strings :: "jsval \<Rightarrow> string list" where
  "the_strings v = (case v of JArr ts \<Rightarrow> map the_string ts | _ \<Rightarrow> [])"

text \<open>
  \<^verbatim>\<open>parseInt(params.id || '', 10)\<close> and \<^verbatim>\<open>isNaN(id) || id < 1\<close>. The path parameter is
  a string or absent.
\<close>

definition id_param :: "string option \<Rightarrow> int option" where
  "id_param p = parseInt10 (case p of None \<Rightarrow> [] | Some t \<Rightarrow> if truthy (JStr t) then t else [])"

definition invalid_id :: "int option \<Rightarrow> bool" where
  "invalid_id i = (case i of None \<Rightarrow> True | Some n \<Rightarrow> n < 1)"

text \<open>
  Reading a property of \<^verbatim>\<open>null\<close> throws a \<^verbatim>\<open>TypeError\<close>; a body that parses to
  \<^verbatim>\<open>null\<close> does so at the first field the route reads.
\<close>

definition null_read :: "string \<Rightarrow> error" where
  "null_read k = Error (''Cannot read properties of null (reading '' @ [CHR 0x27] @ k @ [CHR 0x27] @ '')'')"

definition internal_error :: response where
  "internal_error = json_error 500 ''Internal server error''"

section \<open>The news routes (api/news/index.ts, api/news/[id].ts)\<close>

text \<open>The \<^verbatim>\<open>catch\<close> of the create and update routes of news.\<close>

definition news_catch :: "error \<Rightarrow> response" where
  "news_catch e =
     (if str_includes (message e) ''duplicate'' \<or> str_includes (message e) ''unique''
      then json_error 409 ''A news article with this slug already exists''
      else internal_error)"

definition POST_news_checks :: "jsval \<Rightarrow> (bool \<times> string) list" where
  "POST_news_checks b =
     [(required_missing (property b ''title''), ''Title is required and must be a non-empty string''),
      (required_missing (property b ''slug''), ''Slug is required and must be a non-empty string''),
      (required_missing (property b ''content''), ''Content is required and must be a non-empty string''),
      (bad_slug_format (property b ''slug''),
         ''Slug must contain only lowercase letters, numbers, hyphens, and underscores''),
      (present_not ''string'' (property b ''summary''), ''Summary must be a string''),
      (present_not ''string'' (property b ''thumbnailUrl''), ''ThumbnailUrl must be a string''),
      (present_not ''string'' (property b ''author''), ''Author must be a string''),
      (present_not ''string'' (property b ''category''), ''Category must be a string''),
      (present_not ''boolean'' (property b ''isPublished''), ''IsPublished must be a boolean''),
      (property b ''tags'' \<noteq> JUndefined \<and> not_string_array (property b ''tags''),
         ''Tags must be an array of strings'')]"

definition newsData :: "jsval \<Rightarrow> news_data" where
  "newsData b =
     \<lparr>n_title = trimmed (property b ''title''),
      n_slug = trimmed (property b ''slug''),
      n_summary = opt_trimmed (property b ''summary''),
      n_content = trimmed (property b ''content''),
      n_thumbnailUrl = opt_trimmed (property b ''thumbnailUrl''),
      n_author = opt_trimmed (property b ''author''),
      n_category = opt_trimmed (property b ''category''),
      n_isPublished = (case property b ''isPublished'' of JBool v \<Rightarrow> v | _ \<Rightarrow> True),
      n_tags = (case property b ''tags'' of JArr ts \<Rightarrow> Some (the_strings (JArr ts)) | _ \<Rightarrow> None)\<rparr>"

text \<open>
  \<^verbatim>\<open>POST /api/news\<close>. The argument \<open>json\<close> is what \<^verbatim>\<open>await request.json()\<close> does:
  it throws (\<open>Inl\<close>) or yields the parsed body, any JSON value (never
  \<^verbatim>\<open>undefined\<close>).
\<close>

definition POST_news :: "(stmt, 's) driver \<Rightarrow> error + jsval \<Rightarrow> 's \<Rightarrow> response \<times> 's" where
  "POST_news sql json s =
     (case json of
        Inl e \<Rightarrow> (news_catch e, s)
      | Inr b \<Rightarrow>
          if b = JNull then (news_catch (null_read ''title''), s)
          else
            (case first_failure (POST_news_checks b) of
               Some msg \<Rightarrow> (json_error 400 msg, s)
             | None \<Rightarrow>
                 (case createNews sql (newsData b) s of
                    (Inl e, s') \<Rightarrow> (news_catch e, s')
                  | (Inr createdNews, s') \<Rightarrow> (\<lparr>status = 201, body = JObj createdNews\<rparr>, s'))))"

definition GET_news_id :: "(stmt, 's) driver \<Rightarrow> string option \<Rightarrow> 's \<Rightarrow> response \<times> 's" where
  "GET_news_id sql p s =
     (if invalid_id (id_param p) then (json_error 400 ''Invalid news ID'', s)
      else
        (case getNewsById sql (the (id_param p)) s of
           (Inl e, s') \<Rightarrow> (internal_error, s')
         | (Inr None, s') \<Rightarrow> (json_error 404 ''News article not found'', s')
         | (Inr (Some news), s') \<Rightarrow> (\<lparr>status = 200, body = JObj news\<rparr>, s')))"

definition PUT_news_checks :: "jsval \<Rightarrow> (bool \<times> string) list" where
  "PUT_news_checks b =
     [(present_not_text (property b ''title''), ''Title must be a non-empty string''),
      (present_not_text (property b ''slug''), ''Slug must be a non-empty string''),
      (property b ''slug'' \<noteq> JUndefined \<and> bad_slug_format (property b ''slug''),
         ''Slug must contain only lowercase letters, numbers, hyphens, and underscores''),
      (present_not_text (property b ''content''), ''Content must be a non-empty string''),
      (nonnull_not_string (property b ''summary''), ''Summary must be a string''),
      (nonnull_not_string (property b ''thumbnailUrl''), ''ThumbnailUrl must be a string''),
      (nonnull_not_string (property b ''author''), ''Author must be a string''),
      (nonnull_not_string (property b ''category''), ''Category must be a string''),
      (present_not ''boolean'' (property b ''isPublished''), ''IsPublished must be a boolean''),
      (property b ''tags'' \<noteq> JUndefined \<and> property b ''tags'' \<noteq> JNull \<and>
         not_string_array (property b ''tags''),
         ''Tags must be an array of strings''),
      (property b ''id'' \<noteq> JUndefined \<or> property b ''viewCount'' \<noteq> JUndefined \<or>
         property b ''publishedAt'' \<noteq> JUndefined \<or> property b ''updatedAt'' \<noteq> JUndefined,
         ''Cannot update system fields (id, viewCount, publishedAt, updatedAt)'')]"

text \<open>
  \<^verbatim>\<open>updateData\<close>: a field is set when the body has it; \<^verbatim>\<open>body.summary?.trim()\<close> of a
  \<^verbatim>\<open>null\<close> sets it to \<^verbatim>\<open>undefined\<close>, which \<^verbatim>\<open>updateNews\<close> reads as absent.
\<close>

definition news_updateData :: "jsval \<Rightarrow> news_patch" where
  "news_updateData b =
     \<lparr>nu_title = (if property b ''title'' \<noteq> JUndefined then Some (trimmed (property b ''title'')) else None),
      nu_slug = (if property b ''slug'' \<noteq> JUndefined then Some (trimmed (property b ''slug'')) else None),
      nu_summary = opt_trimmed (property b ''summary''),
      nu_content = (if property b ''content'' \<noteq> JUndefined then Some (trimmed (property b ''content'')) else None),
      nu_thumbnailUrl = opt_trimmed (property b ''thumbnailUrl''),
      nu_author = opt_trimmed (property b ''author''),
      nu_category = opt_trimmed (property b ''category''),
      nu_isPublished = (case property b ''isPublished'' of JBool v \<Rightarrow> Some v | _ \<Rightarrow> None),
      nu_tags = (case property b ''tags'' of
                   JUndefined \<Rightarrow> None
                 | JArr ts \<Rightarrow> Some (Some (the_strings (JArr ts)))
                 | _ \<Rightarrow> Some None)\<rparr>"

definition PUT_news ::
  "(stmt, 's) driver \<Rightarrow> string option \<Rightarrow> error + jsval \<Rightarrow> 's \<Rightarrow> response \<times> 's" where
  "PUT_news sql p json s =
     (if invalid_id (id_param p) then (json_error 400 ''Invalid news ID'', s)
      else
        (case json of
           Inl e \<Rightarrow> (news_catch e, s)
         | Inr b \<Rightarrow>
             if b = JNull then (news_catch (null_read ''title''), s)
             else
               (case first_failure (PUT_news_checks b) of
                  Some msg \<Rightarrow> (json_error 400 msg, s)
                | None \<Rightarrow>
                    (case updateNews sql (the (id_param p)) (news_updateData b) s of
                       (Inl e, s') \<Rightarrow> (news_catch e, s')
                     | (Inr None, s') \<Rightarrow> (json_error 404 ''News article not found'', s')
                     | (Inr (Some updatedNews), s') \<Rightarrow>
                         (\<lparr>status = 200, body = JObj updatedNews\<rparr>, s')))))"

definition DELETE_news :: "(stmt, 's) driver \<Rightarrow> string option \<Rightarrow> 's \<Rightarrow> response \<times> 's" where
  "DELETE_news sql p s =
     (if invalid_id (id_param p) then (json_error 400 ''Invalid news ID'', s)
      else
        (case deleteNews sql (the (id_param p)) s of
           (Inl e, s') \<Rightarrow> (internal_error, s')
         | (Inr deleted, s') \<Rightarrow>
             if \<not> deleted then (json_error 404 ''News article not found'', s')
             else (\<lparr>status = 200,
                    body = JObj [(''message'', JStr ''News article deleted successfully'')]\<rparr>, s')))"

section \<open>The faculty routes (api/faculty/index.ts, api/faculty/[id].ts)\<close>

text \<open>The checks of the optional fields, the same in the create and the update route.\<close>

definition faculty_optional_checks :: "jsval \<Rightarrow> (bool \<times> string) list" where
  "faculty_optional_checks b =
     [(nonnull_not_string (property b ''nameEn''), ''NameEn must be a string''),
      (nonnull_not_string (property b ''photoUrl''), ''PhotoUrl must be a string''),
      (nonnull_not_string (property b ''email''), ''Email must be a string''),
      (nonnull_not_string (property b ''phone''), ''Phone must be a string''),
      (nonnull_not_string (property b ''office''), ''Office must be a string''),
      (property b ''researchInterests'' \<noteq> JUndefined \<and> property b ''researchInterests'' \<noteq> JNull \<and>
         not_string_array (property b ''researchInterests''),
         ''ResearchInterests must be an array of strings''),
      (nonnull_not_string (property b ''education''), ''Education must be a string''),
      (nonnull_not_string (property b ''biography''), ''Biography must be a string''),
      (nonnull_not_string (property b ''publications''), ''Publications must be a string''),
      (nonnull_not_string (property b ''projects''), ''Projects must be a string''),
      (nonnull_not_string (property b ''awards''), ''Awards must be a string''),
      (property b ''sortOrder'' \<noteq> JUndefined \<and>
         (typeof (property b ''sortOrder'') \<noteq> ''number'' \<or> \<not> isInteger (property b ''sortOrder'')),
         ''SortOrder must be an integer''),
      (present_not ''boolean'' (property b ''isVisible''), ''IsVisible must be a boolean'')]"

definition POST_faculty_checks :: "jsval \<Rightarrow> (bool \<times> string) list" where
  "POST_faculty_checks b =
     [(required_missing (property b ''name''), ''Name is required and must be a non-empty string''),
      (required_missing (property b ''title''), ''Title is required and must be a non-empty string''),
      (required_missing (property b ''category''), ''Category is required and must be a non-empty string'')]
     @ faculty_optional_checks b"

text \<open>\<^verbatim>\<open>body.sortOrder ?? 0\<close> and \<^verbatim>\<open>body.isVisible ?? true\<close> of validated values.\<close>

definition the_integer :: "jsval \<Rightarrow> int" where
  "the_integer v = (case v of JNum q \<Rightarrow> \<lfloor>q\<rfloor> | _ \<Rightarrow> 0)"

definition facultyData :: "jsval \<Rightarrow> faculty_data" where
  "facultyData b =
     \<lparr>f_name = trimmed (property b ''name''),
      f_nameEn = opt_trimmed (property b ''nameEn''),
      f_title = trimmed (property b ''title''),
      f_category = trimmed (property b ''category''),
      f_photoUrl = opt_trimmed (property b ''photoUrl''),
      f_email = opt_trimmed (property b ''email''),
      f_phone = opt_trimmed (property b ''phone''),
      f_office = opt_trimmed (property b ''office''),
      f_researchInterests =
        (case property b ''researchInterests'' of JArr ts \<Rightarrow> Some (the_strings (JArr ts)) | _ \<Rightarrow> None),
      f_education = opt_trimmed (property b ''education''),
      f_biography = opt_trimmed (property b ''biography''),
      f_publications = opt_trimmed (property b ''publications''),
      f_projects = opt_trimmed (property b ''projects''),
      f_awards = opt_trimmed (property b ''awards''),
      f_sortOrder = the_integer (property b ''sortOrder''),
      f_isVisible = (case property b ''isVisible'' of JBool v \<Rightarrow> v | _ \<Rightarrow> True)\<rparr>"

text \<open>\<^verbatim>\<open>POST /api/faculty\<close>: its \<^verbatim>\<open>catch\<close> answers 500 whatever was thrown.\<close>

definition POST_faculty :: "(stmt, 's) driver \<Rightarrow> error + jsval \<Rightarrow> 's \<Rightarrow> response \<times> 's" where
  "POST_faculty sql json s =
     (case json of
        Inl e \<Rightarrow> (internal_error, s)
      | Inr b \<Rightarrow>
          if b = JNull then (internal_error, s)
          else
            (case first_failure (POST_faculty_checks b) of
               Some msg \<Rightarrow> (json_error 400 msg, s)
             | None \<Rightarrow>
                 (case createFaculty sql (facultyData b) s of
                    (Inl e, s') \<Rightarrow> (internal_error, s')
                  | (Inr createdFaculty, s') \<Rightarrow>
                      (\<lparr>status = 201, body = JObj createdFaculty\<rparr>, s'))))"

definition GET_faculty_id :: "(stmt, 's) driver \<Rightarrow> string option \<Rightarrow> 's \<Rightarrow> response \<times> 's" where
  "GET_faculty_id sql p s =
     (if invalid_id (id_param p) then (json_error 400 ''Invalid faculty ID'', s)
      else
        (case getFacultyById sql (the (id_param p)) s of
           (Inl e, s') \<Rightarrow> (internal_error, s')
         | (Inr None, s') \<Rightarrow> (json_error 404 ''Faculty member not found'', s')
         | (Inr (Some faculty), s') \<Rightarrow> (\<lparr>status = 200, body = JObj faculty\<rparr>, s')))"

definition PUT_faculty_checks :: "jsval \<Rightarrow> (bool \<times> string) list" where
  "PUT_faculty_checks b =
     [(present_not_text (property b ''name''), ''Name must be a non-empty string''),
      (present_not_text (property b ''title''), ''Title must be a non-empty string''),
      (present_not_text (property b ''category''), ''Category must be a non-empty string'')]
     @ faculty_optional_checks b @
     [(property b ''id'' \<noteq> JUndefined \<or> property b ''createdAt'' \<noteq> JUndefined \<or>
         property b ''updatedAt'' \<noteq> JUndefined,
         ''Cannot update system fields (id, createdAt, updatedAt)'')]"

definition faculty_updateData :: "jsval \<Rightarrow> faculty_patch" where
  "faculty_updateData b =
     \<lparr>fu_name = (if property b ''name'' \<noteq> JUndefined then Some (trimmed (property b ''name'')) else None),
      fu_nameEn = opt_trimmed (property b ''nameEn''),
      fu_title = (if property b ''title'' \<noteq> JUndefined then Some (trimmed (property b ''title'')) else None),
      fu_category =
        (if property b ''category'' \<noteq> JUndefined then Some (trimmed (property b ''category'')) else None),
      fu_photoUrl = opt_trimmed (property b ''photoUrl''),
      fu_email = opt_trimmed (property b ''email''),
      fu_phone = opt_trimmed (property b ''phone''),
      fu_office = opt_trimmed (property b ''office''),
      fu_researchInterests =
        (case property b ''researchInterests'' of
           JUndefined \<Rightarrow> None
         | JArr ts \<Rightarrow> Some (Some (the_strings (JArr ts)))
         | _ \<Rightarrow> Some None),
      fu_education = opt_trimmed (property b ''education''),
      fu_biography = opt_trimmed (property b ''biography''),
      fu_publications = opt_trimmed (property b ''publications''),
      fu_projects = opt_trimmed (property b ''projects''),
      fu_awards = opt_trimmed (property b ''awards''),
      fu_sortOrder = (case property b ''sortOrder'' of JNum q \<Rightarrow> Some (the_integer (JNum q)) | _ \<Rightarrow> None),
      fu_isVisible = (case property b ''isVisible'' of JBool v \<Rightarrow> Some v | _ \<Rightarrow> None)\<rparr>"

definition PUT_faculty ::
  "(stmt, 's) driver \<Rightarrow> string option \<Rightarrow> error + jsval \<Rightarrow> 's \<Rightarrow> response \<times> 's" where
  "PUT_faculty sql p json s =
     (if invalid_id (id_param p) then (json_error 400 ''Invalid faculty ID'', s)
      else
        (case json of
           Inl e \<Rightarrow> (internal_error, s)
         | Inr b \<Rightarrow>
             if b = JNull then (internal_error, s)
             else
               (case first_failure (PUT_faculty_checks b) of
                  Some msg \<Rightarrow> (json_error 400 msg, s)
                | None \<Rightarrow>
                    (case updateFaculty sql (the (id_param p)) (faculty_updateData b) s of
                       (Inl e, s') \<Rightarrow> (internal_error, s')
                     | (Inr None, s') \<Rightarrow> (json_error 404 ''Faculty member not found'', s')
                     | (Inr (Some updatedFaculty), s') \<Rightarrow>
                         (\<lparr>status = 200, body = JObj updatedFaculty\<rparr>, s')))))"

definition DELETE_faculty :: "(stmt, 's) driver \<Rightarrow> string option \<Rightarrow> 's \<Rightarrow> response \<times> 's" where
  "DELETE_faculty sql p s =
     (if invalid_id (id_param p) then (json_error 400 ''Invalid faculty ID'', s)
      else
        (case deleteFaculty sql (the (id_param p)) s of
           (Inl e, s') \<Rightarrow> (internal_error, s')
         | (Inr deleted, s') \<Rightarrow>
             if \<not> deleted then (json_error 404 ''Faculty member not found'', s')
             else (\<lparr>status = 200,
                    body = JObj [(''message'', JStr ''Faculty member deleted successfully'')]\<rparr>, s')))"

section \<open>A reference model of the store\<close>

text \<open>
  The relational store is an external collaborator. For the claims that depend on what
  the statements mean, this section gives the tables of \<^verbatim>\<open>scripts/init-db.sql\<close> and a
  reference driver \<open>pg\<close> that runs each statement of the repositories on them, with the
  meaning PostgreSQL gives it.

  A nullable column is an \<open>option\<close>. The columns \<^verbatim>\<open>published_at\<close>, \<^verbatim>\<open>updated_at\<close>,
  \<^verbatim>\<open>created_at\<close>, \<^verbatim>\<open>view_count\<close>, \<^verbatim>\<open>is_published\<close>, \<^verbatim>\<open>sort_order\<close> and
  \<^verbatim>\<open>is_visible\<close> are declared with a default and without \<^verbatim>\<open>NOT NULL\<close>; no statement
  of the repositories stores \<^verbatim>\<open>NULL\<close> in them, and they are modelled as not null.
\<close>

record news_row =
  r_id :: int
  r_title :: string
  r_slug :: string
  r_summary :: "string option"
  r_content :: string
  r_thumbnail_url :: "string option"
  r_author :: "string option"
  r_category :: "string option"
  r_published_at :: nat
  r_updated_at :: nat
  r_is_published :: bool
  r_view_count :: int
  r_tags :: "string list option"

record faculty_row =
  fr_id :: int
  fr_name :: string
  fr_name_en :: "string option"
  fr_title :: string
  fr_category :: string
  fr_photo_url :: "string option"
  fr_email :: "string option"
  fr_phone :: "string option"
  fr_office :: "string option"
  fr_research_interests :: "string list option"
  fr_education :: "string option"
  fr_biography :: "string option"
  fr_publications :: "string option"
  fr_projects :: "string option"
  fr_awards :: "string option"
  fr_sort_order :: int
  fr_is_visible :: bool
  fr_created_at :: nat
  fr_updated_at :: nat

record nav_row =
  nv_id :: int
  nv_label :: string
  nv_url :: string
  nv_parent_id :: "int option"
  nv_sort_order :: int
  nv_is_visible :: bool
  nv_icon :: "string option"
  nv_description :: "string option"

text \<open>
  The state of the store: the three tables, the next values of the two \<^verbatim>\<open>SERIAL\<close>
  sequences, the value of \<^verbatim>\<open>CURRENT_TIMESTAMP\<close>, the journal of the statements
  received, each with its parameters, oldest first, and the folding to lower case of the
  locale of the database, which \<^verbatim>\<open>ILIKE\<close> matches by.
\<close>

record db =
  news :: "news_row list"
  faculty :: "faculty_row list"
  navigation :: "nav_row list"
  news_id_seq :: int
  faculty_id_seq :: int
  now :: nat
  journal :: "(stmt \<times> jsval list) list"
  lower_case :: "string \<Rightarrow> string"

subsection \<open>Rows as the driver returns them\<close>

definition text_or_null :: "string option \<Rightarrow> jsval" where
  "text_or_null x = (case x of None \<Rightarrow> JNull | Some t \<Rightarrow> JStr t)"

definition texts_or_null :: "string list option \<Rightarrow> jsval" where
  "texts_or_null x = (case x of None \<Rightarrow> JNull | Some ts \<Rightarrow> strings ts)"

definition news_json :: "news_row \<Rightarrow> jsobj" where
  "news_json r =
     [(''id'', num (r_id r)),
      (''title'', JStr (r_title r)),
      (''slug'', JStr (r_slug r)),
      (''summary'', text_or_null (r_summary r)),
      (''content'', JStr (r_content r)),
      (''thumbnailUrl'', text_or_null (r_thumbnail_url r)),
      (''author'', text_or_null (r_author r)),
      (''category'', text_or_null (r_category r)),
      (''publishedAt'', JDate (r_published_at r)),
      (''updatedAt'', JDate (r_updated_at r)),
      (''isPublished'', JBool (r_is_published r)),
      (''viewCount'', num (r_view_count r)),
      (''tags'', texts_or_null (r_tags r))]"

definition faculty_json :: "faculty_row \<Rightarrow> jsobj" where
  "faculty_json r =
     [(''id'', num (fr_id r)),
      (''name'', JStr (fr_name r)),
      (''nameEn'', text_or_null (fr_name_en r)),
      (''title'', JStr (fr_title r)),
      (''category'', JStr (fr_category r)),
      (''photoUrl'', text_or_null (fr_photo_url r)),
      (''email'', text_or_null (fr_email r)),
      (''phone'', text_or_null (fr_phone r)),
      (''office'', text_or_null (fr_office r)),
      (''researchInterests'', texts_or_null (fr_research_interests r)),
      (''education'', text_or_null (fr_education r)),
      (''biography'', text_or_null (fr_biography r)),
      (''publications'', text_or_null (fr_publications r)),
      (''projects'', text_or_null (fr_projects r)),
      (''awards'', text_or_null (fr_awards r)),
      (''sortOrder'', num (fr_sort_order r)),
      (''isVisible'', JBool (fr_is_visible r)),
      (''createdAt'', JDate (fr_created_at r)),
      (''updatedAt'', JDate (fr_updated_at r))]"

definition nav_json :: "nav_row \<Rightarrow> jsobj" where
  "nav_json r =
     [(''id'', num (nv_id r)),
      (''label'', JStr (nv_label r)),
      (''url'', JStr (nv_url r)),
      (''parentId'', (case nv_parent_id r of None \<Rightarrow> JNull | Some i \<Rightarrow> num i)),
      (''sortOrder'', num (nv_sort_order r)),
      (''isVisible'', JBool (nv_is_visible r)),
      (''icon'', text_or_null (nv_icon r)),
      (''description'', text_or_null (nv_description r))]"

subsection \<open>Parameters as the store reads them\<close>

text \<open>
  A parameter bound to a column or a comparison of a given type. The repositories send
  a string for text, \<^verbatim>\<open>null\<close> or a string for nullable text, a boolean, a number
  for an integer, \<^verbatim>\<open>null\<close> or an array of strings for \<^verbatim>\<open>TEXT[]\<close>; \<open>None\<close> is a
  value that the store refuses, on which the reference driver throws.

  A text of the store is well-formed UTF-8 without the character of code 0.
\<close>

definition in_range :: "char \<Rightarrow> char \<Rightarrow> char \<Rightarrow> bool" where
  "in_range l h c = (l \<le> c \<and> c \<le> h)"

definition is_continuation :: "char \<Rightarrow> bool" where
  "is_continuation c = (CHR 0x80 \<le> c \<and> c \<le> CHR 0xBF)"

text \<open>
  The byte that may follow the first byte \<open>a\<close> of a sequence of three or four bytes:
  a continuation byte, in the range that excludes the overlong forms, the surrogates and
  the code points beyond U+10FFFF.
\<close>

definition second_byte :: "char \<Rightarrow> char \<Rightarrow> bool" where
  "second_byte a b =
     (if a = CHR 0xE0 then in_range (CHR 0xA0) (CHR 0xBF) b
      else if a = CHR 0xED then in_range (CHR 0x80) (CHR 0x9F) b
      else if a = CHR 0xF0 then in_range (CHR 0x90) (CHR 0xBF) b
      else if a = CHR 0xF4 then in_range (CHR 0x80) (CHR 0x8F) b
      else is_continuation b)"

fun utf8 :: "string \<Rightarrow> bool" where
  "utf8 [] = True"
| "utf8 (a # t) =
     (if a \<le> CHR 0x7F then utf8 t
      else if in_range (CHR 0xC2) (CHR 0xDF) a then
        (case t of b # t1 \<Rightarrow> is_continuation b \<and> utf8 t1 | _ \<Rightarrow> False)
      else if in_range (CHR 0xE0) (CHR 0xEF) a then
        (case t of
           b # c # t2 \<Rightarrow> second_byte a b \<and> is_continuation c \<and> utf8 t2
         | _ \<Rightarrow> False)
      else if in_range (CHR 0xF0) (CHR 0xF4) a then
        (case t of
           b # c # d # t3 \<Rightarrow>
             second_byte a b \<and> is_continuation c \<and> is_continuation d \<and> utf8 t3
         | _ \<Rightarrow> False)
      else False)"

definition pg_text :: "string \<Rightarrow> bool" where
  "pg_text t = (CHR 0x00 \<notin> set t \<and> utf8 t)"

definition as_text :: "jsval \<Rightarrow> string option" where
  "as_text v = (case v of JStr t \<Rightarrow> if pg_text t then Some t else None | _ \<Rightarrow> None)"

definition as_nullable_text :: "jsval \<Rightarrow> string option option" where
  "as_nullable_text v =
     (case v of
        JNull \<Rightarrow> Some None
      | JStr t \<Rightarrow> if pg_text t then Some (Some t) else None
      | _ \<Rightarrow> None)"

definition as_bool :: "jsval \<Rightarrow> bool option" where
  "as_bool v = (case v of JBool b \<Rightarrow> Some b | _ \<Rightarrow> None)"

definition as_nullable_texts :: "jsval \<Rightarrow> string list option option" where
  "as_nullable_texts v =
     (case v of
        JNull \<Rightarrow> Some None
      | JArr ts \<Rightarrow>
          if list_all (\<lambda>t. typeof t = ''string'' \<and> pg_text (the_string t)) ts
          then Some (Some (map the_string ts)) else None
      | _ \<Rightarrow> None)"

text \<open>
  A number reaches the store as its text, which the store reads as an integer: an
  optional sign and decimal digits, nothing else (the text of a fraction, of a number
  from \<open>10 ^ 21\<close> on and of \<^verbatim>\<open>Infinity\<close> is refused). The value must be in the range of
  the type: 32 bits for \<^verbatim>\<open>INTEGER\<close> and \<^verbatim>\<open>SERIAL\<close>, 64 bits for \<^verbatim>\<open>BIGINT\<close>, the
  type of \<^verbatim>\<open>LIMIT\<close> and \<^verbatim>\<open>OFFSET\<close>.
\<close>

definition pg_integer :: "string \<Rightarrow> int option" where
  "pg_integer t =
     (let neg = (t \<noteq> [] \<and> hd t = CHR ''-'');
          u = (if t \<noteq> [] \<and> (hd t = CHR ''-'' \<or> hd t = CHR ''+'') then tl t else t)
      in if u \<noteq> [] \<and> list_all is_digit u
         then Some ((if neg then - 1 else 1) * digits_value u)
         else None)"

definition as_integer :: "nat \<Rightarrow> jsval \<Rightarrow> int option" where
  "as_integer bits v =
     (case v of
        JNum q \<Rightarrow>
          (case pg_integer (number_text q) of
             None \<Rightarrow> None
           | Some i \<Rightarrow> if - (2 ^ (bits - 1)) \<le> i \<and> i < 2 ^ (bits - 1) then Some i else None)
      | _ \<Rightarrow> None)"

definition as_int :: "jsval \<Rightarrow> int option" where
  "as_int v = as_integer 32 v"

definition as_bigint :: "jsval \<Rightarrow> int option" where
  "as_bigint v = as_integer 64 v"

text \<open>
  \<^verbatim>\<open>VARCHAR(n)\<close>: a value of at most \<open>n\<close> characters is stored as it is; a longer one
  is cut to \<open>n\<close> characters when all that is cut are spaces, and is an error otherwise.
  A character is a UTF-8 sequence: one byte that is not a continuation byte, with the
  continuation bytes that follow it.
\<close>

definition char_length :: "string \<Rightarrow> nat" where
  "char_length t = length (filter (\<lambda>c. \<not> is_continuation c) t)"

fun drop_chars :: "nat \<Rightarrow> string \<Rightarrow> string" where
  "drop_chars n [] = []"
| "drop_chars n (c # cs) =
     (if is_continuation c then drop_chars n cs
      else (case n of 0 \<Rightarrow> c # cs | Suc m \<Rightarrow> drop_chars m cs))"

definition varchar :: "nat \<Rightarrow> string \<Rightarrow> string option" where
  "varchar n t =
     (if char_length t \<le> n then Some t
      else if list_all (\<lambda>c. c = CHR '' '') (drop_chars n t)
      then Some (take (length t - length (drop_chars n t)) t)
      else None)"

definition nullable_varchar :: "nat \<Rightarrow> string option \<Rightarrow> string option option" where
  "nullable_varchar n x = (case x of None \<Rightarrow> Some None | Some t \<Rightarrow> map_option Some (varchar n t))"

definition invalid_input :: thrown where
  "invalid_input = ErrorInstance ''invalid input for the parameters of the statement''"

definition too_long :: thrown where
  "too_long = ErrorInstance ''value too long for type character varying''"

definition unique_violation :: "string \<Rightarrow> thrown" where
  "unique_violation constraint =
     ErrorInstance (''duplicate key value violates unique constraint '' @
                    [CHR 0x22] @ constraint @ [CHR 0x22])"

subsection \<open>The statements on the table of news\<close>

text \<open>
  \<^verbatim>\<open>WHERE is_published = true\<close>, with \<^verbatim>\<open>AND category = $1\<close> when a category is given.
\<close>

definition news_where :: "string option \<Rightarrow> news_row \<Rightarrow> bool" where
  "news_where category r =
     (r_is_published r \<and> (case category of None \<Rightarrow> True | Some c \<Rightarrow> r_category r = Some c))"

text \<open>
  \<^verbatim>\<open>ORDER BY published_at DESC\<close>. The order of rows of equal \<^verbatim>\<open>published_at\<close> is not
  fixed by SQL; the model keeps them in the order of the table.
\<close>

definition newest_first :: "news_row list \<Rightarrow> news_row list" where
  "newest_first rs = sort_key (\<lambda>r. - int (r_published_at r)) rs"

text \<open>
  \<^verbatim>\<open>LIMIT l OFFSET o\<close>, of 64-bit integers; a negative \<open>l\<close> or \<open>o\<close> is an error of
  the statement.
\<close>

definition select_news_list :: "string option \<Rightarrow> int \<Rightarrow> int \<Rightarrow> db \<Rightarrow> (thrown + jsobj list) \<times> db" where
  "select_news_list category l off d =
     (if l < 0 then (Inl (ErrorInstance ''LIMIT must not be negative''), d)
      else if off < 0 then (Inl (ErrorInstance ''OFFSET must not be negative''), d)
      else (Inr (map news_json
                  (take (nat l) (drop (nat off) (newest_first (filter (news_where category) (news d)))))),
            d))"

definition count_news :: "string option \<Rightarrow> db \<Rightarrow> (thrown + jsobj list) \<times> db" where
  "count_news category d =
     (Inr [[(''count'', JStr (decimal (int (length (filter (news_where category) (news d))))))]], d)"

definition select_news_by_id :: "int \<Rightarrow> db \<Rightarrow> (thrown + jsobj list) \<times> db" where
  "select_news_by_id i d = (Inr (map news_json (filter (\<lambda>r. r_id r = i) (news d))), d)"

text \<open>
  \<^verbatim>\<open>INSERT\<close>: \<^verbatim>\<open>id\<close> is the next value of the sequence (which is consumed also when the
  row is refused), \<^verbatim>\<open>published_at\<close> and \<^verbatim>\<open>updated_at\<close> are the current time,
  \<^verbatim>\<open>view_count\<close> is 0. The primary key and the \<^verbatim>\<open>UNIQUE\<close> constraint on \<^verbatim>\<open>slug\<close> refuse a
  duplicate. A sequence of a \<^verbatim>\<open>SERIAL\<close> column runs from 1 to \<open>2 ^ 31 - 1\<close> and has no
  next value beyond.
\<close>

definition sequence_exhausted :: thrown where
  "sequence_exhausted = ErrorInstance ''nextval: reached maximum value of sequence''"

definition serial :: "int \<Rightarrow> bool" where
  "serial i = (1 \<le> i \<and> i < 2 ^ 31)"

definition insert_news :: "jsval list \<Rightarrow> db \<Rightarrow> (thrown + jsobj list) \<times> db" where
  "insert_news ps d =
     (case ps of
        [p1, p2, p3, p4, p5, p6, p7, p8, p9] \<Rightarrow>
          (case (as_text p1, as_text p2, as_nullable_text p3, as_text p4, as_nullable_text p5,
                 as_nullable_text p6, as_nullable_text p7, as_bool p8, as_nullable_texts p9) of
             (Some title, Some slug, Some summary, Some content, Some thumbnail_url,
              Some author, Some category, Some is_published, Some tags) \<Rightarrow>
               (case (varchar 255 title, varchar 255 slug, nullable_varchar 500 thumbnail_url,
                      nullable_varchar 100 author, nullable_varchar 50 category) of
                  (Some title', Some slug', Some thumbnail_url', Some author', Some category') \<Rightarrow>
                    if \<not> serial (news_id_seq d) then (Inl sequence_exhausted, d) else
                    (let d1 = d\<lparr>news_id_seq := news_id_seq d + 1\<rparr>;
                         row = \<lparr>r_id = news_id_seq d, r_title = title', r_slug = slug',
                                r_summary = summary, r_content = content,
                                r_thumbnail_url = thumbnail_url', r_author = author',
                                r_category = category', r_published_at = now d,
                                r_updated_at = now d, r_is_published = is_published,
                                r_view_count = 0, r_tags = tags\<rparr>
                     in if news_id_seq d \<in> set (map r_id (news d))
                        then (Inl (unique_violation ''news_pkey''), d1)
                        else if slug' \<in> set (map r_slug (news d))
                        then (Inl (unique_violation ''news_slug_key''), d1)
                        else (Inr [news_json row], d1\<lparr>news := news d @ [row]\<rparr>))
                | _ \<Rightarrow> (Inl too_long, d))
           | _ \<Rightarrow> (Inl invalid_input, d))
      | _ \<Rightarrow> (Inl invalid_input, d))"

text \<open>One assignment \<^verbatim>\<open>column = $i\<close> of an \<^verbatim>\<open>UPDATE\<close> of news, on the row it changes.\<close>

definition set_news_column :: "string \<Rightarrow> jsval \<Rightarrow> news_row \<Rightarrow> thrown + news_row" where
  "set_news_column column v r =
     (if column = ''title'' then
        (case as_text v of None \<Rightarrow> Inl invalid_input
         | Some t \<Rightarrow> (case varchar 255 t of None \<Rightarrow> Inl too_long | Some t' \<Rightarrow> Inr (r\<lparr>r_title := t'\<rparr>)))
      else if column = ''slug'' then
        (case as_text v of None \<Rightarrow> Inl invalid_input
         | Some t \<Rightarrow> (case varchar 255 t of None \<Rightarrow> Inl too_long | Some t' \<Rightarrow> Inr (r\<lparr>r_slug := t'\<rparr>)))
      else if column = ''summary'' then
        (case as_nullable_text v of None \<Rightarrow> Inl invalid_input | Some x \<Rightarrow> Inr (r\<lparr>r_summary := x\<rparr>))
      else if column = ''content'' then
        (case as_text v of None \<Rightarrow> Inl invalid_input | Some t \<Rightarrow> Inr (r\<lparr>r_content := t\<rparr>))
      else if column = ''thumbnail_url'' then
        (case as_nullable_text v of None \<Rightarrow> Inl invalid_input
         | Some x \<Rightarrow> (case nullable_varchar 500 x of None \<Rightarrow> Inl too_long
                      | Some x' \<Rightarrow> Inr (r\<lparr>r_thumbnail_url := x'\<rparr>)))
      else if column = ''author'' then
        (case as_nullable_text v of None \<Rightarrow> Inl invalid_input
         | Some x \<Rightarrow> (case nullable_varchar 100 x of None \<Rightarrow> Inl too_long
                      | Some x' \<Rightarrow> Inr (r\<lparr>r_author := x'\<rparr>)))
      else if column = ''category'' then
        (case as_nullable_text v of None \<Rightarrow> Inl invalid_input
         | Some x \<Rightarrow> (case nullable_varchar 50 x of None \<Rightarrow> Inl too_long
                      | Some x' \<Rightarrow> Inr (r\<lparr>r_category := x'\<rparr>)))
      else if column = ''is_published'' then
        (case as_bool v of None \<Rightarrow> Inl invalid_input | Some b \<Rightarrow> Inr (r\<lparr>r_is_published := b\<rparr>))
      else if column = ''tags'' then
        (case as_nullable_texts v of None \<Rightarrow> Inl invalid_input | Some x \<Rightarrow> Inr (r\<lparr>r_tags := x\<rparr>))
      else Inl invalid_input)"

text \<open>The assignments of an \<^verbatim>\<open>UPDATE\<close>, in order, stopping at the first error.\<close>

fun assignments :: "('r \<Rightarrow> thrown + 'r) list \<Rightarrow> 'r \<Rightarrow> thrown + 'r" where
  "assignments [] r = Inr r"
| "assignments (f # fs) r = (case f r of Inl e \<Rightarrow> Inl e | Inr r' \<Rightarrow> assignments fs r')"

text \<open>
  \<^verbatim>\<open>UPDATE news SET ..., updated_at = CURRENT_TIMESTAMP WHERE id = $k+1 RETURNING ...\<close>:
  the last parameter is the id, the others are the values of the columns. With no row of
  that id nothing changes and no row is returned.
\<close>

definition update_news :: "string list \<Rightarrow> jsval list \<Rightarrow> db \<Rightarrow> (thrown + jsobj list) \<times> db" where
  "update_news cols ps d =
     (if length ps \<noteq> length cols + 1 then (Inl invalid_input, d)
      else
        (case as_int (last ps) of
           None \<Rightarrow> (Inl invalid_input, d)
         | Some i \<Rightarrow>
             (case filter (\<lambda>r. r_id r = i) (news d) of
                [] \<Rightarrow> (Inr [], d)
              | old # _ \<Rightarrow>
                  (case assignments (map2 set_news_column cols (butlast ps)) old of
                     Inl e \<Rightarrow> (Inl e, d)
                   | Inr r \<Rightarrow>
                       (let row = r\<lparr>r_updated_at := now d\<rparr>
                        in if r_slug row \<in> set (map r_slug (filter (\<lambda>r. r_id r \<noteq> i) (news d)))
                           then (Inl (unique_violation ''news_slug_key''), d)
                           else (Inr [news_json row],
                                 d\<lparr>news := map (\<lambda>r. if r_id r = i then row else r) (news d)\<rparr>))))))"

definition delete_news :: "int \<Rightarrow> db \<Rightarrow> (thrown + jsobj list) \<times> db" where
  "delete_news i d =
     (Inr (map (\<lambda>r. [(''id'', num (r_id r))]) (filter (\<lambda>r. r_id r = i) (news d))),
      d\<lparr>news := filter (\<lambda>r. r_id r \<noteq> i) (news d)\<rparr>)"

subsection \<open>Pattern matching\<close>

text \<open>
  \<^verbatim>\<open>subject LIKE pattern\<close>: in the pattern \<^verbatim>\<open>%\<close> stands for any run of characters,
  \<^verbatim>\<open>_\<close> for any one character, a backslash takes the character after it literally, and
  any other character stands for itself. (A pattern that ends in a lone backslash is an
  error in PostgreSQL; the patterns of the repository end in \<^verbatim>\<open>%\<close>, and the model
  lets such a pattern match nothing.)
\<close>

fun like :: "string \<Rightarrow> string \<Rightarrow> bool" where
  "like [] s = (s = [])"
| "like (p # ps) [] =
     (if p = CHR ''%'' then like ps [] else False)"
| "like (p # ps) (c # cs) =
     (if p = CHR ''%'' then like ps (c # cs) \<or> like (p # ps) cs
      else if p = CHR ''_'' then like ps (drop_chars 1 (c # cs))
      else if p = CHR 0x5C then
        (case ps of [] \<Rightarrow> False | q # qs \<Rightarrow> c = q \<and> like qs cs)
      else c = p \<and> like ps cs)"

text \<open>
  \<^verbatim>\<open>ILIKE\<close> matches without regard to case: the pattern and the subject are folded to
  lower case, as the locale of the database folds, and matched by \<^verbatim>\<open>LIKE\<close>. \<open>lower\<close>
  is the folding of the locale \<^verbatim>\<open>C\<close>, which folds the letters of ASCII and no other.
\<close>

definition lower_char :: "char \<Rightarrow> char" where
  "lower_char c = (if CHR ''A'' \<le> c \<and> c \<le> CHR ''Z'' then char_of (of_char c + (32::nat)) else c)"

definition lower :: "string \<Rightarrow> string" where
  "lower t = map lower_char t"

definition ilike :: "(string \<Rightarrow> string) \<Rightarrow> string \<Rightarrow> string \<Rightarrow> bool" where
  "ilike lc subject pattern = like (lc pattern) (lc subject)"

subsection \<open>The statements on the table of faculty\<close>

text \<open>
  \<^verbatim>\<open>WHERE is_visible = true\<close>, then \<^verbatim>\<open>AND category = $i\<close> when a category is given, then
  \<^verbatim>\<open>AND (name ILIKE $j OR name_en ILIKE $j OR title ILIKE $j OR
  $j = ANY(research_interests))\<close> when a pattern is given. A comparison with \<^verbatim>\<open>NULL\<close> is
  not true.
\<close>

definition faculty_where ::
  "(string \<Rightarrow> string) \<Rightarrow> string option \<Rightarrow> string option \<Rightarrow> faculty_row \<Rightarrow> bool" where
  "faculty_where lc category pattern r =
     (fr_is_visible r \<and>
      (case category of None \<Rightarrow> True | Some c \<Rightarrow> fr_category r = c) \<and>
      (case pattern of
         None \<Rightarrow> True
       | Some p \<Rightarrow>
           ilike lc (fr_name r) p \<or>
           (case fr_name_en r of None \<Rightarrow> False | Some n \<Rightarrow> ilike lc n p) \<or>
           ilike lc (fr_title r) p \<or>
           (case fr_research_interests r of None \<Rightarrow> False | Some ts \<Rightarrow> p \<in> set ts)))"

text \<open>
  \<^verbatim>\<open>ORDER BY sort_order ASC, name ASC\<close>; names are compared byte by byte (the collation of
  the database is not modelled).
\<close>

definition select_faculty_list ::
  "string option \<Rightarrow> string option \<Rightarrow> db \<Rightarrow> (thrown + jsobj list) \<times> db" where
  "select_faculty_list category pattern d =
     (Inr (map faculty_json
             (sort_key (\<lambda>r. (fr_sort_order r, fr_name r))
                (filter (faculty_where (lower_case d) category pattern) (faculty d)))),
      d)"

definition select_faculty_by_id :: "int \<Rightarrow> db \<Rightarrow> (thrown + jsobj list) \<times> db" where
  "select_faculty_by_id i d = (Inr (map faculty_json (filter (\<lambda>r. fr_id r = i) (faculty d))), d)"

definition insert_faculty :: "jsval list \<Rightarrow> db \<Rightarrow> (thrown + jsobj list) \<times> db" where
  "insert_faculty ps d =
     (case ps of
        [p1, p2, p3, p4, p5, p6, p7, p8, p9, p10, p11, p12, p13, p14, p15, p16] \<Rightarrow>
          (case (as_text p1, as_nullable_text p2, as_text p3, as_text p4) of
             (Some name, Some name_en, Some title, Some category) \<Rightarrow>
          (case (as_nullable_text p5, as_nullable_text p6, as_nullable_text p7, as_nullable_text p8) of
             (Some photo_url, Some email, Some phone, Some office) \<Rightarrow>
          (case (as_nullable_texts p9, as_nullable_text p10, as_nullable_text p11, as_nullable_text p12) of
             (Some research_interests, Some education, Some biography, Some publications) \<Rightarrow>
          (case (as_nullable_text p13, as_nullable_text p14, as_int p15, as_bool p16) of
             (Some projects, Some awards, Some sort_order, Some is_visible) \<Rightarrow>
          (case (varchar 100 name, nullable_varchar 100 name_en, varchar 50 title, varchar 50 category) of
             (Some name', Some name_en', Some title', Some category') \<Rightarrow>
          (case (nullable_varchar 500 photo_url, nullable_varchar 100 email,
                 nullable_varchar 50 phone, nullable_varchar 100 office) of
             (Some photo_url', Some email', Some phone', Some office') \<Rightarrow>
               if \<not> serial (faculty_id_seq d) then (Inl sequence_exhausted, d) else
               (let d1 = d\<lparr>faculty_id_seq := faculty_id_seq d + 1\<rparr>;
                    row = \<lparr>fr_id = faculty_id_seq d, fr_name = name', fr_name_en = name_en',
                           fr_title = title', fr_category = category', fr_photo_url = photo_url',
                           fr_email = email', fr_phone = phone', fr_office = office',
                           fr_research_interests = research_interests, fr_education = education,
                           fr_biography = biography, fr_publications = publications,
                           fr_projects = projects, fr_awards = awards,
                           fr_sort_order = sort_order, fr_is_visible = is_visible,
                           fr_created_at = now d, fr_updated_at = now d\<rparr>
                in if faculty_id_seq d \<in> set (map fr_id (faculty d))
                   then (Inl (unique_violation ''faculty_pkey''), d1)
                   else (Inr [faculty_json row], d1\<lparr>faculty := faculty d @ [row]\<rparr>))
           | _ \<Rightarrow> (Inl too_long, d))
           | _ \<Rightarrow> (Inl too_long, d))
           | _ \<Rightarrow> (Inl invalid_input, d))
           | _ \<Rightarrow> (Inl invalid_input, d))
           | _ \<Rightarrow> (Inl invalid_input, d))
           | _ \<Rightarrow> (Inl invalid_input, d))
      | _ \<Rightarrow> (Inl invalid_input, d))"

definition set_text ::
  "nat option \<Rightarrow> (string \<Rightarrow> 'r \<Rightarrow> 'r) \<Rightarrow> jsval \<Rightarrow> 'r \<Rightarrow> thrown + 'r" where
  "set_text width upd v r =
     (case as_text v of
        None \<Rightarrow> Inl invalid_input
      | Some t \<Rightarrow>
          (case width of
             None \<Rightarrow> Inr (upd t r)
           | Some n \<Rightarrow> (case varchar n t of None \<Rightarrow> Inl too_long | Some t' \<Rightarrow> Inr (upd t' r))))"

definition set_nullable_text ::
  "nat option \<Rightarrow> (string option \<Rightarrow> 'r \<Rightarrow> 'r) \<Rightarrow> jsval \<Rightarrow> 'r \<Rightarrow> thrown + 'r" where
  "set_nullable_text width upd v r =
     (case as_nullable_text v of
        None \<Rightarrow> Inl invalid_input
      | Some x \<Rightarrow>
          (case width of
             None \<Rightarrow> Inr (upd x r)
           | Some n \<Rightarrow> (case nullable_varchar n x of None \<Rightarrow> Inl too_long | Some x' \<Rightarrow> Inr (upd x' r))))"

definition set_faculty_column :: "string \<Rightarrow> jsval \<Rightarrow> faculty_row \<Rightarrow> thrown + faculty_row" where
  "set_faculty_column column v r =
     (if column = ''name'' then set_text (Some 100) (\<lambda>t r. r\<lparr>fr_name := t\<rparr>) v r
      else if column = ''name_en'' then set_nullable_text (Some 100) (\<lambda>t r. r\<lparr>fr_name_en := t\<rparr>) v r
      else if column = ''title'' then set_text (Some 50) (\<lambda>t r. r\<lparr>fr_title := t\<rparr>) v r
      else if column = ''category'' then set_text (Some 50) (\<lambda>t r. r\<lparr>fr_category := t\<rparr>) v r
      else if column = ''photo_url'' then set_nullable_text (Some 500) (\<lambda>t r. r\<lparr>fr_photo_url := t\<rparr>) v r
      else if column = ''email'' then set_nullable_text (Some 100) (\<lambda>t r. r\<lparr>fr_email := t\<rparr>) v r
      else if column = ''phone'' then set_nullable_text (Some 50) (\<lambda>t r. r\<lparr>fr_phone := t\<rparr>) v r
      else if column = ''office'' then set_nullable_text (Some 100) (\<lambda>t r. r\<lparr>fr_office := t\<rparr>) v r
      else if column = ''research_interests'' then
        (case as_nullable_texts v of None \<Rightarrow> Inl invalid_input
         | Some x \<Rightarrow> Inr (r\<lparr>fr_research_interests := x\<rparr>))
      else if column = ''education'' then set_nullable_text None (\<lambda>t r. r\<lparr>fr_education := t\<rparr>) v r
      else if column = ''biography'' then set_nullable_text None (\<lambda>t r. r\<lparr>fr_biography := t\<rparr>) v r
      else if column = ''publications'' then
        set_nullable_text None (\<lambda>t r. r\<lparr>fr_publications := t\<rparr>) v r
      else if column = ''projects'' then set_nullable_text None (\<lambda>t r. r\<lparr>fr_projects := t\<rparr>) v r
      else if column = ''awards'' then set_nullable_text None (\<lambda>t r. r\<lparr>fr_awards := t\<rparr>) v r
      else if column = ''sort_order'' then
        (case as_int v of None \<Rightarrow> Inl invalid_input | Some n \<Rightarrow> Inr (r\<lparr>fr_sort_order := n\<rparr>))
      else if column = ''is_visible'' then
        (case as_bool v of None \<Rightarrow> Inl invalid_input | Some b \<Rightarrow> Inr (r\<lparr>fr_is_visible := b\<rparr>))
      else Inl invalid_input)"

definition update_faculty :: "string list \<Rightarrow> jsval list \<Rightarrow> db \<Rightarrow> (thrown + jsobj list) \<times> db" where
  "update_faculty cols ps d =
     (if length ps \<noteq> length cols + 1 then (Inl invalid_input, d)
      else
        (case as_int (last ps) of
           None \<Rightarrow> (Inl invalid_input, d)
         | Some i \<Rightarrow>
             (case filter (\<lambda>r. fr_id r = i) (faculty d) of
                [] \<Rightarrow> (Inr [], d)
              | old # _ \<Rightarrow>
                  (case assignments (map2 set_faculty_column cols (butlast ps)) old of
                     Inl e \<Rightarrow> (Inl e, d)
                   | Inr r \<Rightarrow>
                       (let row = r\<lparr>fr_updated_at := now d\<rparr>
                        in (Inr [faculty_json row],
                            d\<lparr>faculty := map (\<lambda>r. if fr_id r = i then row else r) (faculty d)\<rparr>))))))"

definition delete_faculty :: "int \<Rightarrow> db \<Rightarrow> (thrown + jsobj list) \<times> db" where
  "delete_faculty i d =
     (Inr (map (\<lambda>r. [(''id'', num (fr_id r))]) (filter (\<lambda>r. fr_id r = i) (faculty d))),
      d\<lparr>faculty := filter (\<lambda>r. fr_id r \<noteq> i) (faculty d)\<rparr>)"

subsection \<open>The statement on the table of navigation\<close>

definition select_navigation :: "db \<Rightarrow> (thrown + jsobj list) \<times> db" where
  "select_navigation d =
     (Inr (map nav_json (sort_key nv_sort_order (filter nv_is_visible (navigation d)))), d)"

subsection \<open>The reference driver\<close>

text \<open>
  The statement is entered in the journal and run. Its parameters are read in the order
  of the placeholders; a parameter list of another shape is an error.
\<close>

definition run_stmt :: "stmt \<Rightarrow> jsval list \<Rightarrow> db \<Rightarrow> (thrown + jsobj list) \<times> db" where
  "run_stmt q ps d =
     (case (q, ps) of
        (NewsSelectList False, [l, off]) \<Rightarrow>
          (case (as_bigint l, as_bigint off) of
             (Some l', Some off') \<Rightarrow> select_news_list None l' off' d
           | _ \<Rightarrow> (Inl invalid_input, d))
      | (NewsSelectList True, [c, l, off]) \<Rightarrow>
          (case (as_text c, as_bigint l, as_bigint off) of
             (Some c', Some l', Some off') \<Rightarrow> select_news_list (Some c') l' off' d
           | _ \<Rightarrow> (Inl invalid_input, d))
      | (NewsCount False, []) \<Rightarrow> count_news None d
      | (NewsCount True, [c]) \<Rightarrow>
          (case as_text c of Some c' \<Rightarrow> count_news (Some c') d | None \<Rightarrow> (Inl invalid_input, d))
      | (NewsSelectById, [i]) \<Rightarrow>
          (case as_int i of Some i' \<Rightarrow> select_news_by_id i' d | None \<Rightarrow> (Inl invalid_input, d))
      | (NewsInsert, _) \<Rightarrow> insert_news ps d
      | (NewsUpdate cols, _) \<Rightarrow> update_news cols ps d
      | (NewsDelete, [i]) \<Rightarrow>
          (case as_int i of Some i' \<Rightarrow> delete_news i' d | None \<Rightarrow> (Inl invalid_input, d))
      | (FacultySelectList False False, []) \<Rightarrow> select_faculty_list None None d
      | (FacultySelectList True False, [c]) \<Rightarrow>
          (case as_text c of
             Some c' \<Rightarrow> select_faculty_list (Some c') None d
           | None \<Rightarrow> (Inl invalid_input, d))
      | (FacultySelectList False True, [p]) \<Rightarrow>
          (case as_text p of
             Some p' \<Rightarrow> select_faculty_list None (Some p') d
           | None \<Rightarrow> (Inl invalid_input, d))
      | (FacultySelectList True True, [c, p]) \<Rightarrow>
          (case (as_text c, as_text p) of
             (Some c', Some p') \<Rightarrow> select_faculty_list (Some c') (Some p') d
           | _ \<Rightarrow> (Inl invalid_input, d))
      | (FacultySelectById, [i]) \<Rightarrow>
          (case as_int i of Some i' \<Rightarrow> select_faculty_by_id i' d | None \<Rightarrow> (Inl invalid_input, d))
      | (FacultyInsert, _) \<Rightarrow> insert_faculty ps d
      | (FacultyUpdate cols, _) \<Rightarrow> update_faculty cols ps d
      | (FacultyDelete, [i]) \<Rightarrow>
          (case as_int i of Some i' \<Rightarrow> delete_faculty i' d | None \<Rightarrow> (Inl invalid_input, d))
      | (NavigationSelect, []) \<Rightarrow> select_navigation d
      | _ \<Rightarrow> (Inl invalid_input, d))"

definition pg :: "(stmt, db) driver" where
  "pg q ps d = run_stmt q ps (d\<lparr>journal := journal d @ [(q, ps)]\<rparr>)"

section \<open>Navigation assembly\<close>

text \<open>
  \<^verbatim>\<open>getNavigationStructure\<close> builds objects that refer to each other: every node is an
  entry of \<^verbatim>\<open>navMap\<close>, and the arrays \<^verbatim>\<open>children\<close> and \<^verbatim>\<open>rootItems\<close> hold references
  to those entries. The model keeps \<^verbatim>\<open>navMap\<close> as the heap, from key to node, and
  writes a reference as the key of the node it points to. A node is the fields of its
  row and its \<^verbatim>\<open>children\<close> (\<open>None\<close> where the property is absent).
\<close>

record nav_node =
  node_fields :: jsobj
  node_children :: "jsval list option"

type_synonym nav_heap = "jsval \<Rightarrow> nav_node option"

text \<open>First pass: \<^verbatim>\<open>navMap.set(row.id, { ...row, children: [] })\<close> for each row.\<close>

definition first_pass :: "jsobj list \<Rightarrow> nav_heap" where
  "first_pass rows =
     fold (\<lambda>row navMap. navMap(field row ''id'' \<mapsto> \<lparr>node_fields = row, node_children = Some []\<rparr>))
       rows Map.empty"

text \<open>
  Second pass, one row: a row with a truthy \<^verbatim>\<open>parentId\<close> is pushed to the children of
  its parent when \<^verbatim>\<open>navMap\<close> has the parent, and is pushed nowhere when it has not; a
  row without is pushed to \<^verbatim>\<open>rootItems\<close>. (\<^verbatim>\<open>navMap.get(row.id)!\<close> is never absent
  after the first pass; the model leaves the state as it is there.)
\<close>

definition second_pass_step :: "jsobj \<Rightarrow> nav_heap \<times> jsval list \<Rightarrow> nav_heap \<times> jsval list" where
  "second_pass_step row st =
     (case st of (navMap, rootItems) \<Rightarrow>
        (case navMap (field row ''id'') of
           None \<Rightarrow> (navMap, rootItems)
         | Some item \<Rightarrow>
             if truthy (field row ''parentId'') then
               (case navMap (field row ''parentId'') of
                  Some parent \<Rightarrow>
                    (navMap(field row ''parentId'' \<mapsto>
                       parent\<lparr>node_children :=
                         Some ((case node_children parent of None \<Rightarrow> [] | Some cs \<Rightarrow> cs) @
                               [field row ''id''])\<rparr>),
                     rootItems)
                | None \<Rightarrow> (navMap, rootItems))
             else (navMap, rootItems @ [field row ''id''])))"

definition second_pass :: "jsobj list \<Rightarrow> nav_heap \<Rightarrow> nav_heap \<times> jsval list" where
  "second_pass rows navMap = fold second_pass_step rows (navMap, [])"

text \<open>The fallback \<^verbatim>\<open>getDefaultNavigation()\<close>; the labels are Chinese text, in UTF-8.\<close>

definition default_items :: "jsobj list" where
  "default_items =
     [[(''id'', num 1),
       (''label'', JStr [CHR 0xE9, CHR 0xA6, CHR 0x96, CHR 0xE9, CHR 0xA1, CHR 0xB5]),
       (''url'', JStr ''/''), (''sortOrder'', num 1), (''isVisible'', JBool True)],
      [(''id'', num 2),
       (''label'', JStr [CHR 0xE4, CHR 0xB8, CHR 0xAD, CHR 0xE5, CHR 0xBF, CHR 0x83,
                         CHR 0xE6, CHR 0xA6, CHR 0x82, CHR 0xE5, CHR 0x86, CHR 0xB5]),
       (''url'', JStr ''/about''), (''sortOrder'', num 2), (''isVisible'', JBool True)],
      [(''id'', num 3),
       (''label'', JStr [CHR 0xE5, CHR 0xAE, CHR 0x9E, CHR 0xE9, CHR 0xAA, CHR 0x8C,
                         CHR 0xE6, CHR 0x95, CHR 0x99, CHR 0xE5, CHR 0xAD, CHR 0xA6]),
       (''url'', JStr ''/teaching''), (''sortOrder'', num 3), (''isVisible'', JBool True)],
      [(''id'', num 4),
       (''label'', JStr [CHR 0xE5, CHR 0xB8, CHR 0x88, CHR 0xE8, CHR 0xB5, CHR 0x84,
                         CHR 0xE9, CHR 0x98, CHR 0x9F, CHR 0xE4, CHR 0xBC, CHR 0x8D]),
       (''url'', JStr ''/faculty''), (''sortOrder'', num 4), (''isVisible'', JBool True)],
      [(''id'', num 5),
       (''label'', JStr [CHR 0xE6, CHR 0x96, CHR 0xB0, CHR 0xE9, CHR 0x97, CHR 0xBB,
                         CHR 0xE5, CHR 0x8A, CHR 0xA8, CHR 0xE6, CHR 0x80, CHR 0x81]),
       (''url'', JStr ''/news''), (''sortOrder'', num 5), (''isVisible'', JBool True)],
      [(''id'', num 6),
       (''label'', JStr [CHR 0xE8, CHR 0x81, CHR 0x94, CHR 0xE7, CHR 0xB3, CHR 0xBB,
                         CHR 0xE6, CHR 0x88, CHR 0x91, CHR 0xE4, CHR 0xBB, CHR 0xAC]),
       (''url'', JStr ''/contact''), (''sortOrder'', num 6), (''isVisible'', JBool True)]]"

definition getDefaultNavigation :: "nav_heap \<times> jsval list" where
  "getDefaultNavigation =
     (map_of (map (\<lambda>item. (field item ''id'', \<lparr>node_fields = item, node_children = None\<rparr>))
                default_items),
      map (\<lambda>item. field item ''id'') default_items)"

text \<open>
  The result is the array \<^verbatim>\<open>rootItems\<close> together with the heap its references point
  into. When the query throws, the result is the default navigation.
\<close>

definition getNavigationStructure :: "(stmt, 's) driver \<Rightarrow> 's \<Rightarrow> (nav_heap \<times> jsval list) \<times> 's" where
  "getNavigationStructure sql s =
     (case query sql NavigationSelect [] s of
        (Inr rows, s') \<Rightarrow> (second_pass rows (first_pass rows), s')
      | (Inl e, s') \<Rightarrow> (getDefaultNavigation, s'))"

text \<open>
  The nodes of the result, flattened: each root followed by the flattening of its
  children, to the depth \<open>fuel\<close>.
\<close>

fun flatten :: "nat \<Rightarrow> nav_heap \<Rightarrow> jsval list \<Rightarrow> jsval list" where
  "flatten 0 navMap refs = []"
| "flatten (Suc fuel) navMap refs =
     concat (map (\<lambda>k. case navMap k of
                         None \<Rightarrow> []
                       | Some item \<Rightarrow>
                           k # flatten fuel navMap
                                 (case node_children item of None \<Rightarrow> [] | Some cs \<Rightarrow> cs))
                 refs)"

section \<open>Notions of the specification\<close>

text \<open>
  The words of the specification that the properties below are stated in.

  \<open>contains_ignoring_case lc t q\<close>: the text \<open>t\<close> contains the query \<open>q\<close> when case
  is ignored, that is, once both are folded to lower case by \<open>lc\<close>;
  \<open>text_contains\<close> and \<open>some_entry_contains\<close> say it of a field of a record that is a
  string and of one that is an array.
\<close>

definition contains_ignoring_case :: "(string \<Rightarrow> string) \<Rightarrow> string \<Rightarrow> string \<Rightarrow> bool" where
  "contains_ignoring_case lc t q = sublist (lc q) (lc t)"

definition text_contains :: "(string \<Rightarrow> string) \<Rightarrow> jsval \<Rightarrow> string \<Rightarrow> bool" where
  "text_contains lc v q = (case v of JStr t \<Rightarrow> contains_ignoring_case lc t q | _ \<Rightarrow> False)"

definition some_entry_contains :: "(string \<Rightarrow> string) \<Rightarrow> jsval \<Rightarrow> string \<Rightarrow> bool" where
  "some_entry_contains lc v q =
     (case v of JArr ts \<Rightarrow> list_ex (\<lambda>t. text_contains lc t q) ts | _ \<Rightarrow> False)"

text \<open>
  An id written in a path. \<open>blank w\<close>: the text \<open>w\<close> is white space, a run of the
  white-space characters. \<open>leading_integer p n\<close>: after white space, \<open>p\<close> begins with
  the integer \<open>n\<close>, written as an optional sign and a run of decimal digits that ends
  with the text or before a character that is not a digit; any text may follow.
\<close>

inductive blank :: "string \<Rightarrow> bool" where
  blank_empty: "blank []"
| blank_more: "w \<in> set white_space \<Longrightarrow> blank u \<Longrightarrow> blank (w @ u)"

definition leading_integer :: "string \<Rightarrow> int \<Rightarrow> bool" where
  "leading_integer p n =
     (\<exists>w sign ds rest.
        p = w @ sign @ ds @ rest \<and> blank w \<and> (sign = [] \<or> sign = ''+'' \<or> sign = ''-'') \<and>
        ds \<noteq> [] \<and> list_all is_digit ds \<and> list_all (\<lambda>c. \<not> is_digit c) (take 1 rest) \<and>
        n = (if sign = ''-'' then - digits_value ds else digits_value ds))"

section \<open>Sample inputs\<close>

text \<open>A driver that throws an \<^verbatim>\<open>Error\<close> with the given message at every call.\<close>

definition failing_driver :: "string \<Rightarrow> (stmt, unit) driver" where
  "failing_driver msg q ps s = (Inl (ErrorInstance msg), s)"

text \<open>A request body that passes the validation of all four create and update routes.\<close>

definition sample_body :: jsval where
  "sample_body =
     JObj [(''name'', JStr ''Li''), (''title'', JStr ''Professor''), (''slug'', JStr ''li-1''),
           (''content'', JStr ''Text''), (''category'', JStr ''staff'')]"

definition bad_slug_body :: jsval where
  "bad_slug_body =
     JObj [(''title'', JStr ''T''), (''slug'', JStr ''Bad Slug''), (''content'', JStr ''C'')]"

text \<open>
  A store of the locale \<^verbatim>\<open>C\<close> with one published article, \<open>existing_article\<close>, one
  visible member, \<open>sample_member\<close>, and a navigation table in which the visible row 2
  is a child of row 1, which is hidden.
\<close>

definition existing_article :: news_row where
  "existing_article =
     \<lparr>r_id = 1, r_title = ''Welcome'', r_slug = ''welcome'', r_summary = None,
      r_content = ''Hello'', r_thumbnail_url = None, r_author = None,
      r_category = Some ''news'', r_published_at = 100, r_updated_at = 100,
      r_is_published = True, r_view_count = 5, r_tags = None\<rparr>"

definition sample_member :: faculty_row where
  "sample_member =
     \<lparr>fr_id = 1, fr_name = ''A'', fr_name_en = None, fr_title = ''B'', fr_category = ''staff'',
      fr_photo_url = None, fr_email = None, fr_phone = None, fr_office = None,
      fr_research_interests = None, fr_education = None, fr_biography = None,
      fr_publications = None, fr_projects = None, fr_awards = None, fr_sort_order = 0,
      fr_is_visible = True, fr_created_at = 100, fr_updated_at = 100\<rparr>"

definition sample_db :: db where
  "sample_db =
     \<lparr>news = [existing_article],
      faculty = [sample_member],
      navigation =
        [\<lparr>nv_id = 1, nv_label = ''About'', nv_url = ''/about'', nv_parent_id = None,
          nv_sort_order = 1, nv_is_visible = False, nv_icon = None, nv_description = None\<rparr>,
         \<lparr>nv_id = 2, nv_label = ''History'', nv_url = ''/about/history'', nv_parent_id = Some 1,
          nv_sort_order = 2, nv_is_visible = True, nv_icon = None, nv_description = None\<rparr>],
      news_id_seq = 2,
      faculty_id_seq = 2,
      now = 200,
      journal = [],
      lower_case = lower\<rparr>"

definition sample_news :: news_data where
  "sample_news =
     \<lparr>n_title = ''Open day'', n_slug = ''open-day'', n_summary = Some [],
      n_content = ''Come'', n_thumbnailUrl = None, n_author = Some ''Li'',
      n_category = Some ''news'', n_isPublished = True, n_tags = Some [''a'', ''b'']\<rparr>"

definition empty_news_patch :: news_patch where
  "empty_news_patch =
     \<lparr>nu_title = None, nu_slug = None, nu_summary = None, nu_content = None,
      nu_thumbnailUrl = None, nu_author = None, nu_category = None, nu_isPublished = None,
      nu_tags = None\<rparr>"

definition empty_faculty_patch :: faculty_patch where
  "empty_faculty_patch =
     \<lparr>fu_name = None, fu_nameEn = None, fu_title = None, fu_category = None, fu_photoUrl = None,
      fu_email = None, fu_phone = None, fu_office = None, fu_researchInterests = None,
      fu_education = None, fu_biography = None, fu_publications = None, fu_projects = None,
      fu_awards = None, fu_sortOrder = None, fu_isVisible = None\<rparr>"

section \<open>Properties of the query executor\<close>

lemma query_cases:
  "(\<exists>rows s'. query sql q ps s = (Inr rows, s')) \<or> (\<exists>e s'. query sql q ps s = (Inl e, s'))"
  by (cases "query sql q ps s") (metis sum.exhaust_sel)

text \<open>
  C9. Whatever the driver, the statement and the parameters: \<open>queryOne\<close> ends in the
  state \<open>query\<close> ends in; where \<open>query\<close> returns rows it returns the first of them, or
  \<open>None\<close> (\<^verbatim>\<open>null\<close>) when there is none; where \<open>query\<close> throws, \<open>queryOne\<close> throws
  that same error. What \<open>query\<close> throws is the error that wraps what the driver threw,
  and what it returns are the driver's rows.
\<close>

theorem queryOne_first_row_or_null:
  "snd (queryOne sql q ps s) = snd (query sql q ps s) \<and>
   (case fst (query sql q ps s) of
      Inr rows \<Rightarrow> fst (queryOne sql q ps s) = Inr (if rows = [] then None else Some (hd rows))
    | Inl e \<Rightarrow> fst (queryOne sql q ps s) = Inl e) \<and>
   (case fst (sql q ps s) of
      Inr rows \<Rightarrow> fst (query sql q ps s) = Inr rows
    | Inl (ErrorInstance m) \<Rightarrow>
        fst (query sql q ps s) = Inl (Error (''Database operation failed: '' @ m))
    | Inl OtherValue \<Rightarrow>
        fst (query sql q ps s) = Inl (Error ''Database operation failed: Unknown error''))"
  by (auto simp: queryOne_def query_def split: prod.splits sum.splits list.splits thrown.splits)

section \<open>Numbers: lemmas\<close>

lemma digit_char: "0 \<le> n \<Longrightarrow> n < 10 \<Longrightarrow> char_of (48 + n :: int) = char_of (48 + nat n :: nat)"
proof -
  assume "0 \<le> n" "n < 10"
  then have "48 + n = int (48 + nat n)" by simp
  then show ?thesis by (simp only: char_of_nat)
qed

lemma digit_char_is_digit: "0 \<le> n \<Longrightarrow> n < 10 \<Longrightarrow> is_digit (char_of (48 + n :: int))"
  by (simp add: digit_char) (simp add: is_digit_def less_eq_char_def)

lemma digit_value_char: "0 \<le> n \<Longrightarrow> n < 10 \<Longrightarrow> digit_value (char_of (48 + n :: int)) = n"
  by (simp add: digit_char) (simp add: digit_value_def of_nat_of_char[where ?'a = int, symmetric])

lemma decimal_digits: "0 \<le> n \<Longrightarrow> list_all is_digit (decimal n)"
proof (induction n rule: decimal.induct)
  case (1 n)
  show ?case
  proof (cases "n < 10")
    case True
    then show ?thesis using 1(2) by (subst decimal.simps) (simp add: digit_char_is_digit)
  next
    case False
    then have "list_all is_digit (decimal (n div 10))" using 1 by simp
    then show ?thesis using False 1(2) by (subst decimal.simps) (simp add: digit_char_is_digit)
  qed
qed

lemma decimal_nonempty: "decimal n \<noteq> []"
  by (subst decimal.simps) simp

lemma digits_value_snoc: "digits_value (ds @ [c]) = 10 * digits_value ds + digit_value c"
  by (simp add: digits_value_def)

lemma digits_value_decimal: "0 \<le> n \<Longrightarrow> digits_value (decimal n) = n"
proof (induction n rule: decimal.induct)
  case (1 n)
  show ?case
  proof (cases "n < 10")
    case True
    then show ?thesis using 1(2) by (subst decimal.simps) (simp add: digits_value_def digit_value_char)
  next
    case False
    then have "digits_value (decimal (n div 10)) = n div 10" using 1 by simp
    then show ?thesis using False 1(2)
      by (subst decimal.simps) (simp add: digits_value_snoc digit_value_char)
  qed
qed

text \<open>Beyond \<open>2 ^ 53\<close> the nearest double keeps the sign, and is never zero.\<close>

lemma bit_length_lower: "0 < m \<Longrightarrow> 2 ^ (bit_length m - 1) \<le> m"
proof (induction m rule: bit_length.induct)
  case (1 n)
  show ?case
  proof (cases "n div 2 \<le> 0")
    case True
    then have "bit_length (n div 2) = 0" by (subst bit_length.simps) simp
    then show ?thesis using 1(2) by (subst bit_length.simps) simp
  next
    case False
    then have p: "0 < n div 2" by simp
    then have i: "2 ^ (bit_length (n div 2) - 1) \<le> n div 2" using 1 by simp
    have "0 < bit_length (n div 2)" using p by (subst bit_length.simps) simp
    then have "(2::int) ^ bit_length (n div 2) = 2 * 2 ^ (bit_length (n div 2) - 1)"
      by (cases "bit_length (n div 2)") simp_all
    then have "(2::int) ^ bit_length (n div 2) \<le> n" using i by linarith
    then show ?thesis using 1(2) by (subst bit_length.simps) simp
  qed
qed

lemma nearest_double_positive: "0 < m \<Longrightarrow> 0 < nearest_double m"
proof -
  assume m: "0 < m"
  define e where "e = bit_length m - 53"
  have "(2::int) ^ e \<le> 2 ^ (bit_length m - 1)"
    unfolding e_def by (rule power_increasing) simp_all
  then have "2 ^ e \<le> m" using bit_length_lower[OF m] by linarith
  then have "0 < m div 2 ^ e"
    by (simp add: pos_imp_zdiv_pos_iff)
  then have "0 < (if 2 ^ (e - 1) < m mod 2 ^ e \<or> (m mod 2 ^ e = 2 ^ (e - 1) \<and> odd (m div 2 ^ e))
                  then m div 2 ^ e + 1 else m div 2 ^ e)"
    by simp
  then show ?thesis
    unfolding nearest_double_def Let_def e_def[symmetric] by simp
qed

lemma round_double_small: "\<bar>n\<bar> \<le> 2 ^ 53 \<Longrightarrow> round_double n = n"
  by (simp add: round_double_def)

lemma round_double_positive: "(1 \<le> round_double n) = (1 \<le> n)"
proof (cases "\<bar>n\<bar> \<le> 2 ^ 53")
  case True
  then show ?thesis by (simp add: round_double_def)
next
  case False
  then have nz: "0 < \<bar>n\<bar>" by simp
  have p: "0 < nearest_double \<bar>n\<bar>" by (rule nearest_double_positive[OF nz])
  show ?thesis
  proof (cases "0 < n")
    case True
    then have "0 < round_double n" using False p by (simp add: round_double_def)
    then show ?thesis using True by simp
  next
    case False
    then have "n < 0" using nz by simp
    then have "round_double n < 0" using \<open>\<not> \<bar>n\<bar> \<le> 2 ^ 53\<close> p by (simp add: round_double_def)
    then show ?thesis using \<open>n < 0\<close> by simp
  qed
qed

section \<open>Strings: lemmas\<close>

lemma strip_none: "find (\<lambda>w. w \<noteq> [] \<and> prefix w s) ws = None \<Longrightarrow> strip ws s = s"
  by (subst strip.simps) simp

lemma white_space_heads:
  "list_all (\<lambda>w. \<not> slug_char (hd w)) white_space"
  "list_all (\<lambda>w. \<not> slug_char (hd w)) (map rev white_space)"
  "list_all (\<lambda>w. hd w \<noteq> CHR ''+'') white_space"
  by code_simp+

text \<open>No white-space character is the beginning of another.\<close>

lemma white_space_tokens:
  "list_all (\<lambda>w. w \<noteq> [] \<and> list_all (\<lambda>v. \<not> strict_prefix v w) white_space) white_space"
  by code_simp

lemma no_token_prefix:
  assumes "list_all (\<lambda>w. hd w \<noteq> c) ws"
  shows "find (\<lambda>w. w \<noteq> [] \<and> prefix w (c # cs)) ws = None"
proof -
  have "\<not> (w \<noteq> [] \<and> prefix w (c # cs))" if "w \<in> set ws" for w
  proof
    assume "w \<noteq> [] \<and> prefix w (c # cs)"
    then have "hd w = c" by (cases w) auto
    moreover have "hd w \<noteq> c" using assms that by (simp add: list_all_iff)
    ultimately show False by simp
  qed
  then show ?thesis by (auto simp: find_None_iff)
qed

lemma no_space_prefix:
  assumes "slug_char c" and "list_all (\<lambda>w. \<not> slug_char (hd w)) ws"
  shows "find (\<lambda>w. w \<noteq> [] \<and> prefix w (c # cs)) ws = None"
proof (rule no_token_prefix)
  show "list_all (\<lambda>w. hd w \<noteq> c) ws"
    using assms unfolding list_all_iff by auto
qed

lemma digit_not_space:
  assumes "is_digit c"
  shows "find (\<lambda>w. w \<noteq> [] \<and> prefix w (c # cs)) white_space = None"
proof -
  have "slug_char c" using assms by (simp add: is_digit_def slug_char_def)
  then show ?thesis by (rule no_space_prefix[OF _ white_space_heads(1)])
qed

lemma sign_not_space:
  assumes "c = CHR ''+'' \<or> c = CHR ''-''"
  shows "find (\<lambda>w. w \<noteq> [] \<and> prefix w (c # cs)) white_space = None"
proof (cases "c = CHR ''+''")
  case True
  then show ?thesis using no_token_prefix[OF white_space_heads(3)] by simp
next
  case False
  then have "slug_char c" using assms by (simp add: slug_char_def)
  then show ?thesis by (rule no_space_prefix[OF _ white_space_heads(1)])
qed

lemma strip_token:
  assumes "w \<in> set white_space"
  shows "strip white_space (w @ s) = strip white_space s"
proof -
  have w: "w \<noteq> []" "\<And>v. v \<in> set white_space \<Longrightarrow> \<not> strict_prefix v w"
    using white_space_tokens assms unfolding list_all_iff by auto
  have "find (\<lambda>x. x \<noteq> [] \<and> prefix x (w @ s)) white_space \<noteq> None"
    using assms w(1) by (auto simp: find_None_iff)
  then obtain x where f: "find (\<lambda>x. x \<noteq> [] \<and> prefix x (w @ s)) white_space = Some x"
    by auto
  then have x: "x \<in> set white_space" "x \<noteq> []" "prefix x (w @ s)"
    by (auto simp: find_Some_iff)
  have x2: "\<not> strict_prefix w x"
    using white_space_tokens x(1) assms unfolding list_all_iff by auto
  have "prefix x w \<or> prefix w x"
    using x(3) by (meson prefix_same_cases prefixI)
  then have "x = w" using w(2)[OF x(1)] x2 by (auto simp: strict_prefix_def)
  then show ?thesis using f by (subst strip.simps) simp
qed

lemma strip_blank: "blank w \<Longrightarrow> strip white_space (w @ s) = strip white_space s"
  by (induction w rule: blank.induct) (simp_all add: strip_token)

lemma strip_decompose: "\<exists>w. blank w \<and> s = w @ strip white_space s"
proof (induction s rule: length_induct)
  case (1 s)
  show ?case
  proof (cases "find (\<lambda>x. x \<noteq> [] \<and> prefix x s) white_space")
    case None
    then have "strip white_space s = s" by (rule strip_none)
    then show ?thesis using blank_empty by auto
  next
    case (Some x)
    then have x: "x \<in> set white_space" "x \<noteq> []" "prefix x s"
      by (auto simp: find_Some_iff)
    then obtain r where r: "s = x @ r" by (auto simp: prefix_def)
    have "length r < length s" using x(2) r by simp
    then obtain w where w: "blank w" "r = w @ strip white_space r" using 1 by blast
    have "strip white_space s = strip white_space r"
      unfolding r by (rule strip_token[OF x(1)])
    then have "s = (x @ w) @ strip white_space s" using r w(2) by simp
    moreover have "blank (x @ w)" using x(1) w(1) by (rule blank_more)
    ultimately show ?thesis by blast
  qed
qed

lemma takeWhile_digits:
  assumes "list_all is_digit ds" "list_all (\<lambda>c. \<not> is_digit c) (take 1 rest)"
  shows "takeWhile is_digit (ds @ rest) = ds"
proof -
  have "takeWhile is_digit rest = []" using assms(2) by (cases rest) simp_all
  then show ?thesis using assms(1) by (simp add: takeWhile_append2 list_all_iff)
qed

lemma digit_not_sign: "is_digit c \<Longrightarrow> c \<noteq> CHR ''-'' \<and> c \<noteq> CHR ''+''"
  by (auto simp: is_digit_def less_eq_char_def)

text \<open>
  \<^verbatim>\<open>parseInt\<close> reads exactly the leading integer of a text: it yields a number when,
  and only when, the text begins with one after white space, and the number is the
  double nearest to it.
\<close>

lemma leading_integerI:
  assumes "blank w" "sign = [] \<or> sign = ''+'' \<or> sign = ''-''" "ds \<noteq> []" "list_all is_digit ds"
    "list_all (\<lambda>c. \<not> is_digit c) (take 1 rest)"
  shows "leading_integer (w @ sign @ ds @ rest)
           (if sign = ''-'' then - digits_value ds else digits_value ds)"
  unfolding leading_integer_def using assms by blast

lemma leading_integer_parseInt10:
  assumes "leading_integer p n"
  shows "parseInt10 p = Some (round_double n)"
proof -
  obtain w sign ds rest where p: "p = w @ sign @ ds @ rest" and w: "blank w"
    and s: "sign = [] \<or> sign = ''+'' \<or> sign = ''-''" and d: "ds \<noteq> []" "list_all is_digit ds"
    and r: "list_all (\<lambda>c. \<not> is_digit c) (take 1 rest)"
    and n: "n = (if sign = ''-'' then - digits_value ds else digits_value ds)"
    using assms unfolding leading_integer_def by blast
  obtain c cs where ds: "ds = c # cs" using d(1) by (cases ds) auto
  have c: "is_digit c" using d(2) ds by simp
  have tw: "takeWhile is_digit (ds @ rest) = ds" by (rule takeWhile_digits[OF d(2) r])
  have "strip white_space (sign @ ds @ rest) = sign @ ds @ rest"
    using s digit_not_space[OF c] sign_not_space
    by (auto simp: ds intro!: strip_none)
  then have t: "trimStart p = sign @ ds @ rest"
    by (simp add: trimStart_def p strip_blank[OF w])
  from s consider "sign = []" | "sign = ''+''" | "sign = ''-''" by blast
  then show ?thesis
  proof cases
    case 1
    then show ?thesis using digit_not_sign[OF c] tw d(1)
      by (simp add: parseInt10_def t n Let_def ds)
  next
    case 2
    then show ?thesis using tw d(1)
      by (simp add: parseInt10_def t n Let_def)
  next
    case 3
    then show ?thesis using tw d(1)
      by (simp add: parseInt10_def t n Let_def)
  qed
qed

lemma parseInt10_leading_integer:
  assumes "parseInt10 p = Some m"
  shows "\<exists>n. leading_integer p n \<and> m = round_double n"
proof -
  define t where "t = trimStart p"
  define sign where "sign = (if t \<noteq> [] \<and> hd t = CHR ''-'' then ''-''
                             else if t \<noteq> [] \<and> hd t = CHR ''+'' then ''+'' else [])"
  define u where "u = (if t \<noteq> [] \<and> (hd t = CHR ''-'' \<or> hd t = CHR ''+'') then tl t else t)"
  define ds where "ds = takeWhile is_digit u"
  define rest where "rest = dropWhile is_digit u"
  define n where "n = (if sign = ''-'' then - digits_value ds else digits_value ds)"
  obtain w where w: "blank w" "p = w @ t"
    using strip_decompose[of p] unfolding t_def trimStart_def by blast
  have tu: "t = sign @ u"
    unfolding sign_def u_def by (cases t) auto
  have u: "u = ds @ rest" unfolding ds_def rest_def by simp
  have d: "ds \<noteq> []"
    using assms unfolding parseInt10_def Let_def t_def[symmetric] u_def[symmetric] ds_def[symmetric]
    by (auto split: if_splits)
  have m: "m = round_double ((if t \<noteq> [] \<and> hd t = CHR ''-'' then - 1 else 1) * digits_value ds)"
    using assms d unfolding parseInt10_def Let_def t_def[symmetric] u_def[symmetric] ds_def[symmetric]
    by (auto split: if_splits)
  have "m = round_double n"
    unfolding m n_def sign_def by simp
  moreover have "list_all is_digit ds"
    unfolding ds_def list_all_iff by (auto dest: set_takeWhileD)
  moreover have "list_all (\<lambda>c. \<not> is_digit c) (take 1 rest)"
  proof (cases rest)
    case Nil
    then show ?thesis by simp
  next
    case (Cons a as)
    then have "\<not> is_digit (hd (dropWhile is_digit u))"
      using hd_dropWhile[of is_digit u] unfolding rest_def by simp
    then show ?thesis using Cons unfolding rest_def by simp
  qed
  moreover have "sign = [] \<or> sign = ''+'' \<or> sign = ''-''" unfolding sign_def by simp
  moreover have "p = w @ sign @ ds @ rest" using w(2) tu u by simp
  ultimately have "leading_integer p n \<and> m = round_double n"
    unfolding leading_integer_def n_def using w(1) d by blast
  then show ?thesis by blast
qed

lemma parseInt10_decimal: "0 \<le> n \<Longrightarrow> parseInt10 (decimal n) = Some (round_double n)"
proof (rule leading_integer_parseInt10)
  assume n: "0 \<le> n"
  have "decimal n = [] @ [] @ decimal n @ []" by simp
  then show "leading_integer (decimal n) n"
    unfolding leading_integer_def
    using blank_empty decimal_nonempty[of n] decimal_digits[OF n] digits_value_decimal[OF n]
    by (intro exI[of _ "[]"] exI[of _ "decimal n"]) simp
qed

text \<open>An integer up to \<open>2 ^ 53\<close> reaches the store as itself.\<close>

lemma pg_integer_decimal:
  assumes "0 \<le> n"
  shows "pg_integer ((if neg then ''-'' else []) @ decimal n) = Some ((if neg then - 1 else 1) * n)"
proof -
  obtain c cs where d: "decimal n = c # cs" using decimal_nonempty[of n] by (cases "decimal n") auto
  have c: "is_digit c" using decimal_digits[OF assms] d by simp
  have h: "hd (decimal n) \<noteq> CHR ''-''" "hd (decimal n) \<noteq> CHR ''+''"
    using digit_not_sign[OF c] by (simp_all add: d)
  show ?thesis
    using h decimal_digits[OF assms] decimal_nonempty[of n] digits_value_decimal[OF assms]
    by (simp add: pg_integer_def Let_def)
qed

lemma number_text_int:
  assumes "\<bar>i\<bar> \<le> 2 ^ 53"
  shows "number_text (of_int i) = (if i < 0 then ''-'' else []) @ decimal \<bar>i\<bar>"
proof -
  define a :: rat where "a = \<bar>of_int i\<bar>"
  have a: "a = of_int \<bar>i\<bar>" unfolding a_def by simp
  have b: "\<not> (2 ^ 1024 \<le> a)"
  proof
    assume "2 ^ 1024 \<le> a"
    then have "(2::int) ^ 1024 \<le> \<bar>i\<bar>" unfolding a by (simp only: numeral_power_le_of_int_cancel_iff)
    moreover have "(2::int) ^ 53 < 2 ^ 1024" by (rule power_strict_increasing) simp_all
    ultimately show False using assms by linarith
  qed
  have c: "a \<le> 2 ^ 53" unfolding a using assms by (simp only: of_int_le_numeral_power_cancel_iff)
  have d: "\<lfloor>a\<rfloor> = \<bar>i\<bar>" "of_int \<lfloor>a\<rfloor> = a" unfolding a by (simp_all only: floor_of_int)
  have e: "((of_int i :: rat) < 0) = (i < 0)" by simp
  show ?thesis
    unfolding number_text_def Let_def a_def[symmetric] e using b c d by simp
qed

lemma as_integer_num:
  assumes "\<bar>i\<bar> \<le> 2 ^ 53"
  shows "as_integer bits (num i) =
           (if - (2 ^ (bits - 1)) \<le> i \<and> i < 2 ^ (bits - 1) then Some i else None)"
proof -
  have "pg_integer (number_text (of_int i)) = Some ((if i < 0 then - 1 else 1) * \<bar>i\<bar>)"
    unfolding number_text_int[OF assms] by (rule pg_integer_decimal) simp
  also have "(if i < 0 then - 1 else 1) * \<bar>i\<bar> = i" by simp
  finally show ?thesis by (simp add: as_integer_def num_def)
qed

lemma as_int_num: "- (2 ^ 31) \<le> i \<Longrightarrow> i < 2 ^ 31 \<Longrightarrow> as_int (num i) = Some i"
proof -
  assume a: "- (2 ^ 31) \<le> i" "i < 2 ^ 31"
  then have "\<bar>i\<bar> \<le> 2 ^ 53" by simp
  then show ?thesis using a by (simp add: as_int_def as_integer_num)
qed

lemma as_bigint_num: "0 \<le> i \<Longrightarrow> i \<le> 2 ^ 53 \<Longrightarrow> as_bigint (num i) = Some i"
proof -
  assume a: "0 \<le> i" "i \<le> 2 ^ 53"
  then have "\<bar>i\<bar> \<le> 2 ^ 53" by simp
  then show ?thesis using a by (simp add: as_bigint_def as_integer_num)
qed

lemma slug_format_trim: "slug_format t \<Longrightarrow> trim t = t"
proof -
  assume a: "slug_format t"
  then obtain c cs where t: "t = c # cs" and c: "slug_char c"
    by (cases t) (auto simp: slug_format_def)
  have l: "slug_char (last t)" using a by (auto simp: slug_format_def list_all_iff)
  have "t \<noteq> []" using t by simp
  then have "rev (butlast t @ [last t]) = rev t" by simp
  then have r: "rev t = last t # rev (butlast t)" by simp
  have "find (\<lambda>w. w \<noteq> [] \<and> prefix w (rev t)) (map rev white_space) = None"
    by (subst r) (rule no_space_prefix[OF l white_space_heads(2)])
  then have e: "strip (map rev white_space) (rev t) = rev t"
    by (rule strip_none)
  have "find (\<lambda>w. w \<noteq> [] \<and> prefix w t) white_space = None"
    unfolding t by (rule no_space_prefix[OF c white_space_heads(1)])
  then have "trimStart t = t" by (simp add: trimStart_def strip_none)
  then show ?thesis by (simp add: trim_def trimEnd_def e)
qed

lemma slug_format_accepted:
  "slug_format t \<Longrightarrow> \<not> required_missing (JStr t) \<and> \<not> bad_slug_format (JStr t) \<and> \<not> present_not_text (JStr t)"
  by (auto simp: required_missing_def bad_slug_format_def present_not_text_def slug_format_trim)
     (auto simp: slug_format_def)

lemma all_chars: "c \<in> set (map char_of [0..<256])"
proof -
  have "(of_char c :: nat) < 256"
    by (metis of_char_mod_256 mod_less_divisor zero_less_numeral)
  then have "(of_char c :: nat) \<in> set [0..<256]" by simp
  then have "char_of (of_char c :: nat) \<in> char_of ` set [0..<256]" by (rule imageI)
  then show ?thesis by simp
qed

lemma slug_char_table:
  "list_all (\<lambda>c. slug_char c = (c \<in> set ''abcdefghijklmnopqrstuvwxyz0123456789-_''))
     (map char_of [0..<256])"
  by code_simp

lemma slug_char_alphabet: "slug_char c = (c \<in> set ''abcdefghijklmnopqrstuvwxyz0123456789-_'')"
  using slug_char_table all_chars[of c] unfolding list_all_iff by blast

section \<open>Properties of the routes\<close>

lemma no_slug_in_other_messages:
  "\<not> str_includes ''Title is required and must be a non-empty string'' ''Slug''"
  "\<not> str_includes ''Content is required and must be a non-empty string'' ''Slug''"
  "\<not> str_includes ''Title must be a non-empty string'' ''Slug''"
  "\<not> str_includes ''Content must be a non-empty string'' ''Slug''"
  "\<not> str_includes ''Summary must be a string'' ''Slug''"
  "\<not> str_includes ''ThumbnailUrl must be a string'' ''Slug''"
  "\<not> str_includes ''Author must be a string'' ''Slug''"
  "\<not> str_includes ''Category must be a string'' ''Slug''"
  "\<not> str_includes ''IsPublished must be a boolean'' ''Slug''"
  "\<not> str_includes ''Tags must be an array of strings'' ''Slug''"
  "\<not> str_includes ''Cannot update system fields (id, viewCount, publishedAt, updatedAt)'' ''Slug''"
  "\<not> str_includes ''Invalid news ID'' ''Slug''"
  by code_simp+

lemma slug_in_slug_messages:
  "str_includes ''Slug is required and must be a non-empty string'' ''Slug''"
  "str_includes ''Slug must be a non-empty string'' ''Slug''"
  "str_includes ''Slug must contain only lowercase letters, numbers, hyphens, and underscores'' ''Slug''"
  by code_simp+

lemma json_error_eq: "(json_error st msg = json_error st' msg') = (st = st' \<and> msg = msg')"
  by (auto simp: json_error_def)

lemma news_catch_not_400: "news_catch e \<noteq> json_error 400 msg"
  by (simp add: news_catch_def internal_error_def json_error_eq)

lemma other_status_not_400: "st \<noteq> 400 \<Longrightarrow> \<lparr>status = st, body = x\<rparr> \<noteq> json_error 400 msg"
  by (simp add: json_error_def)

lemma POST_accept:
  assumes "property b ''slug'' = JStr t" "slug_format t" "first_failure (POST_news_checks b) = Some msg"
  shows "\<not> str_includes msg ''Slug''"
  using assms slug_format_accepted[of t]
  by (auto simp: POST_news_checks_def no_slug_in_other_messages split: if_splits)

lemma POST_accept_response:
  assumes "property b ''slug'' = JStr t" "slug_format t" "str_includes msg ''Slug''"
  shows "fst (POST_news sql (Inr b) s) \<noteq> json_error 400 msg"
proof -
  have b: "b \<noteq> JNull" using assms(1) by auto
  show ?thesis
  proof (cases "first_failure (POST_news_checks b)")
    case (Some m)
    then have "m \<noteq> msg" using POST_accept[OF assms(1,2) Some] assms(3) by auto
    then show ?thesis using b Some by (simp add: POST_news_def json_error_eq)
  next
    case None
    then show ?thesis using b
      by (auto simp: POST_news_def news_catch_not_400 other_status_not_400 json_error_eq
               split: prod.splits sum.splits)
  qed
qed

lemma POST_accept_continue:
  assumes "property b ''slug'' = JStr t" "slug_format t" "first_failure (POST_news_checks b) = None"
  shows "POST_news sql (Inr b) s =
           (case createNews sql (newsData b) s of
              (Inl e, s') \<Rightarrow> (news_catch e, s')
            | (Inr created, s') \<Rightarrow> (\<lparr>status = 201, body = JObj created\<rparr>, s'))"
    and "n_slug (newsData b) = t"
proof -
  have b: "b \<noteq> JNull" using assms(1) by auto
  show "POST_news sql (Inr b) s =
           (case createNews sql (newsData b) s of
              (Inl e, s') \<Rightarrow> (news_catch e, s')
            | (Inr created, s') \<Rightarrow> (\<lparr>status = 201, body = JObj created\<rparr>, s'))"
    using b assms(3) by (simp add: POST_news_def)
  show "n_slug (newsData b) = t"
    using assms(1,2) by (simp add: newsData_def trimmed_def the_string_def slug_format_trim)
qed

lemma POST_reject:
  assumes "b \<noteq> JNull" "\<not> required_missing (property b ''title'')" "\<not> required_missing (property b ''content'')"
    "\<not> (\<exists>t. property b ''slug'' = JStr t \<and> slug_format t)"
  shows "\<exists>msg. str_includes msg ''Slug'' \<and> POST_news sql (Inr b) s = (json_error 400 msg, s)"
proof (cases "required_missing (property b ''slug'')")
  case True
  then have "POST_news sql (Inr b) s = (json_error 400 ''Slug is required and must be a non-empty string'', s)"
    using assms by (simp add: POST_news_def POST_news_checks_def)
  then show ?thesis using slug_in_slug_messages(1) by blast
next
  case False
  then obtain t where "property b ''slug'' = JStr t"
    by (cases "property b ''slug''") (auto simp: required_missing_def)
  with assms have "bad_slug_format (property b ''slug'')" by (simp add: bad_slug_format_def)
  with False have "POST_news sql (Inr b) s =
      (json_error 400 ''Slug must contain only lowercase letters, numbers, hyphens, and underscores'', s)"
    using assms by (simp add: POST_news_def POST_news_checks_def)
  then show ?thesis using slug_in_slug_messages(3) by blast
qed

lemma PUT_accept:
  assumes "property b ''slug'' = JStr t" "slug_format t" "first_failure (PUT_news_checks b) = Some msg"
  shows "\<not> str_includes msg ''Slug''"
  using assms slug_format_accepted[of t]
  by (auto simp: PUT_news_checks_def no_slug_in_other_messages split: if_splits)

lemma PUT_accept_response:
  assumes "property b ''slug'' = JStr t" "slug_format t" "str_includes msg ''Slug''"
  shows "fst (PUT_news sql p (Inr b) s) \<noteq> json_error 400 msg"
proof (cases "invalid_id (id_param p)")
  case True
  have "msg \<noteq> ''Invalid news ID''" using assms(3) no_slug_in_other_messages(12) by auto
  then show ?thesis using True by (simp add: PUT_news_def json_error_eq)
next
  case False
  have b: "b \<noteq> JNull" using assms(1) by auto
  show ?thesis
  proof (cases "first_failure (PUT_news_checks b)")
    case (Some m)
    then have "m \<noteq> msg" using PUT_accept[OF assms(1,2) Some] assms(3) by auto
    then show ?thesis using b Some False by (simp add: PUT_news_def json_error_eq)
  next
    case None
    then show ?thesis using b False
      by (auto simp: PUT_news_def news_catch_not_400 other_status_not_400 json_error_eq
               split: prod.splits sum.splits option.splits)
  qed
qed

lemma PUT_accept_continue:
  assumes "\<not> invalid_id (id_param p)" "property b ''slug'' = JStr t" "slug_format t"
    "first_failure (PUT_news_checks b) = None"
  shows "PUT_news sql p (Inr b) s =
           (case updateNews sql (the (id_param p)) (news_updateData b) s of
              (Inl e, s') \<Rightarrow> (news_catch e, s')
            | (Inr None, s') \<Rightarrow> (json_error 404 ''News article not found'', s')
            | (Inr (Some updated), s') \<Rightarrow> (\<lparr>status = 200, body = JObj updated\<rparr>, s'))"
    and "nu_slug (news_updateData b) = Some t"
proof -
  have b: "b \<noteq> JNull" using assms(2) by auto
  show "PUT_news sql p (Inr b) s =
           (case updateNews sql (the (id_param p)) (news_updateData b) s of
              (Inl e, s') \<Rightarrow> (news_catch e, s')
            | (Inr None, s') \<Rightarrow> (json_error 404 ''News article not found'', s')
            | (Inr (Some updated), s') \<Rightarrow> (\<lparr>status = 200, body = JObj updated\<rparr>, s'))"
    using b assms(1,4) by (simp add: PUT_news_def)
  show "nu_slug (news_updateData b) = Some t"
    using assms(2,3) by (simp add: news_updateData_def trimmed_def the_string_def slug_format_trim)
qed

lemma PUT_reject:
  assumes "\<not> invalid_id (id_param p)" "b \<noteq> JNull" "\<not> present_not_text (property b ''title'')"
    "property b ''slug'' \<noteq> JUndefined"
    "\<not> (\<exists>t. property b ''slug'' = JStr t \<and> slug_format t)"
  shows "\<exists>msg. str_includes msg ''Slug'' \<and> PUT_news sql p (Inr b) s = (json_error 400 msg, s)"
proof (cases "present_not_text (property b ''slug'')")
  case True
  then have "PUT_news sql p (Inr b) s = (json_error 400 ''Slug must be a non-empty string'', s)"
    using assms by (simp add: PUT_news_def PUT_news_checks_def)
  then show ?thesis using slug_in_slug_messages(2) by blast
next
  case False
  then obtain t where "property b ''slug'' = JStr t" using assms(4)
    by (cases "property b ''slug''") (auto simp: present_not_text_def)
  with assms have "bad_slug_format (property b ''slug'')" by (simp add: bad_slug_format_def)
  with False have "PUT_news sql p (Inr b) s =
      (json_error 400 ''Slug must contain only lowercase letters, numbers, hyphens, and underscores'', s)"
    using assms by (simp add: PUT_news_def PUT_news_checks_def)
  then show ?thesis using slug_in_slug_messages(3) by blast
qed

text \<open>
  C7. The slug format accepts exactly the non-empty strings over the lower-case letters,
  the digits, the hyphen and the underscore; it rejects \<open>Invalid Slug\<close>, \<open>UPPERCASE\<close>,
  \<open>special@chars!\<close> and the empty string and accepts \<open>valid-slug_1\<close>. In the create route,
  on a body whose title and content pass their checks, and in the update route, on a
  valid id and a body that has a slug and whose title passes its check: a slug that is
  a string of that format is not the cause of any rejection (no failing check has a
  message about the slug), and any other slug is answered 400 with a message that
  contains \<open>Slug\<close>, the store untouched.

  The routes themselves accept a slug of that format: whatever the rest of the request,
  neither route answers it 400 with a message that contains \<open>Slug\<close>; and when all
  checks pass, the route goes on to the repository with that slug, and its response is
  the one it builds from the outcome of \<^verbatim>\<open>createNews\<close>, respectively
  \<^verbatim>\<open>updateNews\<close>.
\<close>

theorem slug_validator:
  "slug_format ''valid-slug_1'' \<and> \<not> slug_format ''Invalid Slug'' \<and> \<not> slug_format ''UPPERCASE'' \<and>
   \<not> slug_format ''special@chars!'' \<and> \<not> slug_format [] \<and>
   (slug_format t \<longleftrightarrow>
      t \<noteq> [] \<and> (\<forall>c \<in> set t. c \<in> set ''abcdefghijklmnopqrstuvwxyz0123456789-_'')) \<and>
   (b \<noteq> JNull \<and> \<not> required_missing (property b ''title'') \<and>
    \<not> required_missing (property b ''content'') \<longrightarrow>
      ((\<exists>t. property b ''slug'' = JStr t \<and> slug_format t) \<longrightarrow>
         (\<forall>msg. first_failure (POST_news_checks b) = Some msg \<longrightarrow> \<not> str_includes msg ''Slug'')) \<and>
      (\<not> (\<exists>t. property b ''slug'' = JStr t \<and> slug_format t) \<longrightarrow>
         (\<exists>msg. str_includes msg ''Slug'' \<and> POST_news sql (Inr b) s = (json_error 400 msg, s)))) \<and>
   (\<not> invalid_id (id_param p) \<and> b \<noteq> JNull \<and> \<not> present_not_text (property b ''title'') \<and>
    property b ''slug'' \<noteq> JUndefined \<longrightarrow>
      ((\<exists>t. property b ''slug'' = JStr t \<and> slug_format t) \<longrightarrow>
         (\<forall>msg. first_failure (PUT_news_checks b) = Some msg \<longrightarrow> \<not> str_includes msg ''Slug'')) \<and>
      (\<not> (\<exists>t. property b ''slug'' = JStr t \<and> slug_format t) \<longrightarrow>
         (\<exists>msg. str_includes msg ''Slug'' \<and> PUT_news sql p (Inr b) s = (json_error 400 msg, s)))) \<and>
   (property b ''slug'' = JStr t \<and> slug_format t \<longrightarrow>
      \<not> (\<exists>msg. str_includes msg ''Slug'' \<and> fst (POST_news sql (Inr b) s) = json_error 400 msg) \<and>
      \<not> (\<exists>msg. str_includes msg ''Slug'' \<and> fst (PUT_news sql p (Inr b) s) = json_error 400 msg) \<and>
      (first_failure (POST_news_checks b) = None \<longrightarrow>
         n_slug (newsData b) = t \<and>
         POST_news sql (Inr b) s =
           (case createNews sql (newsData b) s of
              (Inl e, s') \<Rightarrow> (news_catch e, s')
            | (Inr created, s') \<Rightarrow> (\<lparr>status = 201, body = JObj created\<rparr>, s'))) \<and>
      (\<not> invalid_id (id_param p) \<and> first_failure (PUT_news_checks b) = None \<longrightarrow>
         nu_slug (news_updateData b) = Some t \<and>
         PUT_news sql p (Inr b) s =
           (case updateNews sql (the (id_param p)) (news_updateData b) s of
              (Inl e, s') \<Rightarrow> (news_catch e, s')
            | (Inr None, s') \<Rightarrow> (json_error 404 ''News article not found'', s')
            | (Inr (Some updated), s') \<Rightarrow> (\<lparr>status = 200, body = JObj updated\<rparr>, s'))))"
proof -
  have ex: "slug_format ''valid-slug_1''" "\<not> slug_format ''Invalid Slug''" "\<not> slug_format ''UPPERCASE''"
    "\<not> slug_format ''special@chars!''" "\<not> slug_format []"
    by code_simp+
  have al: "slug_format t \<longleftrightarrow>
      t \<noteq> [] \<and> (\<forall>c \<in> set t. c \<in> set ''abcdefghijklmnopqrstuvwxyz0123456789-_'')"
    unfolding slug_format_def list_all_iff slug_char_alphabet ..
  have old: "(b \<noteq> JNull \<and> \<not> required_missing (property b ''title'') \<and>
    \<not> required_missing (property b ''content'') \<longrightarrow>
      ((\<exists>t. property b ''slug'' = JStr t \<and> slug_format t) \<longrightarrow>
         (\<forall>msg. first_failure (POST_news_checks b) = Some msg \<longrightarrow> \<not> str_includes msg ''Slug'')) \<and>
      (\<not> (\<exists>t. property b ''slug'' = JStr t \<and> slug_format t) \<longrightarrow>
         (\<exists>msg. str_includes msg ''Slug'' \<and> POST_news sql (Inr b) s = (json_error 400 msg, s)))) \<and>
   (\<not> invalid_id (id_param p) \<and> b \<noteq> JNull \<and> \<not> present_not_text (property b ''title'') \<and>
    property b ''slug'' \<noteq> JUndefined \<longrightarrow>
      ((\<exists>t. property b ''slug'' = JStr t \<and> slug_format t) \<longrightarrow>
         (\<forall>msg. first_failure (PUT_news_checks b) = Some msg \<longrightarrow> \<not> str_includes msg ''Slug'')) \<and>
      (\<not> (\<exists>t. property b ''slug'' = JStr t \<and> slug_format t) \<longrightarrow>
         (\<exists>msg. str_includes msg ''Slug'' \<and> PUT_news sql p (Inr b) s = (json_error 400 msg, s))))"
    using POST_accept[of b] POST_reject[of b sql s] PUT_accept[of b] PUT_reject[of p b sql s]
    by blast
  have new: "property b ''slug'' = JStr t \<and> slug_format t \<longrightarrow>
      \<not> (\<exists>msg. str_includes msg ''Slug'' \<and> fst (POST_news sql (Inr b) s) = json_error 400 msg) \<and>
      \<not> (\<exists>msg. str_includes msg ''Slug'' \<and> fst (PUT_news sql p (Inr b) s) = json_error 400 msg) \<and>
      (first_failure (POST_news_checks b) = None \<longrightarrow>
         n_slug (newsData b) = t \<and>
         POST_news sql (Inr b) s =
           (case createNews sql (newsData b) s of
              (Inl e, s') \<Rightarrow> (news_catch e, s')
            | (Inr created, s') \<Rightarrow> (\<lparr>status = 201, body = JObj created\<rparr>, s'))) \<and>
      (\<not> invalid_id (id_param p) \<and> first_failure (PUT_news_checks b) = None \<longrightarrow>
         nu_slug (news_updateData b) = Some t \<and>
         PUT_news sql p (Inr b) s =
           (case updateNews sql (the (id_param p)) (news_updateData b) s of
              (Inl e, s') \<Rightarrow> (news_catch e, s')
            | (Inr None, s') \<Rightarrow> (json_error 404 ''News article not found'', s')
            | (Inr (Some updated), s') \<Rightarrow> (\<lparr>status = 200, body = JObj updated\<rparr>, s')))"
  proof (intro impI conjI; elim conjE)
    assume a: "property b ''slug'' = JStr t" "slug_format t"
    show "\<not> (\<exists>msg. str_includes msg ''Slug'' \<and> fst (POST_news sql (Inr b) s) = json_error 400 msg)"
    proof
      assume "\<exists>msg. str_includes msg ''Slug'' \<and> fst (POST_news sql (Inr b) s) = json_error 400 msg"
      then obtain msg where m: "str_includes msg ''Slug''"
        "fst (POST_news sql (Inr b) s) = json_error 400 msg" by blast
      show False using POST_accept_response[OF a m(1), of sql s] m(2) by simp
    qed
    show "\<not> (\<exists>msg. str_includes msg ''Slug'' \<and> fst (PUT_news sql p (Inr b) s) = json_error 400 msg)"
    proof
      assume "\<exists>msg. str_includes msg ''Slug'' \<and> fst (PUT_news sql p (Inr b) s) = json_error 400 msg"
      then obtain msg where m: "str_includes msg ''Slug''"
        "fst (PUT_news sql p (Inr b) s) = json_error 400 msg" by blast
      show False using PUT_accept_response[OF a m(1), of sql p s] m(2) by simp
    qed
    {
      assume c: "first_failure (POST_news_checks b) = None"
      show "n_slug (newsData b) = t" by (rule POST_accept_continue(2)[OF a c])
      show "POST_news sql (Inr b) s =
           (case createNews sql (newsData b) s of
              (Inl e, s') \<Rightarrow> (news_catch e, s')
            | (Inr created, s') \<Rightarrow> (\<lparr>status = 201, body = JObj created\<rparr>, s'))"
        by (rule POST_accept_continue(1)[OF a c])
    }
    {
      assume i: "\<not> invalid_id (id_param p)" and c: "first_failure (PUT_news_checks b) = None"
      show "nu_slug (news_updateData b) = Some t" by (rule PUT_accept_continue(2)[OF i a c])
      show "PUT_news sql p (Inr b) s =
           (case updateNews sql (the (id_param p)) (news_updateData b) s of
              (Inl e, s') \<Rightarrow> (news_catch e, s')
            | (Inr None, s') \<Rightarrow> (json_error 404 ''News article not found'', s')
            | (Inr (Some updated), s') \<Rightarrow> (\<lparr>status = 200, body = JObj updated\<rparr>, s'))"
        by (rule PUT_accept_continue(1)[OF i a c])
    }
  qed
  show ?thesis
    using ex al old new by (intro conjI) blast+
qed

theorem slug_validator_witness:
  "\<not> (\<exists>msg. first_failure (POST_news_checks sample_body) = Some msg \<and> str_includes msg ''Slug'') \<and>
   (\<exists>msg. str_includes msg ''Slug'' \<and>
      POST_news (failing_driver ''down'') (Inr bad_slug_body) () = (json_error 400 msg, ())) \<and>
   \<not> (\<exists>msg. first_failure (PUT_news_checks sample_body) = Some msg \<and> str_includes msg ''Slug'') \<and>
   (\<exists>msg. str_includes msg ''Slug'' \<and>
      PUT_news (failing_driver ''down'') (Some ''7'') (Inr bad_slug_body) () = (json_error 400 msg, ())) \<and>
   \<not> (\<exists>msg. str_includes msg ''Slug'' \<and>
        fst (POST_news pg (Inr sample_body) sample_db) = json_error 400 msg) \<and>
   \<not> (\<exists>msg. str_includes msg ''Slug'' \<and>
        fst (PUT_news pg (Some ''1'') (Inr sample_body) sample_db) = json_error 400 msg) \<and>
   n_slug (newsData sample_body) = ''li-1'' \<and>
   nu_slug (news_updateData sample_body) = Some ''li-1'' \<and>
   status (fst (POST_news pg (Inr sample_body) sample_db)) = 201 \<and>
   property (body (fst (POST_news pg (Inr sample_body) sample_db))) ''slug'' = JStr ''li-1'' \<and>
   status (fst (PUT_news pg (Some ''1'') (Inr sample_body) sample_db)) = 200 \<and>
   property (body (fst (PUT_news pg (Some ''1'') (Inr sample_body) sample_db))) ''slug'' = JStr ''li-1''"
proof -
  have g: "sample_body \<noteq> JNull" "\<not> required_missing (property sample_body ''title'')"
    "\<not> required_missing (property sample_body ''content'')"
    "\<not> present_not_text (property sample_body ''title'')"
    "property sample_body ''slug'' = JStr ''li-1''" "slug_format ''li-1''"
    "property sample_body ''slug'' \<noteq> JUndefined"
    "first_failure (POST_news_checks sample_body) = None"
    "first_failure (PUT_news_checks sample_body) = None"
    by code_simp+
  have h: "bad_slug_body \<noteq> JNull" "\<not> required_missing (property bad_slug_body ''title'')"
    "\<not> required_missing (property bad_slug_body ''content'')"
    "\<not> present_not_text (property bad_slug_body ''title'')"
    "property bad_slug_body ''slug'' = JStr ''Bad Slug''" "\<not> slug_format ''Bad Slug''"
    "property bad_slug_body ''slug'' \<noteq> JUndefined"
    by code_simp+
  have i: "\<not> invalid_id (id_param (Some ''7''))" "\<not> invalid_id (id_param (Some ''1''))" by code_simp+
  have n: "\<not> (\<exists>t. property bad_slug_body ''slug'' = JStr t \<and> slug_format t)"
    using h(5,6) by simp
  have e: "status (fst (POST_news pg (Inr sample_body) sample_db)) = 201"
    "property (body (fst (POST_news pg (Inr sample_body) sample_db))) ''slug'' = JStr ''li-1''"
    "status (fst (PUT_news pg (Some ''1'') (Inr sample_body) sample_db)) = 200"
    "property (body (fst (PUT_news pg (Some ''1'') (Inr sample_body) sample_db))) ''slug'' = JStr ''li-1''"
    by code_simp+
  have a: "\<not> (\<exists>msg. first_failure (POST_news_checks sample_body) = Some msg \<and> str_includes msg ''Slug'')"
    "\<not> (\<exists>msg. first_failure (PUT_news_checks sample_body) = Some msg \<and> str_includes msg ''Slug'')"
    using g(8,9) by simp_all
  have r: "\<exists>msg. str_includes msg ''Slug'' \<and>
      POST_news (failing_driver ''down'') (Inr bad_slug_body) () = (json_error 400 msg, ())"
    "\<exists>msg. str_includes msg ''Slug'' \<and>
      PUT_news (failing_driver ''down'') (Some ''7'') (Inr bad_slug_body) () = (json_error 400 msg, ())"
    using slug_validator[of "''li-1''" bad_slug_body "failing_driver ''down''" "()" "Some ''7''"]
      h i(1) n by blast+
  have w: "\<not> (\<exists>msg. str_includes msg ''Slug'' \<and>
        fst (POST_news pg (Inr sample_body) sample_db) = json_error 400 msg)"
    "\<not> (\<exists>msg. str_includes msg ''Slug'' \<and>
        fst (PUT_news pg (Some ''1'') (Inr sample_body) sample_db) = json_error 400 msg)"
    "n_slug (newsData sample_body) = ''li-1''"
    "nu_slug (news_updateData sample_body) = Some ''li-1''"
    using slug_validator[of "''li-1''" sample_body pg sample_db "Some ''1''"] g i(2) by blast+
  show ?thesis using a r w e by (intro conjI)
qed

lemma id_param_Some: "id_param (Some t) = parseInt10 t"
  by (simp add: id_param_def)

lemma id_param_None: "id_param None = None"
proof -
  have "parseInt10 [] = None" by code_simp
  then show ?thesis by (simp add: id_param_def)
qed

text \<open>
  The guard \<^verbatim>\<open>isNaN(id) || id < 1\<close> of the routes holds exactly of a parameter that is
  absent or does not begin with an integer of at least 1.
\<close>

lemma invalid_id_iff:
  "invalid_id (id_param p) =
     (p = None \<or> (\<exists>t. p = Some t \<and> \<not> (\<exists>n. leading_integer t n \<and> 1 \<le> n)))"
proof (cases p)
  case None
  then show ?thesis by (simp add: id_param_None invalid_id_def)
next
  case p: (Some t)
  show ?thesis
  proof (cases "parseInt10 t")
    case None
    have "\<not> leading_integer t n" for n
      using leading_integer_parseInt10[of t n] None by auto
    then show ?thesis using None p by (simp add: id_param_Some invalid_id_def)
  next
    case (Some m)
    then obtain n where n: "leading_integer t n" "m = round_double n"
      using parseInt10_leading_integer by blast
    have "(1 \<le> k) = (1 \<le> m)" if "leading_integer t k" for k
    proof -
      have "round_double k = m"
        using leading_integer_parseInt10[OF that] Some by simp
      then show ?thesis using round_double_positive[of k] by simp
    qed
    then have "(\<exists>k. leading_integer t k \<and> 1 \<le> k) = (1 \<le> m)"
      using n(1) by blast
    then show ?thesis using Some p by (auto simp: id_param_Some invalid_id_def)
  qed
qed

lemma valid_id_param:
  assumes "leading_integer t n" "1 \<le> n"
  shows "id_param (Some t) = Some (round_double n)" "\<not> invalid_id (id_param (Some t))"
proof -
  show "id_param (Some t) = Some (round_double n)"
    using leading_integer_parseInt10[OF assms(1)] by (simp add: id_param_Some)
  then show "\<not> invalid_id (id_param (Some t))"
    using assms(2) round_double_positive[of n] by (simp add: invalid_id_def)
qed

text \<open>
  C8, as the claim states it, fails: \<^verbatim>\<open>parseInt\<close> reads the leading digits of the path
  parameter and ignores the text after them, so \<open>1.9\<close> and \<open>12abc\<close>, neither of which
  is a positive integer, are taken as the ids 1 and 12. On the sample store
  \<^verbatim>\<open>DELETE /api/news/1.9\<close> deletes the article 1, and \<^verbatim>\<open>GET /api/faculty/12abc\<close>
  asks the store for the member 12.
\<close>

theorem text_after_the_digits_is_ignored:
  "id_param (Some ''1.9'') = Some 1 \<and>
   fst (DELETE_news pg (Some ''1.9'') sample_db) =
     \<lparr>status = 200, body = JObj [(''message'', JStr ''News article deleted successfully'')]\<rparr> \<and>
   news (snd (DELETE_news pg (Some ''1.9'') sample_db)) = [] \<and>
   journal (snd (DELETE_news pg (Some ''1.9'') sample_db)) = [(NewsDelete, [JNum 1])] \<and>
   id_param (Some ''12abc'') = Some 12 \<and>
   fst (GET_faculty_id pg (Some ''12abc'') sample_db) = json_error 404 ''Faculty member not found'' \<and>
   journal (snd (GET_faculty_id pg (Some ''12abc'') sample_db)) = [(FacultySelectById, [JNum 12])]"
  by code_simp

text \<open>
  C8, amended. An id path parameter that is absent, or that does not begin, after white
  space, with an optionally signed run of decimal digits that denotes an integer of at
  least 1, is answered 400 with \<open>Invalid news ID\<close> or \<open>Invalid faculty ID\<close> by each of the
  GET, PUT and DELETE routes of \<^verbatim>\<open>/api/news/{id}\<close> and \<^verbatim>\<open>/api/faculty/{id}\<close>, whatever
  the driver and the request body, and the store is in the state the route started in: no
  repository operation ran. A parameter that does begin with such an integer \<open>n\<close>,
  whatever text follows its digits, is taken as the id \<open>n\<close> (the double nearest to
  it), and the route goes on to the repository with that id.
\<close>

theorem id_parameter_validation:
  "(p = None \<or> (\<exists>t. p = Some t \<and> \<not> (\<exists>n. leading_integer t n \<and> 1 \<le> n)) \<longrightarrow>
      GET_news_id sql p s = (json_error 400 ''Invalid news ID'', s) \<and>
      PUT_news sql p json s = (json_error 400 ''Invalid news ID'', s) \<and>
      DELETE_news sql p s = (json_error 400 ''Invalid news ID'', s) \<and>
      GET_faculty_id sql p s = (json_error 400 ''Invalid faculty ID'', s) \<and>
      PUT_faculty sql p json s = (json_error 400 ''Invalid faculty ID'', s) \<and>
      DELETE_faculty sql p s = (json_error 400 ''Invalid faculty ID'', s)) \<and>
   (p = Some t \<and> leading_integer t n \<and> 1 \<le> n \<longrightarrow>
      id_param p = Some (round_double n) \<and>
      GET_news_id sql p s =
        (case getNewsById sql (round_double n) s of
           (Inl e, s') \<Rightarrow> (internal_error, s')
         | (Inr None, s') \<Rightarrow> (json_error 404 ''News article not found'', s')
         | (Inr (Some found), s') \<Rightarrow> (\<lparr>status = 200, body = JObj found\<rparr>, s')) \<and>
      DELETE_news sql p s =
        (case deleteNews sql (round_double n) s of
           (Inl e, s') \<Rightarrow> (internal_error, s')
         | (Inr deleted, s') \<Rightarrow>
             if \<not> deleted then (json_error 404 ''News article not found'', s')
             else (\<lparr>status = 200,
                    body = JObj [(''message'', JStr ''News article deleted successfully'')]\<rparr>, s')) \<and>
      GET_faculty_id sql p s =
        (case getFacultyById sql (round_double n) s of
           (Inl e, s') \<Rightarrow> (internal_error, s')
         | (Inr None, s') \<Rightarrow> (json_error 404 ''Faculty member not found'', s')
         | (Inr (Some found), s') \<Rightarrow> (\<lparr>status = 200, body = JObj found\<rparr>, s')) \<and>
      DELETE_faculty sql p s =
        (case deleteFaculty sql (round_double n) s of
           (Inl e, s') \<Rightarrow> (internal_error, s')
         | (Inr deleted, s') \<Rightarrow>
             if \<not> deleted then (json_error 404 ''Faculty member not found'', s')
             else (\<lparr>status = 200,
                    body = JObj [(''message'', JStr ''Faculty member deleted successfully'')]\<rparr>, s')) \<and>
      (b \<noteq> JNull \<and> first_failure (PUT_news_checks b) = None \<longrightarrow>
         PUT_news sql p (Inr b) s =
           (case updateNews sql (round_double n) (news_updateData b) s of
              (Inl e, s') \<Rightarrow> (news_catch e, s')
            | (Inr None, s') \<Rightarrow> (json_error 404 ''News article not found'', s')
            | (Inr (Some updated), s') \<Rightarrow> (\<lparr>status = 200, body = JObj updated\<rparr>, s'))) \<and>
      (b \<noteq> JNull \<and> first_failure (PUT_faculty_checks b) = None \<longrightarrow>
         PUT_faculty sql p (Inr b) s =
           (case updateFaculty sql (round_double n) (faculty_updateData b) s of
              (Inl e, s') \<Rightarrow> (internal_error, s')
            | (Inr None, s') \<Rightarrow> (json_error 404 ''Faculty member not found'', s')
            | (Inr (Some updated), s') \<Rightarrow> (\<lparr>status = 200, body = JObj updated\<rparr>, s'))))"
proof (intro conjI impI)
  assume "p = None \<or> (\<exists>t. p = Some t \<and> \<not> (\<exists>n. leading_integer t n \<and> 1 \<le> n))"
  then have i: "invalid_id (id_param p)" by (simp only: invalid_id_iff)
  show "GET_news_id sql p s = (json_error 400 ''Invalid news ID'', s)"
    using i by (simp add: GET_news_id_def)
  show "PUT_news sql p json s = (json_error 400 ''Invalid news ID'', s)"
    using i by (simp add: PUT_news_def)
  show "DELETE_news sql p s = (json_error 400 ''Invalid news ID'', s)"
    using i by (simp add: DELETE_news_def)
  show "GET_faculty_id sql p s = (json_error 400 ''Invalid faculty ID'', s)"
    using i by (simp add: GET_faculty_id_def)
  show "PUT_faculty sql p json s = (json_error 400 ''Invalid faculty ID'', s)"
    using i by (simp add: PUT_faculty_def)
  show "DELETE_faculty sql p s = (json_error 400 ''Invalid faculty ID'', s)"
    using i by (simp add: DELETE_faculty_def)
next
  assume a: "p = Some t \<and> leading_integer t n \<and> 1 \<le> n"
  then have v: "id_param p = Some (round_double n)" "\<not> invalid_id (id_param p)"
    using valid_id_param[of t n] by simp_all
  show "id_param p = Some (round_double n)" by (rule v(1))
  show "GET_news_id sql p s =
        (case getNewsById sql (round_double n) s of
           (Inl e, s') \<Rightarrow> (internal_error, s')
         | (Inr None, s') \<Rightarrow> (json_error 404 ''News article not found'', s')
         | (Inr (Some found), s') \<Rightarrow> (\<lparr>status = 200, body = JObj found\<rparr>, s'))"
    using v(2) by (simp add: GET_news_id_def v(1))
  show "DELETE_news sql p s =
        (case deleteNews sql (round_double n) s of
           (Inl e, s') \<Rightarrow> (internal_error, s')
         | (Inr deleted, s') \<Rightarrow>
             if \<not> deleted then (json_error 404 ''News article not found'', s')
             else (\<lparr>status = 200,
                    body = JObj [(''message'', JStr ''News article deleted successfully'')]\<rparr>, s'))"
    using v(2) by (simp add: DELETE_news_def v(1))
  show "GET_faculty_id sql p s =
        (case getFacultyById sql (round_double n) s of
           (Inl e, s') \<Rightarrow> (internal_error, s')
         | (Inr None, s') \<Rightarrow> (json_error 404 ''Faculty member not found'', s')
         | (Inr (Some found), s') \<Rightarrow> (\<lparr>status = 200, body = JObj found\<rparr>, s'))"
    using v(2) by (simp add: GET_faculty_id_def v(1))
  show "DELETE_faculty sql p s =
        (case deleteFaculty sql (round_double n) s of
           (Inl e, s') \<Rightarrow> (internal_error, s')
         | (Inr deleted, s') \<Rightarrow>
             if \<not> deleted then (json_error 404 ''Faculty member not found'', s')
             else (\<lparr>status = 200,
                    body = JObj [(''message'', JStr ''Faculty member deleted successfully'')]\<rparr>, s'))"
    using v(2) by (simp add: DELETE_faculty_def v(1))
  {
    assume c: "b \<noteq> JNull \<and> first_failure (PUT_news_checks b) = None"
    show "PUT_news sql p (Inr b) s =
           (case updateNews sql (round_double n) (news_updateData b) s of
              (Inl e, s') \<Rightarrow> (news_catch e, s')
            | (Inr None, s') \<Rightarrow> (json_error 404 ''News article not found'', s')
            | (Inr (Some updated), s') \<Rightarrow> (\<lparr>status = 200, body = JObj updated\<rparr>, s'))"
      using v(2) c by (simp add: PUT_news_def v(1))
  }
  {
    assume c: "b \<noteq> JNull \<and> first_failure (PUT_faculty_checks b) = None"
    show "PUT_faculty sql p (Inr b) s =
           (case updateFaculty sql (round_double n) (faculty_updateData b) s of
              (Inl e, s') \<Rightarrow> (internal_error, s')
            | (Inr None, s') \<Rightarrow> (json_error 404 ''Faculty member not found'', s')
            | (Inr (Some updated), s') \<Rightarrow> (\<lparr>status = 200, body = JObj updated\<rparr>, s'))"
      using v(2) c by (simp add: PUT_faculty_def v(1))
  }
qed

theorem id_parameter_validation_witness:
  "GET_news_id (failing_driver ''down'') None () = (json_error 400 ''Invalid news ID'', ()) \<and>
   PUT_news (failing_driver ''down'') (Some ''abc'') (Inr sample_body) () =
     (json_error 400 ''Invalid news ID'', ()) \<and>
   DELETE_news (failing_driver ''down'') (Some ''0'') () = (json_error 400 ''Invalid news ID'', ()) \<and>
   GET_faculty_id (failing_driver ''down'') (Some ''-3'') () =
     (json_error 400 ''Invalid faculty ID'', ()) \<and>
   PUT_faculty (failing_driver ''down'') (Some []) (Inr sample_body) () =
     (json_error 400 ''Invalid faculty ID'', ()) \<and>
   DELETE_faculty (failing_driver ''down'') (Some ''.5'') () =
     (json_error 400 ''Invalid faculty ID'', ()) \<and>
   leading_integer '' +1abc'' 1 \<and>
   id_param (Some '' +1abc'') = Some 1 \<and>
   fst (GET_news_id pg (Some '' +1abc'') sample_db) =
     \<lparr>status = 200, body = JObj (news_json existing_article)\<rparr> \<and>
   fst (GET_faculty_id pg (Some '' +1abc'') sample_db) =
     \<lparr>status = 200, body = JObj (faculty_json sample_member)\<rparr> \<and>
   status (fst (PUT_news pg (Some '' +1abc'') (Inr sample_body) sample_db)) = 200 \<and>
   status (fst (PUT_faculty pg (Some '' +1abc'') (Inr sample_body) sample_db)) = 200 \<and>
   status (fst (DELETE_news pg (Some '' +1abc'') sample_db)) = 200 \<and>
   status (fst (DELETE_faculty pg (Some '' +1abc'') sample_db)) = 200"
proof -
  have i: "invalid_id (id_param (Some ''abc''))" "invalid_id (id_param (Some ''0''))"
    "invalid_id (id_param (Some ''-3''))" "invalid_id (id_param (Some []))"
    "invalid_id (id_param (Some ''.5''))"
    by code_simp+
  have h: "\<exists>t. Some x = Some t \<and> \<not> (\<exists>n. leading_integer t n \<and> 1 \<le> n)"
    if "invalid_id (id_param (Some x))" for x
    using that unfolding invalid_id_iff by simp
  have b: "blank '' ''" using blank_more[of "'' ''" "[]"] blank_empty by (simp add: white_space_def)
  have "list_all is_digit ''1''" "list_all (\<lambda>c. \<not> is_digit c) (take 1 ''abc'')" "digits_value ''1'' = 1"
    by code_simp+
  then have l: "leading_integer '' +1abc'' 1"
    using leading_integerI[OF b, of "''+''" "''1''" "''abc''"] by simp
  have r: "round_double 1 = 1" by (simp add: round_double_def)
  have v: "sample_body \<noteq> JNull" "first_failure (PUT_news_checks sample_body) = None"
    "first_failure (PUT_faculty_checks sample_body) = None"
    by code_simp+
  have e: "(case getNewsById pg 1 sample_db of
           (Inl e, s') \<Rightarrow> (internal_error, s')
         | (Inr None, s') \<Rightarrow> (json_error 404 ''News article not found'', s')
         | (Inr (Some found), s') \<Rightarrow> (\<lparr>status = 200, body = JObj found\<rparr>, s')) =
         (\<lparr>status = 200, body = JObj (news_json existing_article)\<rparr>,
          snd (getNewsById pg 1 sample_db))"
    "(case getFacultyById pg 1 sample_db of
           (Inl e, s') \<Rightarrow> (internal_error, s')
         | (Inr None, s') \<Rightarrow> (json_error 404 ''Faculty member not found'', s')
         | (Inr (Some found), s') \<Rightarrow> (\<lparr>status = 200, body = JObj found\<rparr>, s')) =
         (\<lparr>status = 200, body = JObj (faculty_json sample_member)\<rparr>,
          snd (getFacultyById pg 1 sample_db))"
  proof -
    have "fst (getNewsById pg 1 sample_db) = Inr (Some (news_json existing_article))" by code_simp
    then show "(case getNewsById pg 1 sample_db of
           (Inl e, s') \<Rightarrow> (internal_error, s')
         | (Inr None, s') \<Rightarrow> (json_error 404 ''News article not found'', s')
         | (Inr (Some found), s') \<Rightarrow> (\<lparr>status = 200, body = JObj found\<rparr>, s')) =
         (\<lparr>status = 200, body = JObj (news_json existing_article)\<rparr>,
          snd (getNewsById pg 1 sample_db))"
      by (cases "getNewsById pg 1 sample_db") simp
    have "fst (getFacultyById pg 1 sample_db) = Inr (Some (faculty_json sample_member))" by code_simp
    then show "(case getFacultyById pg 1 sample_db of
           (Inl e, s') \<Rightarrow> (internal_error, s')
         | (Inr None, s') \<Rightarrow> (json_error 404 ''Faculty member not found'', s')
         | (Inr (Some found), s') \<Rightarrow> (\<lparr>status = 200, body = JObj found\<rparr>, s')) =
         (\<lparr>status = 200, body = JObj (faculty_json sample_member)\<rparr>,
          snd (getFacultyById pg 1 sample_db))"
      by (cases "getFacultyById pg 1 sample_db") simp
  qed
  have s: "status (fst (PUT_news pg (Some '' +1abc'') (Inr sample_body) sample_db)) = 200"
    "status (fst (PUT_faculty pg (Some '' +1abc'') (Inr sample_body) sample_db)) = 200"
    "status (fst (DELETE_news pg (Some '' +1abc'') sample_db)) = 200"
    "status (fst (DELETE_faculty pg (Some '' +1abc'') sample_db)) = 200"
    by code_simp+
  note t = id_parameter_validation[of _ "failing_driver ''down''" "()" "Inr sample_body" "[]" 0 sample_body]
  show ?thesis
    using t[of None] t[of "Some ''abc''"] h[OF i(1)] t[of "Some ''0''"] h[OF i(2)]
      t[of "Some ''-3''"] h[OF i(3)] t[of "Some []"] h[OF i(4)] t[of "Some ''.5''"] h[OF i(5)]
      id_parameter_validation[of "Some '' +1abc''" pg sample_db "Inr sample_body" "'' +1abc''" 1
        sample_body] l r v e s
    by simp
qed

text \<open>
  C3, as the claim states it, fails on the faculty routes: on a body that passes the
  validation, with a repository call that throws an error whose message contains
  \<open>duplicate\<close> and \<open>unique\<close>, \<^verbatim>\<open>POST /api/faculty\<close> answers 500.
\<close>

theorem faculty_create_conflict_is_500:
  "first_failure (POST_faculty_checks sample_body) = None \<and>
   createFaculty (failing_driver ''duplicate key value violates unique constraint'')
     (facultyData sample_body) () =
     (Inl (Error ''Database operation failed: duplicate key value violates unique constraint''), ()) \<and>
   str_includes ''Database operation failed: duplicate key value violates unique constraint''
     ''duplicate'' \<and>
   POST_faculty (failing_driver ''duplicate key value violates unique constraint'')
     (Inr sample_body) () = (json_error 500 ''Internal server error'', ())"
  by code_simp

text \<open>
  C3, amended. When the repository call of a request that passed the validation throws
  an error whose message contains \<open>duplicate\<close> or \<open>unique\<close>: \<^verbatim>\<open>POST /api/news\<close> and
  \<^verbatim>\<open>PUT /api/news/{id}\<close> answer 409 with a message that contains \<open>already exists\<close>;
  \<^verbatim>\<open>POST /api/faculty\<close> and \<^verbatim>\<open>PUT /api/faculty/{id}\<close> answer 500 with
  \<open>Internal server error\<close>.
\<close>

theorem conflict_is_409_on_news_routes:
  assumes "str_includes (message e) ''duplicate'' \<or> str_includes (message e) ''unique''"
  shows "(b \<noteq> JNull \<and> first_failure (POST_news_checks b) = None \<and>
          createNews sql (newsData b) s = (Inl e, s') \<longrightarrow>
            POST_news sql (Inr b) s =
              (json_error 409 ''A news article with this slug already exists'', s')) \<and>
         (\<not> invalid_id (id_param p) \<and> b \<noteq> JNull \<and> first_failure (PUT_news_checks b) = None \<and>
          updateNews sql (the (id_param p)) (news_updateData b) s = (Inl e, s') \<longrightarrow>
            PUT_news sql p (Inr b) s =
              (json_error 409 ''A news article with this slug already exists'', s')) \<and>
         str_includes ''A news article with this slug already exists'' ''already exists'' \<and>
         (b \<noteq> JNull \<and> first_failure (POST_faculty_checks b) = None \<and>
          createFaculty sql (facultyData b) s = (Inl e, s') \<longrightarrow>
            POST_faculty sql (Inr b) s = (json_error 500 ''Internal server error'', s')) \<and>
         (\<not> invalid_id (id_param p) \<and> b \<noteq> JNull \<and> first_failure (PUT_faculty_checks b) = None \<and>
          updateFaculty sql (the (id_param p)) (faculty_updateData b) s = (Inl e, s') \<longrightarrow>
            PUT_faculty sql p (Inr b) s = (json_error 500 ''Internal server error'', s'))"
proof -
  have "str_includes ''A news article with this slug already exists'' ''already exists''"
    by code_simp
  then show ?thesis
    using assms
    by (simp add: POST_news_def PUT_news_def POST_faculty_def PUT_faculty_def news_catch_def
          internal_error_def)
qed

theorem conflict_is_409_on_news_routes_witness:
  "POST_news (failing_driver ''duplicate key value violates unique constraint'') (Inr sample_body) () =
     (json_error 409 ''A news article with this slug already exists'', ()) \<and>
   PUT_news (failing_driver ''duplicate key value violates unique constraint'') (Some ''7'')
     (Inr sample_body) () =
     (json_error 409 ''A news article with this slug already exists'', ()) \<and>
   POST_faculty (failing_driver ''duplicate key value violates unique constraint'') (Inr sample_body) () =
     (json_error 500 ''Internal server error'', ()) \<and>
   PUT_faculty (failing_driver ''duplicate key value violates unique constraint'') (Some ''7'')
     (Inr sample_body) () =
     (json_error 500 ''Internal server error'', ())"
proof -
  let ?d = "failing_driver ''duplicate key value violates unique constraint''"
  let ?e = "Error ''Database operation failed: duplicate key value violates unique constraint''"
  have m: "str_includes (message ?e) ''duplicate'' \<or> str_includes (message ?e) ''unique''"
    by code_simp
  have v: "sample_body \<noteq> JNull" "first_failure (POST_news_checks sample_body) = None"
    "first_failure (PUT_news_checks sample_body) = None"
    "first_failure (POST_faculty_checks sample_body) = None"
    "first_failure (PUT_faculty_checks sample_body) = None"
    "\<not> invalid_id (id_param (Some ''7''))"
    by code_simp+
  have r: "createNews ?d (newsData sample_body) () = (Inl ?e, ())"
    "updateNews ?d (the (id_param (Some ''7''))) (news_updateData sample_body) () = (Inl ?e, ())"
    "createFaculty ?d (facultyData sample_body) () = (Inl ?e, ())"
    "updateFaculty ?d (the (id_param (Some ''7''))) (faculty_updateData sample_body) () = (Inl ?e, ())"
    by (simp_all add: createNews_def updateNews_def createFaculty_def updateFaculty_def
          getNewsById_def getFacultyById_def queryOne_def query_def failing_driver_def Let_def)
  show ?thesis
    using conflict_is_409_on_news_routes[OF m, of sample_body ?d "()" "()" "Some ''7''"] v r
    by simp
qed

section \<open>Properties of the repositories\<close>

text \<open>
  C10. An optional text field of the input of \<^verbatim>\<open>createNews\<close> (summary, thumbnailUrl,
  author, category) or of \<^verbatim>\<open>createFaculty\<close> (nameEn, photoUrl, email, phone, office,
  education, biography, publications, projects, awards) that is present and the empty
  string is sent to the store as \<^verbatim>\<open>null\<close>: the parameter at its position is \<^verbatim>\<open>null\<close>,
  and the call runs, on every driver and state, exactly as the call with the field
  absent does. The parameters are what the function hands to the driver with its
  \<^verbatim>\<open>INSERT\<close>, in one call, and what it returns is the first row that the driver
  returns, so that what is stored and returned is the same as for an absent field. On
  the reference store the row inserted for the sample input, whose summary is the empty
  string, has the summary \<^verbatim>\<open>NULL\<close>.
\<close>

theorem empty_optional_field_is_null:
  "createNews_params (nd\<lparr>n_summary := Some []\<rparr>) ! 2 = JNull \<and>
   createNews_params (nd\<lparr>n_thumbnailUrl := Some []\<rparr>) ! 4 = JNull \<and>
   createNews_params (nd\<lparr>n_author := Some []\<rparr>) ! 5 = JNull \<and>
   createNews_params (nd\<lparr>n_category := Some []\<rparr>) ! 6 = JNull \<and>
   createNews sql (nd\<lparr>n_summary := Some []\<rparr>) s = createNews sql (nd\<lparr>n_summary := None\<rparr>) s \<and>
   createNews sql (nd\<lparr>n_thumbnailUrl := Some []\<rparr>) s =
     createNews sql (nd\<lparr>n_thumbnailUrl := None\<rparr>) s \<and>
   createNews sql (nd\<lparr>n_author := Some []\<rparr>) s = createNews sql (nd\<lparr>n_author := None\<rparr>) s \<and>
   createNews sql (nd\<lparr>n_category := Some []\<rparr>) s = createNews sql (nd\<lparr>n_category := None\<rparr>) s \<and>
   createFaculty_params (fd\<lparr>f_nameEn := Some []\<rparr>) ! 1 = JNull \<and>
   createFaculty_params (fd\<lparr>f_photoUrl := Some []\<rparr>) ! 4 = JNull \<and>
   createFaculty_params (fd\<lparr>f_email := Some []\<rparr>) ! 5 = JNull \<and>
   createFaculty_params (fd\<lparr>f_phone := Some []\<rparr>) ! 6 = JNull \<and>
   createFaculty_params (fd\<lparr>f_office := Some []\<rparr>) ! 7 = JNull \<and>
   createFaculty_params (fd\<lparr>f_education := Some []\<rparr>) ! 9 = JNull \<and>
   createFaculty_params (fd\<lparr>f_biography := Some []\<rparr>) ! 10 = JNull \<and>
   createFaculty_params (fd\<lparr>f_publications := Some []\<rparr>) ! 11 = JNull \<and>
   createFaculty_params (fd\<lparr>f_projects := Some []\<rparr>) ! 12 = JNull \<and>
   createFaculty_params (fd\<lparr>f_awards := Some []\<rparr>) ! 13 = JNull \<and>
   createFaculty sql (fd\<lparr>f_nameEn := Some []\<rparr>) s = createFaculty sql (fd\<lparr>f_nameEn := None\<rparr>) s \<and>
   createFaculty sql (fd\<lparr>f_photoUrl := Some []\<rparr>) s =
     createFaculty sql (fd\<lparr>f_photoUrl := None\<rparr>) s \<and>
   createFaculty sql (fd\<lparr>f_email := Some []\<rparr>) s = createFaculty sql (fd\<lparr>f_email := None\<rparr>) s \<and>
   createFaculty sql (fd\<lparr>f_phone := Some []\<rparr>) s = createFaculty sql (fd\<lparr>f_phone := None\<rparr>) s \<and>
   createFaculty sql (fd\<lparr>f_office := Some []\<rparr>) s = createFaculty sql (fd\<lparr>f_office := None\<rparr>) s \<and>
   createFaculty sql (fd\<lparr>f_education := Some []\<rparr>) s =
     createFaculty sql (fd\<lparr>f_education := None\<rparr>) s \<and>
   createFaculty sql (fd\<lparr>f_biography := Some []\<rparr>) s =
     createFaculty sql (fd\<lparr>f_biography := None\<rparr>) s \<and>
   createFaculty sql (fd\<lparr>f_publications := Some []\<rparr>) s =
     createFaculty sql (fd\<lparr>f_publications := None\<rparr>) s \<and>
   createFaculty sql (fd\<lparr>f_projects := Some []\<rparr>) s =
     createFaculty sql (fd\<lparr>f_projects := None\<rparr>) s \<and>
   createFaculty sql (fd\<lparr>f_awards := Some []\<rparr>) s = createFaculty sql (fd\<lparr>f_awards := None\<rparr>) s \<and>
   createNews sql nd s =
     (case sql NewsInsert (createNews_params nd) s of
        (Inl (ErrorInstance m), s') \<Rightarrow> (Inl (Error (''Database operation failed: '' @ m)), s')
      | (Inl OtherValue, s') \<Rightarrow> (Inl (Error ''Database operation failed: Unknown error''), s')
      | (Inr [], s') \<Rightarrow> (Inl (Error ''Failed to create news article''), s')
      | (Inr (row # rows), s') \<Rightarrow> (Inr row, s')) \<and>
   createFaculty sql fd s =
     (case sql FacultyInsert (createFaculty_params fd) s of
        (Inl (ErrorInstance m), s') \<Rightarrow> (Inl (Error (''Database operation failed: '' @ m)), s')
      | (Inl OtherValue, s') \<Rightarrow> (Inl (Error ''Database operation failed: Unknown error''), s')
      | (Inr [], s') \<Rightarrow> (Inl (Error ''Failed to create faculty member''), s')
      | (Inr (row # rows), s') \<Rightarrow> (Inr row, s')) \<and>
   fst (pg NewsInsert (createNews_params (sample_news\<lparr>n_summary := Some []\<rparr>)) sample_db) =
     Inr [news_json \<lparr>r_id = 2, r_title = ''Open day'', r_slug = ''open-day'', r_summary = None,
                     r_content = ''Come'', r_thumbnail_url = None, r_author = Some ''Li'',
                     r_category = Some ''news'', r_published_at = 200, r_updated_at = 200,
                     r_is_published = True, r_view_count = 0, r_tags = Some [''a'', ''b'']\<rparr>] \<and>
   map r_summary (news (snd (createNews pg (sample_news\<lparr>n_summary := Some []\<rparr>) sample_db))) =
     [None, None]"
proof -
  have p: "createNews_params (nd\<lparr>n_summary := Some []\<rparr>) ! 2 = JNull \<and>
   createNews_params (nd\<lparr>n_thumbnailUrl := Some []\<rparr>) ! 4 = JNull \<and>
   createNews_params (nd\<lparr>n_author := Some []\<rparr>) ! 5 = JNull \<and>
   createNews_params (nd\<lparr>n_category := Some []\<rparr>) ! 6 = JNull \<and>
   createNews sql (nd\<lparr>n_summary := Some []\<rparr>) s = createNews sql (nd\<lparr>n_summary := None\<rparr>) s \<and>
   createNews sql (nd\<lparr>n_thumbnailUrl := Some []\<rparr>) s =
     createNews sql (nd\<lparr>n_thumbnailUrl := None\<rparr>) s \<and>
   createNews sql (nd\<lparr>n_author := Some []\<rparr>) s = createNews sql (nd\<lparr>n_author := None\<rparr>) s \<and>
   createNews sql (nd\<lparr>n_category := Some []\<rparr>) s = createNews sql (nd\<lparr>n_category := None\<rparr>) s \<and>
   createFaculty_params (fd\<lparr>f_nameEn := Some []\<rparr>) ! 1 = JNull \<and>
   createFaculty_params (fd\<lparr>f_photoUrl := Some []\<rparr>) ! 4 = JNull \<and>
   createFaculty_params (fd\<lparr>f_email := Some []\<rparr>) ! 5 = JNull \<and>
   createFaculty_params (fd\<lparr>f_phone := Some []\<rparr>) ! 6 = JNull \<and>
   createFaculty_params (fd\<lparr>f_office := Some []\<rparr>) ! 7 = JNull \<and>
   createFaculty_params (fd\<lparr>f_education := Some []\<rparr>) ! 9 = JNull \<and>
   createFaculty_params (fd\<lparr>f_biography := Some []\<rparr>) ! 10 = JNull \<and>
   createFaculty_params (fd\<lparr>f_publications := Some []\<rparr>) ! 11 = JNull \<and>
   createFaculty_params (fd\<lparr>f_projects := Some []\<rparr>) ! 12 = JNull \<and>
   createFaculty_params (fd\<lparr>f_awards := Some []\<rparr>) ! 13 = JNull \<and>
   createFaculty sql (fd\<lparr>f_nameEn := Some []\<rparr>) s = createFaculty sql (fd\<lparr>f_nameEn := None\<rparr>) s \<and>
   createFaculty sql (fd\<lparr>f_photoUrl := Some []\<rparr>) s =
     createFaculty sql (fd\<lparr>f_photoUrl := None\<rparr>) s \<and>
   createFaculty sql (fd\<lparr>f_email := Some []\<rparr>) s = createFaculty sql (fd\<lparr>f_email := None\<rparr>) s \<and>
   createFaculty sql (fd\<lparr>f_phone := Some []\<rparr>) s = createFaculty sql (fd\<lparr>f_phone := None\<rparr>) s \<and>
   createFaculty sql (fd\<lparr>f_office := Some []\<rparr>) s = createFaculty sql (fd\<lparr>f_office := None\<rparr>) s \<and>
   createFaculty sql (fd\<lparr>f_education := Some []\<rparr>) s =
     createFaculty sql (fd\<lparr>f_education := None\<rparr>) s \<and>
   createFaculty sql (fd\<lparr>f_biography := Some []\<rparr>) s =
     createFaculty sql (fd\<lparr>f_biography := None\<rparr>) s \<and>
   createFaculty sql (fd\<lparr>f_publications := Some []\<rparr>) s =
     createFaculty sql (fd\<lparr>f_publications := None\<rparr>) s \<and>
   createFaculty sql (fd\<lparr>f_projects := Some []\<rparr>) s =
     createFaculty sql (fd\<lparr>f_projects := None\<rparr>) s \<and>
   createFaculty sql (fd\<lparr>f_awards := Some []\<rparr>) s = createFaculty sql (fd\<lparr>f_awards := None\<rparr>) s"
    by (simp add: createNews_def createNews_params_def createFaculty_def createFaculty_params_def
        or_null_def)
  have n: "createNews sql nd s =
     (case sql NewsInsert (createNews_params nd) s of
        (Inl (ErrorInstance m), s') \<Rightarrow> (Inl (Error (''Database operation failed: '' @ m)), s')
      | (Inl OtherValue, s') \<Rightarrow> (Inl (Error ''Database operation failed: Unknown error''), s')
      | (Inr [], s') \<Rightarrow> (Inl (Error ''Failed to create news article''), s')
      | (Inr (row # rows), s') \<Rightarrow> (Inr row, s'))"
    by (simp add: createNews_def queryOne_def query_def
          split: prod.splits sum.splits thrown.splits list.splits)
  have f: "createFaculty sql fd s =
     (case sql FacultyInsert (createFaculty_params fd) s of
        (Inl (ErrorInstance m), s') \<Rightarrow> (Inl (Error (''Database operation failed: '' @ m)), s')
      | (Inl OtherValue, s') \<Rightarrow> (Inl (Error ''Database operation failed: Unknown error''), s')
      | (Inr [], s') \<Rightarrow> (Inl (Error ''Failed to create faculty member''), s')
      | (Inr (row # rows), s') \<Rightarrow> (Inr row, s'))"
    by (simp add: createFaculty_def queryOne_def query_def
          split: prod.splits sum.splits thrown.splits list.splits)
  have e: "fst (pg NewsInsert (createNews_params (sample_news\<lparr>n_summary := Some []\<rparr>)) sample_db) =
     Inr [news_json \<lparr>r_id = 2, r_title = ''Open day'', r_slug = ''open-day'', r_summary = None,
                     r_content = ''Come'', r_thumbnail_url = None, r_author = Some ''Li'',
                     r_category = Some ''news'', r_published_at = 200, r_updated_at = 200,
                     r_is_published = True, r_view_count = 0, r_tags = Some [''a'', ''b'']\<rparr>]"
    "map r_summary (news (snd (createNews pg (sample_news\<lparr>n_summary := Some []\<rparr>) sample_db))) =
     [None, None]"
    by code_simp+
  show ?thesis using p n f e by (intro conjI) simp_all
qed

section \<open>Properties of the repositories on the reference store\<close>

lemma updateNews_fields_empty: "updateNews_fields empty_news_patch = []"
  by (simp add: updateNews_fields_def empty_news_patch_def assign_def)

lemma updateFaculty_fields_empty: "updateFaculty_fields empty_faculty_patch = []"
  by (simp add: updateFaculty_fields_def empty_faculty_patch_def assign_def)

lemma queryOne_state: "snd (queryOne sql q ps s) = snd (sql q ps s)"
  by (simp add: queryOne_def query_def split: prod.splits sum.splits)

lemma select_by_id_state:
  "snd (pg NewsSelectById [v] d) = d\<lparr>journal := journal d @ [(NewsSelectById, [v])]\<rparr>"
  "snd (pg FacultySelectById [v] d) = d\<lparr>journal := journal d @ [(FacultySelectById, [v])]\<rparr>"
  by (simp_all add: pg_def run_stmt_def select_news_by_id_def select_faculty_by_id_def
        split: option.splits)

lemma getById_pg:
  assumes "- (2 ^ 31) \<le> i" "i < 2 ^ 31"
  shows "fst (getNewsById pg i d) =
           Inr (case filter (\<lambda>r. r_id r = i) (news d) of [] \<Rightarrow> None | r # _ \<Rightarrow> Some (news_json r))"
    and "fst (getFacultyById pg i d) =
           Inr (case filter (\<lambda>r. fr_id r = i) (faculty d) of [] \<Rightarrow> None | r # _ \<Rightarrow> Some (faculty_json r))"
  by (simp_all add: getNewsById_def getFacultyById_def queryOne_def query_def pg_def run_stmt_def
        select_news_by_id_def select_faculty_by_id_def as_int_num[OF assms] split: list.splits)

lemma getById_pg_refused:
  assumes "\<not> (- (2 ^ 31) \<le> i \<and> i < 2 ^ 31)" "\<bar>i\<bar> \<le> 2 ^ 53"
  shows "fst (getNewsById pg i d) =
           Inl (Error ''Database operation failed: invalid input for the parameters of the statement'')"
    and "fst (getFacultyById pg i d) =
           Inl (Error ''Database operation failed: invalid input for the parameters of the statement'')"
proof -
  have "as_int (num i) = None"
    using assms by (simp add: as_int_def as_integer_num)
  then show "fst (getNewsById pg i d) =
           Inl (Error ''Database operation failed: invalid input for the parameters of the statement'')"
    and "fst (getFacultyById pg i d) =
           Inl (Error ''Database operation failed: invalid input for the parameters of the statement'')"
    by (simp_all add: getNewsById_def getFacultyById_def queryOne_def query_def pg_def run_stmt_def
          invalid_input_def)
qed

text \<open>
  C6. With no field present, \<^verbatim>\<open>updateNews(id, {})\<close> is \<^verbatim>\<open>getNewsById(id)\<close> and
  \<^verbatim>\<open>updateFaculty(id, {})\<close> is \<^verbatim>\<open>getFacultyById(id)\<close>, on every driver and state: the
  same result and the same statements. On the reference store, for every id, the only
  statement entered in the journal is the \<^verbatim>\<open>SELECT\<close> by id, no \<^verbatim>\<open>UPDATE\<close>, and the
  tables, and with them every \<^verbatim>\<open>updated_at\<close>, are as before. The record returned is
  the stored row of that id when the id is in the range of the column, 32 bits; an id
  beyond that range is refused by the store, for the update as for the read.
\<close>

theorem empty_update_is_get_by_id:
  "updateNews sql ident empty_news_patch s = getNewsById sql ident s \<and>
   updateFaculty sql ident empty_faculty_patch s = getFacultyById sql ident s \<and>
   snd (updateNews pg ident empty_news_patch d) =
     d\<lparr>journal := journal d @ [(NewsSelectById, [num ident])]\<rparr> \<and>
   snd (updateFaculty pg ident empty_faculty_patch d) =
     d\<lparr>journal := journal d @ [(FacultySelectById, [num ident])]\<rparr> \<and>
   (- (2 ^ 31) \<le> ident \<and> ident < 2 ^ 31 \<longrightarrow>
      fst (updateNews pg ident empty_news_patch d) =
        Inr (case filter (\<lambda>r. r_id r = ident) (news d) of [] \<Rightarrow> None | r # _ \<Rightarrow> Some (news_json r)) \<and>
      fst (updateFaculty pg ident empty_faculty_patch d) =
        Inr (case filter (\<lambda>r. fr_id r = ident) (faculty d) of
               [] \<Rightarrow> None | r # _ \<Rightarrow> Some (faculty_json r))) \<and>
   (\<not> (- (2 ^ 31) \<le> ident \<and> ident < 2 ^ 31) \<and> \<bar>ident\<bar> \<le> 2 ^ 53 \<longrightarrow>
      fst (updateNews pg ident empty_news_patch d) =
        Inl (Error ''Database operation failed: invalid input for the parameters of the statement'') \<and>
      fst (updateFaculty pg ident empty_faculty_patch d) =
        Inl (Error ''Database operation failed: invalid input for the parameters of the statement''))"
proof -
  have u: "updateNews sql ident empty_news_patch s = getNewsById sql ident s"
    "updateFaculty sql ident empty_faculty_patch s = getFacultyById sql ident s" for sql :: "(stmt, 's) driver" and s
    by (simp_all add: updateNews_def updateFaculty_def updateNews_fields_empty updateFaculty_fields_empty)
  have st: "snd (getNewsById pg ident d) = d\<lparr>journal := journal d @ [(NewsSelectById, [num ident])]\<rparr>"
    "snd (getFacultyById pg ident d) = d\<lparr>journal := journal d @ [(FacultySelectById, [num ident])]\<rparr>"
    by (simp_all add: getNewsById_def getFacultyById_def queryOne_state select_by_id_state)
  show ?thesis
    unfolding u using st getById_pg[of ident d] getById_pg_refused[of ident d]
    by (intro conjI impI) simp_all
qed

theorem empty_update_is_get_by_id_witness:
  "fst (updateNews pg 1 empty_news_patch sample_db) = Inr (Some (news_json existing_article)) \<and>
   fst (updateFaculty pg 1 empty_faculty_patch sample_db) = Inr (Some (faculty_json sample_member)) \<and>
   news (snd (updateNews pg 1 empty_news_patch sample_db)) = [existing_article] \<and>
   journal (snd (updateNews pg 1 empty_news_patch sample_db)) = [(NewsSelectById, [num 1])] \<and>
   fst (updateNews pg (2 ^ 31) empty_news_patch sample_db) =
     Inl (Error ''Database operation failed: invalid input for the parameters of the statement'') \<and>
   fst (updateFaculty pg (2 ^ 31) empty_faculty_patch sample_db) =
     Inl (Error ''Database operation failed: invalid input for the parameters of the statement'')"
proof -
  have r: "- (2 ^ 31) \<le> (1::int) \<and> (1::int) < 2 ^ 31"
    "\<not> (- (2 ^ 31) \<le> (2 ^ 31 :: int) \<and> (2 ^ 31 :: int) < 2 ^ 31) \<and> \<bar>2 ^ 31 :: int\<bar> \<le> 2 ^ 53"
    by simp_all
  have f: "(case filter (\<lambda>r. r_id r = 1) (news sample_db) of [] \<Rightarrow> None | r # _ \<Rightarrow> Some (news_json r)) =
           Some (news_json existing_article)"
    "(case filter (\<lambda>r. fr_id r = 1) (faculty sample_db) of [] \<Rightarrow> None | r # _ \<Rightarrow> Some (faculty_json r)) =
           Some (faculty_json sample_member)"
    by code_simp+
  have n: "news sample_db = [existing_article]" "journal sample_db = []"
    by (simp_all add: sample_db_def)
  note a = empty_update_is_get_by_id[of pg 1 sample_db sample_db]
  note b = empty_update_is_get_by_id[of pg "2 ^ 31" sample_db sample_db]
  have a1: "fst (updateNews pg 1 empty_news_patch sample_db) = Inr (Some (news_json existing_article))"
    using a r(1) unfolding f by blast
  have a2: "fst (updateFaculty pg 1 empty_faculty_patch sample_db) = Inr (Some (faculty_json sample_member))"
    using a r(1) unfolding f by blast
  have a3: "snd (updateNews pg 1 empty_news_patch sample_db) =
     sample_db\<lparr>journal := journal sample_db @ [(NewsSelectById, [num 1])]\<rparr>"
    using a by blast
  have b1: "fst (updateNews pg (2 ^ 31) empty_news_patch sample_db) =
     Inl (Error ''Database operation failed: invalid input for the parameters of the statement'')"
    "fst (updateFaculty pg (2 ^ 31) empty_faculty_patch sample_db) =
     Inl (Error ''Database operation failed: invalid input for the parameters of the statement'')"
    using b r(2) by blast+
  show ?thesis
    unfolding a1 a2 a3 b1 by (simp add: n)
qed

lemma given_iff: "given category = (\<exists>c. c \<noteq> [] \<and> category = Some c)"
  by (cases category) (auto simp: given_def)

lemma as_text_JStr: "pg_text c \<Longrightarrow> as_text (JStr c) = Some c"
  by (simp add: as_text_def)

lemma select_news_list_pg:
  assumes "0 \<le> l" "l \<le> 2 ^ 53" "0 \<le> off" "off \<le> 2 ^ 53"
    and "selected = (case category of None \<Rightarrow> None | Some c \<Rightarrow> if c = [] then None else Some c)"
    and "case selected of None \<Rightarrow> True | Some c \<Rightarrow> pg_text c"
  shows "query pg (NewsSelectList (given category))
           ((if given category then [JStr (the category)] else []) @ [num l, num off]) d =
         (Inr (map news_json (take (nat l) (drop (nat off)
                 (newest_first (filter (news_where selected) (news d)))))),
          d\<lparr>journal := journal d @ [(NewsSelectList (given category),
               (if given category then [JStr (the category)] else []) @ [num l, num off])]\<rparr>)"
proof (cases "given category")
  case True
  then obtain c where c: "c \<noteq> []" "category = Some c" unfolding given_iff by blast
  then have "selected = Some c" "pg_text c" using assms(5,6) by simp_all
  then show ?thesis using True assms(1-4) c
    by (simp add: query_def pg_def run_stmt_def select_news_list_def as_text_JStr as_bigint_num)
next
  case False
  then have "selected = None" using assms(5) by (cases category) (auto simp: given_def)
  then show ?thesis using False assms(1-4)
    by (simp add: query_def pg_def run_stmt_def select_news_list_def as_bigint_num)
qed

lemma count_news_pg:
  assumes "selected = (case category of None \<Rightarrow> None | Some c \<Rightarrow> if c = [] then None else Some c)"
    and "case selected of None \<Rightarrow> True | Some c \<Rightarrow> pg_text c"
  shows "queryOne pg (NewsCount (given category)) (if given category then [JStr (the category)] else []) d =
     (Inr (Some [(''count'', JStr (decimal (int (length (filter (news_where selected) (news d))))))]),
      d\<lparr>journal := journal d @ [(NewsCount (given category),
               (if given category then [JStr (the category)] else []))]\<rparr>)"
proof (cases "given category")
  case True
  then obtain c where c: "c \<noteq> []" "category = Some c" unfolding given_iff by blast
  then have "selected = Some c" "pg_text c" using assms by simp_all
  then show ?thesis using True c
    by (simp add: queryOne_def query_def pg_def run_stmt_def count_news_def as_text_JStr)
next
  case False
  then have "selected = None" using assms(1) by (cases category) (auto simp: given_def)
  then show ?thesis using False
    by (simp add: queryOne_def query_def pg_def run_stmt_def count_news_def)
qed

lemma big_offset_text: "number_text 10000000000000000000 = ''10000000000000000000''"
  by code_simp

text \<open>
  C4, as the claim states it, fails. For the page \<open>10 ^ 17\<close> and the page size 100 the
  offset is \<open>10 ^ 19\<close>, beyond the 64 bits of \<^verbatim>\<open>OFFSET\<close>: the store refuses the
  statement and \<^verbatim>\<open>getNewsList\<close> throws. And the category \<open>''''\<close> is not applied as a
  filter: \<^verbatim>\<open>getNewsList\<close> returns the article of the category \<open>news\<close> and counts it.
\<close>

theorem news_list_beyond_its_bounds:
  "fst (getNewsList pg (10 ^ 17) 100 None sample_db) =
     Inl (Error ''Database operation failed: invalid input for the parameters of the statement'') \<and>
   fst (getNewsList pg 1 10 (Some []) sample_db) = Inr ([news_json existing_article], Some 1) \<and>
   field (news_json existing_article) ''category'' = JStr ''news''"
proof -
  have o: "round_double (round_double 99999999999999999 * 100) = 10000000000000000000"
    by code_simp
  have "pg_integer ''10000000000000000000'' = Some 10000000000000000000" by code_simp
  then have "as_bigint (num 10000000000000000000) = None"
    using big_offset_text by (simp add: as_bigint_def as_integer_def num_def)
  then have "fst (getNewsList pg (10 ^ 17) 100 None sample_db) =
     Inl (Error ''Database operation failed: invalid input for the parameters of the statement'')"
    by (simp add: getNewsList_def Let_def o given_def query_def pg_def run_stmt_def invalid_input_def
          split: option.splits)
  moreover have "fst (getNewsList pg 1 10 (Some []) sample_db) = Inr ([news_json existing_article], Some 1)"
    by code_simp
  moreover have "field (news_json existing_article) ''category'' = JStr ''news''"
    by code_simp
  ultimately show ?thesis by (intro conjI)
qed

text \<open>
  C4, amended. For \<open>page \<ge> 1\<close> and \<open>pageSize\<close> from 1 to 100 with an offset
  \<open>(page - 1) * pageSize\<close> of at most \<open>2 ^ 53\<close>, and a category that is absent, empty
  or a text of the store, \<^verbatim>\<open>getNewsList\<close> returns on the reference store. A category
  that is absent or the empty string is no filter, \<open>selected = None\<close>; any other is the
  filter. The items are the rows that are published and match the filter, newest first,
  from the offset \<open>(page - 1) * pageSize\<close>, at most \<open>pageSize\<close> of them; the total is
  the number of all rows that are published and match the same filter, whatever the page
  (as a double: the number itself up to \<open>2 ^ 53\<close>); the table is unchanged.
\<close>

theorem news_page_and_total:
  assumes "1 \<le> page" and "1 \<le> pageSize" and "pageSize \<le> 100"
    and "(page - 1) * pageSize \<le> 2 ^ 53"
    and "selected = (case category of None \<Rightarrow> None | Some c \<Rightarrow> if c = [] then None else Some c)"
    and "case selected of None \<Rightarrow> True | Some c \<Rightarrow> pg_text c"
  shows "\<exists>items d'.
           getNewsList pg page pageSize category d =
             (Inr (items,
                   Some (round_double (int (length (filter (news_where selected) (news d)))))), d') \<and>
           items = map news_json
                     (take (nat pageSize) (drop (nat ((page - 1) * pageSize))
                        (newest_first (filter (news_where selected) (news d))))) \<and>
           int (length items) \<le> pageSize \<and>
           news d' = news d"
proof -
  have p: "0 \<le> page - 1" using assms(1) by simp
  have "(page - 1) * 1 \<le> (page - 1) * pageSize"
    using p assms(2) by (intro mult_left_mono) simp_all
  then have "page - 1 \<le> 2 ^ 53" using assms(4) by simp
  then have r1: "round_double (page - 1) = page - 1"
    using p by (simp add: round_double_small)
  have o: "0 \<le> (page - 1) * pageSize" using p assms(2) by simp
  then have r2: "round_double ((page - 1) * pageSize) = (page - 1) * pageSize"
    using assms(4) by (simp add: round_double_small)
  have l: "0 \<le> pageSize" "pageSize \<le> 2 ^ 53" using assms(2,3) by simp_all
  show ?thesis
    using assms(2)
    by (simp add: getNewsList_def Let_def r1 r2
          select_news_list_pg[OF l o assms(4) assms(5) assms(6)] count_news_pg[OF assms(5) assms(6)]
          field_def parseInt10_decimal)
qed

theorem news_page_and_total_witness:
  "(\<exists>d'. getNewsList pg 1 10 None sample_db = (Inr ([news_json existing_article], Some 1), d') \<and>
         news d' = news sample_db) \<and>
   (\<exists>d'. getNewsList pg 2 10 (Some ''news'') sample_db = (Inr ([], Some 1), d') \<and>
         news d' = news sample_db)"
proof -
  have h: "(1::int) \<le> 1" "(1::int) \<le> 2" "(1::int) \<le> 10" "(10::int) \<le> 100"
    "(1 - 1) * (10::int) \<le> 2 ^ 53" "(2 - 1) * (10::int) \<le> 2 ^ 53" by simp_all
  have s: "None = (case None :: string option of None \<Rightarrow> None | Some c \<Rightarrow> if c = [] then None else Some c)"
    "Some ''news'' = (case Some ''news'' of None \<Rightarrow> None | Some c \<Rightarrow> if c = [] then None else Some c)"
    by simp_all
  have t: "case None :: string option of None \<Rightarrow> True | Some c \<Rightarrow> pg_text c"
    "case Some ''news'' of None \<Rightarrow> True | Some c \<Rightarrow> pg_text c"
    by code_simp+
  have e: "round_double (int (length (filter (news_where None) (news sample_db)))) = 1"
    "round_double (int (length (filter (news_where (Some ''news'')) (news sample_db)))) = 1"
    "map news_json (take (nat 10) (drop (nat ((1 - 1) * 10))
        (newest_first (filter (news_where None) (news sample_db))))) = [news_json existing_article]"
    "map news_json (take (nat 10) (drop (nat ((2 - 1) * 10))
        (newest_first (filter (news_where (Some ''news'')) (news sample_db))))) = []"
    by code_simp+
  show ?thesis
    using news_page_and_total[OF h(1) h(3) h(4) h(5) s(1) t(1), of sample_db]
      news_page_and_total[OF h(2) h(3) h(4) h(6) s(2) t(2), of sample_db]
    unfolding e by blast
qed

text \<open>
  C5, at a failing input. \<open>sample_news\<close> has the summary \<open>''''\<close>: \<^verbatim>\<open>createNews\<close> sends
  \<^verbatim>\<open>news.summary || null\<close>, and the record that it returns and that \<^verbatim>\<open>getNewsById\<close>
  reads back has the summary \<^verbatim>\<open>null\<close>, not the summary supplied. The sibling
  \<^verbatim>\<open>updateNews\<close> sends the summary as it is, and stores \<open>''''\<close> as \<open>''''\<close>.
\<close>

theorem created_empty_summary_reads_back_null:
  "n_summary sample_news = Some [] \<and>
   fst (createNews pg sample_news sample_db) =
     Inr [(''id'', JNum 2), (''title'', JStr ''Open day''), (''slug'', JStr ''open-day''),
          (''summary'', JNull), (''content'', JStr ''Come''), (''thumbnailUrl'', JNull),
          (''author'', JStr ''Li''), (''category'', JStr ''news''), (''publishedAt'', JDate 200),
          (''updatedAt'', JDate 200), (''isPublished'', JBool True), (''viewCount'', JNum 0),
          (''tags'', JArr [JStr ''a'', JStr ''b''])] \<and>
   fst (getNewsById pg 2 (snd (createNews pg sample_news sample_db))) =
     Inr (Some [(''id'', JNum 2), (''title'', JStr ''Open day''), (''slug'', JStr ''open-day''),
          (''summary'', JNull), (''content'', JStr ''Come''), (''thumbnailUrl'', JNull),
          (''author'', JStr ''Li''), (''category'', JStr ''news''), (''publishedAt'', JDate 200),
          (''updatedAt'', JDate 200), (''isPublished'', JBool True), (''viewCount'', JNum 0),
          (''tags'', JArr [JStr ''a'', JStr ''b''])]) \<and>
   fst (updateNews pg 1 (empty_news_patch\<lparr>nu_summary := Some []\<rparr>) sample_db) =
     Inr (Some (news_json (existing_article\<lparr>r_summary := Some [], r_updated_at := 200\<rparr>)))"
  by code_simp

section \<open>Properties of the search\<close>

text \<open>
  C2, at a failing input. \<^verbatim>\<open>searchFaculty\<close> puts the query between two \<^verbatim>\<open>%\<close> without
  escaping it, so the query \<open>_\<close> is the pattern \<^verbatim>\<open>%_%\<close>, in which the underscore
  stands for any character: the member named \<open>A\<close> is returned, though neither its name,
  nor its nameEn, its title or an entry of its researchInterests contains an underscore.
\<close>

theorem wildcard_query_returns_other_members:
  "fst (searchFaculty pg ''_'' sample_db) = Inr [faculty_json sample_member] \<and>
   field (faculty_json sample_member) ''name'' = JStr ''A'' \<and>
   field (faculty_json sample_member) ''nameEn'' = JNull \<and>
   field (faculty_json sample_member) ''title'' = JStr ''B'' \<and>
   field (faculty_json sample_member) ''researchInterests'' = JNull \<and>
   \<not> text_contains (lower_case sample_db) (field (faculty_json sample_member) ''name'') ''_'' \<and>
   \<not> text_contains (lower_case sample_db) (field (faculty_json sample_member) ''nameEn'') ''_'' \<and>
   \<not> text_contains (lower_case sample_db) (field (faculty_json sample_member) ''title'') ''_'' \<and>
   \<not> some_entry_contains (lower_case sample_db)
        (field (faculty_json sample_member) ''researchInterests'') ''_''"
  by code_simp

section \<open>Properties of the navigation assembly\<close>

lemma first_pass_fold_dom:
  "m k \<noteq> None \<or> k \<in> set (map (\<lambda>r. field r ''id'') rows) \<Longrightarrow>
   fold (\<lambda>row navMap. navMap(field row ''id'' \<mapsto> \<lparr>node_fields = row, node_children = Some []\<rparr>))
     rows m k \<noteq> None"
  by (induction rows arbitrary: m) auto

lemma first_pass_dom: "row \<in> set rows \<Longrightarrow> first_pass rows (field row ''id'') \<noteq> None"
  unfolding first_pass_def by (rule first_pass_fold_dom) simp

lemma second_pass_step_dom:
  "navMap k \<noteq> None \<Longrightarrow> fst (second_pass_step row (navMap, roots)) k \<noteq> None"
  by (auto simp: second_pass_step_def split: option.splits)

lemma second_pass_step_roots:
  "navMap (field row ''id'') \<noteq> None \<Longrightarrow>
   snd (second_pass_step row (navMap, roots)) =
     roots @ (if truthy (field row ''parentId'') then [] else [field row ''id''])"
  by (auto simp: second_pass_step_def split: option.splits)

lemma second_pass_fold_roots:
  "\<forall>row \<in> set rows. navMap (field row ''id'') \<noteq> None \<Longrightarrow>
   snd (fold second_pass_step rows (navMap, roots)) =
     roots @ map (\<lambda>r. field r ''id'') (filter (\<lambda>r. \<not> truthy (field r ''parentId'')) rows)"
proof (induction rows arbitrary: navMap roots)
  case Nil
  then show ?case by simp
next
  case (Cons row rows)
  obtain m' r' where s: "second_pass_step row (navMap, roots) = (m', r')"
    by (cases "second_pass_step row (navMap, roots)")
  have "m' k \<noteq> None" if "navMap k \<noteq> None" for k
    using second_pass_step_dom[of navMap k row roots] that s by simp
  then have d: "\<forall>x \<in> set rows. m' (field x ''id'') \<noteq> None"
    using Cons.prems by simp
  have "navMap (field row ''id'') \<noteq> None" using Cons.prems by simp
  then have r: "r' = roots @ (if truthy (field row ''parentId'') then [] else [field row ''id''])"
    using second_pass_step_roots[of navMap row roots] s by simp
  show ?case
    by (simp add: s Cons.IH[OF d] r)
qed

text \<open>
  The root list of the assembled navigation holds exactly the rows whose \<^verbatim>\<open>parentId\<close>
  is not truthy, in the order fetched: a row with a \<^verbatim>\<open>parentId\<close> is never put there,
  whether or not its parent is among the rows.
\<close>

lemma root_items_are_the_parentless_rows:
  "snd (second_pass rows (first_pass rows)) =
     map (\<lambda>r. field r ''id'') (filter (\<lambda>r. \<not> truthy (field r ''parentId'')) rows)"
  unfolding second_pass_def
  using second_pass_fold_roots[of rows "first_pass rows" "[]"] first_pass_dom[of _ rows]
  by simp

text \<open>
  C1, at a failing input. In \<open>sample_db\<close> the visible navigation row 2 has the hidden
  row 1 as its parent, so the rows fetched are row 2 alone, whose \<^verbatim>\<open>parentId\<close> matches
  no fetched row. The root list that \<^verbatim>\<open>getNavigationStructure\<close> returns is empty and so
  is the flattened result: the row is dropped, where the claim has it promoted to the
  root list.
\<close>

theorem orphan_navigation_row_is_dropped:
  "fst (query pg NavigationSelect [] sample_db) =
     Inr [[(''id'', num 2), (''label'', JStr ''History''), (''url'', JStr ''/about/history''),
           (''parentId'', num 1), (''sortOrder'', num 2), (''isVisible'', JBool True),
           (''icon'', JNull), (''description'', JNull)]] \<and>
   snd (fst (getNavigationStructure pg sample_db)) = [] \<and>
   flatten 2 (fst (fst (getNavigationStructure pg sample_db)))
     (snd (fst (getNavigationStructure pg sample_db))) = []"
  by code_simp

end
